theory Spec2Isabelle
  imports Complex_Main
begin

section \<open>Numbers and the built-in operations the sources rely on\<close>

text \<open>
  The sources compute with JavaScript numbers.  In the generators they are embedded as
  mathematical reals (\<^typ>\<open>real\<close>): every arithmetic operation is the exact one.  Where
  a statement turns on rounding, the arithmetic is written out operator by operator
  over a rounding function (\<open>roundDouble\<close> below is the rounding of IEEE 754 binary64);
  where it turns on NaN, numbers are \<open>real option\<close>.  Signed zeros and infinities are
  outside the model.  Calendar years and day numbers, which the sources only ever use
  as whole numbers, are \<^typ>\<open>int\<close> and \<^typ>\<open>nat\<close>.
\<close>

text \<open>The \<^verbatim>\<open>%\<close> operator on numbers: the remainder has the sign of the dividend
  (the quotient is truncated towards zero).\<close>

definition truncReal :: "real \<Rightarrow> int" where
  "truncReal x = (if 0 \<le> x then \<lfloor>x\<rfloor> else \<lceil>x\<rceil>)"

definition jsRem :: "real \<Rightarrow> real \<Rightarrow> real" where
  "jsRem a b = a - b * of_int (truncReal (a / b))"

text \<open>The same operator on whole numbers.\<close>

definition jsRemInt :: "int \<Rightarrow> int \<Rightarrow> int" where
  "jsRemInt a b = sgn a * (\<bar>a\<bar> mod \<bar>b\<bar>)"

text \<open>\<^verbatim>\<open>Math.atan2(y, x)\<close>: the angle of the point \<open>(x, y)\<close>, in \<open>(-\<pi>, \<pi>]\<close>.\<close>

definition atan2 :: "real \<Rightarrow> real \<Rightarrow> real" where
  "atan2 y x =
     (if 0 < x then arctan (y / x)
      else if x < 0 then (if 0 \<le> y then arctan (y / x) + pi else arctan (y / x) - pi)
      else if 0 < y then pi / 2
      else if y < 0 then - (pi / 2)
      else 0)"

subsection \<open>Rounding to a double\<close>

text \<open>
  Every numeric literal and every result of \<^verbatim>\<open>+\<close>, \<^verbatim>\<open>-\<close>, \<^verbatim>\<open>*\<close>, \<^verbatim>\<open>/\<close> is the exact value
  rounded to the nearest number with a 53-bit significand, ties to the even
  significand.  \<open>binade x\<close> is the exponent \<open>e\<close> with \<open>2\<^sup>e \<le> |x| < 2\<^sup>e\<^sup>+\<^sup>1\<close>; the doubles
  of that binade are the whole multiples of \<open>2\<^sup>e\<^sup>-\<^sup>5\<^sup>2\<close>.  Overflow and the subnormal range
  are not modelled: no value of the computations below comes near them.
\<close>

definition roundHalfEven :: "real \<Rightarrow> int" where
  "roundHalfEven x =
     (let f = \<lfloor>x\<rfloor>; d = x - of_int f
      in if d < 1 / 2 then f else if 1 / 2 < d then f + 1 else if even f then f else f + 1)"

definition binade :: "real \<Rightarrow> int" where
  "binade x = \<lfloor>log 2 \<bar>x\<bar>\<rfloor>"

definition roundDouble :: "real \<Rightarrow> real" where
  "roundDouble x =
     (if x = 0 then 0
      else of_int (roundHalfEven (x / 2 powr of_int (binade x - 52))) * 2 powr of_int (binade x - 52))"

subsection \<open>The three one-line helpers of \<^verbatim>\<open>solar.ts\<close>\<close>

definition deg2rad :: "real \<Rightarrow> real" where
  "deg2rad d = (d * pi) / 180"

definition rad2deg :: "real \<Rightarrow> real" where
  "rad2deg r = (r * 180) / pi"

definition normalizeDeg :: "real \<Rightarrow> real" where
  "normalizeDeg d = jsRem (jsRem d 360 + 360) 360"

section \<open>Calendar: the built-in \<^verbatim>\<open>Date\<close> and the calendar helpers of \<^verbatim>\<open>solar.ts\<close>\<close>

subsection \<open>The day arithmetic of ECMAScript's \<^verbatim>\<open>Date\<close>\<close>

text \<open>
  Every \<^verbatim>\<open>Date\<close> the program builds stands at 00:00:00.000 UTC, so a time value is
  kept as its day number (days since 1970-01-01).  The operations below are the
  abstract operations of the language standard, on day numbers.  An invalid date (time
  value NaN) is \<^term>\<open>None\<close>.
\<close>

definition DaysInYear :: "int \<Rightarrow> int" where
  "DaysInYear y = (if y mod 4 \<noteq> 0 then 365 else if y mod 100 \<noteq> 0 then 366
                   else if y mod 400 \<noteq> 0 then 365 else 366)"

definition DayFromYear :: "int \<Rightarrow> int" where
  "DayFromYear y = 365 * (y - 1970) + (y - 1969) div 4 - (y - 1901) div 100 + (y - 1601) div 400"

lemma div_step:
  fixes a k :: int
  assumes k: "0 < k"
  shows "(a + 1) div k = a div k + (if (a + 1) mod k = 0 then 1 else 0)"
proof -
  define q r where "q = a div k" and "r = a mod k"
  have a: "a = k * q + r" and r0: "0 \<le> r" and rk: "r < k"
    using k by (simp_all add: q_def r_def)
  show ?thesis
  proof (cases "r + 1 = k")
    case True
    then have e: "a + 1 = k * (q + 1) + 0" using a by (simp add: algebra_simps)
    have "(a + 1) div k = q + 1" by (rule int_div_pos_eq [OF e]) (use k in simp_all)
    moreover have "(a + 1) mod k = 0" by (rule int_mod_pos_eq [OF e]) (use k in simp_all)
    ultimately show ?thesis by (simp add: q_def)
  next
    case False
    then have lt: "r + 1 < k" using rk by simp
    have e: "a + 1 = k * q + (r + 1)" using a by simp
    have "(a + 1) div k = q" by (rule int_div_pos_eq [OF e]) (use r0 lt in simp_all)
    moreover have "(a + 1) mod k = r + 1" by (rule int_mod_pos_eq [OF e]) (use r0 lt in simp_all)
    ultimately show ?thesis using r0 by (simp add: q_def)
  qed
qed

lemma mod_shift:
  fixes y c k :: int
  assumes "c mod k = 0"
  shows "(y + c) mod k = 0 \<longleftrightarrow> y mod k = 0"
  using assms by (metis add.right_neutral mod_add_right_eq)

lemma DayFromYear_Suc: "DayFromYear (y + 1) = DayFromYear y + DaysInYear y"
proof -
  have a4: "(y + 1 - 1969) div 4 = (y - 1969) div 4 + (if y mod 4 = 0 then 1 else 0)"
    using div_step [of 4 "y - 1969"] mod_shift [of "-1968" 4 y] by (simp add: algebra_simps)
  have a100: "(y + 1 - 1901) div 100 = (y - 1901) div 100 + (if y mod 100 = 0 then 1 else 0)"
    using div_step [of 100 "y - 1901"] mod_shift [of "-1900" 100 y] by (simp add: algebra_simps)
  have a400: "(y + 1 - 1601) div 400 = (y - 1601) div 400 + (if y mod 400 = 0 then 1 else 0)"
    using div_step [of 400 "y - 1601"] mod_shift [of "-1600" 400 y] by (simp add: algebra_simps)
  have m1: "y mod 100 = 0 \<Longrightarrow> y mod 4 = 0" by presburger
  have m2: "y mod 400 = 0 \<Longrightarrow> y mod 100 = 0" by presburger
  show ?thesis
    unfolding DayFromYear_def DaysInYear_def a4 a100 a400 using m1 m2 by auto
qed

lemma DaysInYear_ge: "365 \<le> DaysInYear y"
  by (simp add: DaysInYear_def)

lemma DayFromYear_less: "DayFromYear (y - 1) < DayFromYear y"
  using DayFromYear_Suc [of "y - 1"] DaysInYear_ge [of "y - 1"] by simp

text \<open>\<^verbatim>\<open>YearFromTime\<close> is the largest year whose first day is not after the given day.
  It is found by walking down from an estimate to a year that starts early enough, then
  up to the last such year.\<close>

function yearDown :: "int \<Rightarrow> int \<Rightarrow> int" where
  "yearDown d y = (if d < DayFromYear y then yearDown d (y - 1) else y)"
  by pat_completeness auto
termination
proof (relation "measure (\<lambda>(d, y). nat (DayFromYear y - d))")
  show "wf (measure (\<lambda>(d, y). nat (DayFromYear y - d)))" by simp
next
  fix d y :: int
  assume "d < DayFromYear y"
  then show "((d, y - 1), (d, y)) \<in> measure (\<lambda>(d, y). nat (DayFromYear y - d))"
    using DayFromYear_less [of y] by simp
qed

function yearUp :: "int \<Rightarrow> int \<Rightarrow> int" where
  "yearUp d y = (if DayFromYear (y + 1) \<le> d then yearUp d (y + 1) else y)"
  by pat_completeness auto
termination
proof (relation "measure (\<lambda>(d, y). nat (d - DayFromYear y))")
  show "wf (measure (\<lambda>(d, y). nat (d - DayFromYear y)))" by simp
next
  fix d y :: int
  assume "DayFromYear (y + 1) \<le> d"
  then show "((d, y + 1), (d, y)) \<in> measure (\<lambda>(d, y). nat (d - DayFromYear y))"
    using DayFromYear_Suc [of y] DaysInYear_ge [of y] by simp
qed

declare yearDown.simps [simp del] yearUp.simps [simp del]

definition YearFromTime :: "int \<Rightarrow> int" where
  "YearFromTime d = yearUp d (yearDown d (1970 + d div 365))"

definition InLeapYear :: "int \<Rightarrow> int" where
  "InLeapYear d = (if DaysInYear (YearFromTime d) = 366 then 1 else 0)"

definition DayWithinYear :: "int \<Rightarrow> int" where
  "DayWithinYear d = d - DayFromYear (YearFromTime d)"

text \<open>The day within the year on which month \<open>m\<close> (0 to 11) starts.\<close>

definition monthStart :: "int \<Rightarrow> int \<Rightarrow> int" where
  "monthStart leap m =
     (if m = 0 then 0 else if m = 1 then 31 else if m = 2 then 59 + leap
      else if m = 3 then 90 + leap else if m = 4 then 120 + leap else if m = 5 then 151 + leap
      else if m = 6 then 181 + leap else if m = 7 then 212 + leap else if m = 8 then 243 + leap
      else if m = 9 then 273 + leap else if m = 10 then 304 + leap else 334 + leap)"

definition MonthFromTime :: "int \<Rightarrow> int" where
  "MonthFromTime d =
     (let w = DayWithinYear d; leap = InLeapYear d in
      if w < 31 then 0 else if w < 59 + leap then 1 else if w < 90 + leap then 2
      else if w < 120 + leap then 3 else if w < 151 + leap then 4 else if w < 181 + leap then 5
      else if w < 212 + leap then 6 else if w < 243 + leap then 7 else if w < 273 + leap then 8
      else if w < 304 + leap then 9 else if w < 334 + leap then 10 else 11)"

definition DateFromTime :: "int \<Rightarrow> int" where
  "DateFromTime d = DayWithinYear d - monthStart (InLeapYear d) (MonthFromTime d) + 1"

text \<open>\<^verbatim>\<open>MakeDay(year, month, date)\<close> for a month in 0 to 11, and \<^verbatim>\<open>TimeClip\<close>: a time
  value is valid up to \<open>8.64 \<times> 10\<^sup>1\<^sup>5\<close> milliseconds, that is \<open>10\<^sup>8\<close> days, either side of
  the epoch.\<close>

definition MakeDay :: "int \<Rightarrow> int \<Rightarrow> int \<Rightarrow> int" where
  "MakeDay y m dt = DayFromYear y + monthStart (if DaysInYear y = 366 then 1 else 0) m + dt - 1"

definition TimeClip :: "int \<Rightarrow> int option" where
  "TimeClip d = (if \<bar>d\<bar> \<le> 100000000 then Some d else None)"

text \<open>\<^verbatim>\<open>Date.UTC(year, 0, 1)\<close>: a year from 0 to 99 stands for 1900 + year.\<close>

definition DateUTC :: "int \<Rightarrow> int option" where
  "DateUTC y = (let yr = (if 0 \<le> y \<and> y \<le> 99 then 1900 + y else y) in TimeClip (MakeDay yr 0 1))"

definition setUTCDate :: "int option \<Rightarrow> int \<Rightarrow> int option" where
  "setUTCDate t dt =
     (case t of None \<Rightarrow> None
      | Some d \<Rightarrow> TimeClip (MakeDay (YearFromTime d) (MonthFromTime d) dt))"

definition getUTCFullYear :: "int option \<Rightarrow> int option" where
  "getUTCFullYear t = map_option YearFromTime t"

definition getUTCMonth :: "int option \<Rightarrow> int option" where
  "getUTCMonth t = map_option MonthFromTime t"

definition getUTCDate :: "int option \<Rightarrow> int option" where
  "getUTCDate t = map_option DateFromTime t"

subsection \<open>Numbers as text\<close>

fun showNat :: "nat \<Rightarrow> string" where
  "showNat n = (if n < 10 then [char_of (48 + n)]
                else showNat (n div 10) @ [char_of (48 + n mod 10)])"

declare showNat.simps [simp del]

text \<open>\<^verbatim>\<open>String(x)\<close> and template interpolation of a whole number, or of NaN.\<close>

definition jsString :: "int option \<Rightarrow> string" where
  "jsString x =
     (case x of None \<Rightarrow> ''NaN''
      | Some i \<Rightarrow> if i < 0 then CHR ''-'' # showNat (nat (- i)) else showNat (nat i))"

text \<open>\<^verbatim>\<open>s.padStart(2, "0")\<close>.\<close>

definition padStart2 :: "string \<Rightarrow> string" where
  "padStart2 s = replicate (2 - length s) CHR ''0'' @ s"

subsection \<open>\<^verbatim>\<open>isLeapYear\<close>, \<^verbatim>\<open>daysInYear\<close>, \<^verbatim>\<open>dateFromDayOfYear\<close>\<close>

definition isLeapYear :: "int \<Rightarrow> bool" where
  "isLeapYear y = ((jsRemInt y 4 = 0 \<and> jsRemInt y 100 \<noteq> 0) \<or> jsRemInt y 400 = 0)"

definition daysInYear :: "int \<Rightarrow> nat" where
  "daysInYear y = (if isLeapYear y then 366 else 365)"

definition dateFromDayOfYear :: "int \<Rightarrow> int \<Rightarrow> string" where
  "dateFromDayOfYear yr day =
     (let date = setUTCDate (DateUTC yr) day;
          yyyy = getUTCFullYear date;
          mm2 = padStart2 (jsString (map_option (\<lambda>m. m + 1) (getUTCMonth date)));
          dd2 = padStart2 (jsString (getUTCDate date))
      in jsString yyyy @ ''-'' @ mm2 @ ''-'' @ dd2)"

section \<open>\<^verbatim>\<open>solar.ts\<close>: the series generators\<close>

subsection \<open>Data\<close>

text \<open>\<^verbatim>\<open>TimeMode\<close> is declared with the single alternative \<^verbatim>\<open>fixedLocalTime\<close>.\<close>

datatype TimeMode = fixedLocalTime (hh: real) (mm: real)

text \<open>\<^verbatim>\<open>AnalemmaPoint\<close> has the fields of \<^verbatim>\<open>AnalemmaInsetPoint\<close> and \<^verbatim>\<open>dateISO\<close>.\<close>

record AnalemmaInsetPoint =
  azimuthDeg :: real
  altitudeDeg :: real
  visible :: bool
  E :: real
  N :: real
  U :: real

record AnalemmaPoint = AnalemmaInsetPoint +
  dateISO :: string

record EotPoint =
  dateISO :: string
  dayOfYear :: nat
  eotMinutes :: real
  obliquityComponent :: real
  eccentricityComponent :: real

record AnalemmaInputs =
  latitudeDeg :: real
  longitudeDeg :: real
  timeMode :: TimeMode
  tzOffsetHours :: real
  year :: "int option"

subsection \<open>The hour angle\<close>

text \<open>The block that \<^verbatim>\<open>computeAnalemmaPoints\<close> and \<^verbatim>\<open>computeAnalemmaInset\<close> both
  carry, word for word, between the equation of time and the horizontal transform:
  the meridian of the time zone, the time correction, the true solar time and its
  normalisation \<^verbatim>\<open>((trueSolarTimeMin % 1440) + 1440) % 1440\<close>; then the hour angle in
  degrees.  \<open>trueSolarTimeMin0\<close> is the variable before its reassignment.\<close>

definition trueSolarTimeMin :: "real \<Rightarrow> real \<Rightarrow> real \<Rightarrow> real \<Rightarrow> real" where
  "trueSolarTimeMin localClockMinutes eotMin lon tz =
     (let LSTM = 15 * tz;
          timeOffsetMin = eotMin + 4 * (lon - LSTM);
          trueSolarTimeMin0 = localClockMinutes + timeOffsetMin
      in jsRem (jsRem trueSolarTimeMin0 1440 + 1440) 1440)"

definition H_deg :: "real \<Rightarrow> real" where
  "H_deg tst = tst / 4 - 180"

subsection \<open>\<^verbatim>\<open>computeAnalemmaPoints\<close>\<close>

text \<open>One pass of the loop body, for day \<open>n\<close>: the point it pushes.  The running
  statistics of the loop and the debug report after it are never read by the result
  and are left out.\<close>

definition analemmaPoint :: "AnalemmaInputs \<Rightarrow> int \<Rightarrow> nat \<Rightarrow> real \<Rightarrow> real \<Rightarrow> nat \<Rightarrow> AnalemmaPoint" where
  "analemmaPoint inputs yr nDays phi localClockMinutes n =
     (let gamma = (2 * pi / real nDays) * (real n - 1 + 0.5);
          decl = 0.006918
                 - 0.399912 * cos gamma
                 + 0.070257 * sin gamma
                 - 0.006758 * cos (2 * gamma)
                 + 0.000907 * sin (2 * gamma)
                 - 0.002697 * cos (3 * gamma)
                 + 0.00148 * sin (3 * gamma);
          eotMin = 229.18 * (0.000075
                             + 0.001868 * cos gamma
                             - 0.032077 * sin gamma
                             - 0.014615 * cos (2 * gamma)
                             - 0.040849 * sin (2 * gamma));
          tz = tzOffsetHours inputs;
          tst = trueSolarTimeMin localClockMinutes eotMin (longitudeDeg inputs) tz;
          H = deg2rad (H_deg tst);
          e = cos decl * sin H;
          n' = cos phi * sin decl - sin phi * cos decl * cos H;
          u = sin phi * sin decl + cos phi * cos decl * cos H;
          alt = rad2deg (arcsin (max (- 1) (min 1 u)));
          az = normalizeDeg (rad2deg (atan2 e n'));
          iso = dateFromDayOfYear yr (int n);
          vis = (0 < alt)
      in \<lparr> azimuthDeg = az, altitudeDeg = alt, visible = vis, E = e, N = n', U = u,
           AnalemmaPoint.dateISO = iso \<rparr>)"

text \<open>The loop \<^verbatim>\<open>for (let n = 1; n <= nDays; n++)\<close>, with the array it appends to.\<close>

function analemmaLoop ::
  "AnalemmaInputs \<Rightarrow> int \<Rightarrow> nat \<Rightarrow> real \<Rightarrow> real \<Rightarrow> nat \<Rightarrow> AnalemmaPoint list \<Rightarrow> AnalemmaPoint list" where
  "analemmaLoop inputs yr nDays phi localClockMinutes n points =
     (if n \<le> nDays
      then analemmaLoop inputs yr nDays phi localClockMinutes (n + 1)
             (points @ [analemmaPoint inputs yr nDays phi localClockMinutes n])
      else points)"
  by pat_completeness auto
termination
  by (relation "measure (\<lambda>(inputs, yr, nDays, phi, localClockMinutes, n, points). nDays + 1 - n)") auto

declare analemmaLoop.simps [simp del]

text \<open>The first argument stands for \<^verbatim>\<open>new Date().getFullYear()\<close>, read when the inputs
  give no year.\<close>

definition computeAnalemmaPoints :: "int \<Rightarrow> AnalemmaInputs \<Rightarrow> AnalemmaPoint list" where
  "computeAnalemmaPoints currentYear inputs =
     (let yr = (case year inputs of Some y \<Rightarrow> y | None \<Rightarrow> currentYear);
          nDays = daysInYear yr;
          phi = deg2rad (latitudeDeg inputs);
          hh' = min 23 (max 0 (hh (timeMode inputs)));
          mm' = min 59 (max 0 (mm (timeMode inputs)));
          localClockMinutes = hh' * 60 + mm'
      in analemmaLoop inputs yr nDays phi localClockMinutes 1 [])"

subsection \<open>\<^verbatim>\<open>computeEquationOfTime\<close>\<close>

definition eotPoint :: "int \<Rightarrow> nat \<Rightarrow> nat \<Rightarrow> EotPoint" where
  "eotPoint yr nDays n =
     (let gamma = (2 * pi / real nDays) * (real n - 1 + 0.5);
          obliquity = 229.18 * (- 0.032077 * sin gamma
                                - 0.040849 * sin (2 * gamma));
          eccentricity = 229.18 * (0.000075
                                   + 0.001868 * cos gamma
                                   - 0.014615 * cos (2 * gamma));
          eot = obliquity + eccentricity;
          iso = dateFromDayOfYear yr (int n)
      in \<lparr> dateISO = iso, dayOfYear = n, eotMinutes = eot,
           obliquityComponent = obliquity, eccentricityComponent = eccentricity \<rparr>)"

function eotLoop :: "int \<Rightarrow> nat \<Rightarrow> nat \<Rightarrow> EotPoint list \<Rightarrow> EotPoint list" where
  "eotLoop yr nDays n points =
     (if n \<le> nDays then eotLoop yr nDays (n + 1) (points @ [eotPoint yr nDays n]) else points)"
  by pat_completeness auto
termination
  by (relation "measure (\<lambda>(yr, nDays, n, points). nDays + 1 - n)") auto

declare eotLoop.simps [simp del]

definition computeEquationOfTime :: "int \<Rightarrow> EotPoint list" where
  "computeEquationOfTime yr = (let nDays = daysInYear yr in eotLoop yr nDays 1 [])"

subsection \<open>The equation of time, operator by operator\<close>

text \<open>
  The three assignments \<^verbatim>\<open>obliquityComponent\<close>, \<^verbatim>\<open>eccentricityComponent\<close>, \<^verbatim>\<open>eotMinutes\<close>
  of \<^verbatim>\<open>computeEquationOfTime\<close> and the assignment \<^verbatim>\<open>eotMin\<close> of \<^verbatim>\<open>computeAnalemmaPoints\<close>,
  in the order JavaScript evaluates them (\<^verbatim>\<open>*\<close> before \<^verbatim>\<open>+\<close> and \<^verbatim>\<open>-\<close>, which associate to
  the left), every literal and every result passed through \<open>rnd\<close>.  The arguments \<open>s1\<close>,
  \<open>s2\<close>, \<open>c1\<close>, \<open>c2\<close> are the values of \<^verbatim>\<open>Math.sin(gamma)\<close>, \<^verbatim>\<open>Math.sin(2 * gamma)\<close>,
  \<^verbatim>\<open>Math.cos(gamma)\<close>, \<^verbatim>\<open>Math.cos(2 * gamma)\<close>.  With the identity for \<open>rnd\<close> these are the
  real expressions of the generators above; with \<open>roundDouble\<close> they are the arithmetic
  the program runs.
\<close>

definition obliquityComponentFl :: "(real \<Rightarrow> real) \<Rightarrow> real \<Rightarrow> real \<Rightarrow> real" where
  "obliquityComponentFl rnd s1 s2 =
     rnd (rnd 229.18 * rnd (rnd ((- rnd 0.032077) * s1)
                            - rnd (rnd 0.040849 * s2)))"

definition eccentricityComponentFl :: "(real \<Rightarrow> real) \<Rightarrow> real \<Rightarrow> real \<Rightarrow> real" where
  "eccentricityComponentFl rnd c1 c2 =
     rnd (rnd 229.18 * rnd (rnd (rnd 0.000075
                                 + rnd (rnd 0.001868 * c1))
                            - rnd (rnd 0.014615 * c2)))"

definition eotMinutesFl :: "(real \<Rightarrow> real) \<Rightarrow> real \<Rightarrow> real \<Rightarrow> real \<Rightarrow> real \<Rightarrow> real" where
  "eotMinutesFl rnd s1 s2 c1 c2 =
     rnd (obliquityComponentFl rnd s1 s2 + eccentricityComponentFl rnd c1 c2)"

definition eotMinFl :: "(real \<Rightarrow> real) \<Rightarrow> real \<Rightarrow> real \<Rightarrow> real \<Rightarrow> real \<Rightarrow> real" where
  "eotMinFl rnd s1 s2 c1 c2 =
     rnd (rnd 229.18 * rnd (rnd (rnd (rnd (rnd 0.000075
                                           + rnd (rnd 0.001868 * c1))
                                      - rnd (rnd 0.032077 * s1))
                                 - rnd (rnd 0.014615 * c2))
                            - rnd (rnd 0.040849 * s2)))"

text \<open>
  Day 183 of 2024 (2024-07-01), 366 days: \<^verbatim>\<open>gamma\<close> is the double 3.133009067104575, and
  \<^verbatim>\<open>Math.sin(gamma)\<close> = 0.008583481082087117, \<^verbatim>\<open>Math.sin(2 * gamma)\<close> = -0.017166329754707492,
  \<^verbatim>\<open>Math.cos(gamma)\<close> = -0.9999631612477099, \<^verbatim>\<open>Math.cos(2 * gamma)\<close> = 0.9998526477050269,
  the doubles nearest to the sines and cosines of that \<^verbatim>\<open>gamma\<close>.  Here they are with their
  53-bit significands.
\<close>

definition day183_sin :: real where
  "day183_sin = 4948039961962143 / 2 ^ 59"

definition day183_sin2 :: real where
  "day183_sin2 = - (4947857682343662 / 2 ^ 58)"

definition day183_cos :: real where
  "day183_cos = - (9006867440758819 / 2 ^ 53)"

definition day183_cos2 :: real where
  "day183_cos2 = 9005872023259526 / 2 ^ 53"

subsection \<open>\<^verbatim>\<open>computeAnalemmaInset\<close>\<close>

definition insetPoint ::
  "AnalemmaInputs \<Rightarrow> bool \<Rightarrow> bool \<Rightarrow> nat \<Rightarrow> real \<Rightarrow> real \<Rightarrow> nat \<Rightarrow> AnalemmaInsetPoint" where
  "insetPoint inputs includeObliquity includeEccentricity nDays phi localClockMinutes n =
     (let gamma = (2 * pi / real nDays) * (real n - 1 + 0.5);
          decl = (if includeObliquity
                  then 0.006918
                       - 0.399912 * cos gamma
                       + 0.070257 * sin gamma
                       - 0.006758 * cos (2 * gamma)
                       + 0.000907 * sin (2 * gamma)
                       - 0.002697 * cos (3 * gamma)
                       + 0.00148 * sin (3 * gamma)
                  else 0);
          eotMin0 = 0;
          eotMin1 = (if includeObliquity
                     then eotMin0 + 229.18 * (- 0.032077 * sin gamma
                                              - 0.040849 * sin (2 * gamma))
                     else eotMin0);
          eotMin = (if includeEccentricity
                    then eotMin1 + 229.18 * (0.000075
                                             + 0.001868 * cos gamma
                                             - 0.014615 * cos (2 * gamma))
                    else eotMin1);
          tz = tzOffsetHours inputs;
          tst = trueSolarTimeMin localClockMinutes eotMin (longitudeDeg inputs) tz;
          H = deg2rad (H_deg tst);
          e = cos decl * sin H;
          n' = cos phi * sin decl - sin phi * cos decl * cos H;
          u = sin phi * sin decl + cos phi * cos decl * cos H;
          alt = rad2deg (arcsin (max (- 1) (min 1 u)));
          az = normalizeDeg (rad2deg (atan2 e n'));
          vis = (0 < alt)
      in \<lparr> azimuthDeg = az, altitudeDeg = alt, visible = vis, E = e, N = n', U = u \<rparr>)"

function insetLoop ::
  "AnalemmaInputs \<Rightarrow> bool \<Rightarrow> bool \<Rightarrow> nat \<Rightarrow> real \<Rightarrow> real \<Rightarrow> nat \<Rightarrow> AnalemmaInsetPoint list
     \<Rightarrow> AnalemmaInsetPoint list" where
  "insetLoop inputs includeObliquity includeEccentricity nDays phi localClockMinutes n points =
     (if n \<le> nDays
      then insetLoop inputs includeObliquity includeEccentricity nDays phi localClockMinutes (n + 1)
             (points @ [insetPoint inputs includeObliquity includeEccentricity nDays phi
                          localClockMinutes n])
      else points)"
  by pat_completeness auto
termination
  by (relation "measure (\<lambda>(inputs, io, ie, nDays, phi, localClockMinutes, n, points). nDays + 1 - n)")
    auto

declare insetLoop.simps [simp del]

definition computeAnalemmaInset ::
  "int \<Rightarrow> AnalemmaInputs \<Rightarrow> bool \<Rightarrow> bool \<Rightarrow> AnalemmaInsetPoint list" where
  "computeAnalemmaInset currentYear inputs includeObliquity includeEccentricity =
     (let yr = (case year inputs of Some y \<Rightarrow> y | None \<Rightarrow> currentYear);
          nDays = daysInYear yr;
          phi = deg2rad (latitudeDeg inputs);
          localClockMinutes = hh (timeMode inputs) * 60 + mm (timeMode inputs)
      in insetLoop inputs includeObliquity includeEccentricity nDays phi localClockMinutes 1 [])"

section \<open>\<^verbatim>\<open>computeAnalemmaPoints\<close> on run-time values\<close>

text \<open>
  The interface types are erased when the program runs, and a caller written in
  JavaScript can pass an object that lacks properties: \<^verbatim>\<open>test-analemma.js\<close> passes the
  time mode \<^verbatim>\<open>{ kind: 'solarNoon' }\<close> and no \<^verbatim>\<open>tzOffsetHours\<close>.  An absent property reads
  as \<^verbatim>\<open>undefined\<close>, which every arithmetic operator and \<^verbatim>\<open>Math.min\<close>, \<^verbatim>\<open>Math.max\<close>
  convert to NaN; NaN propagates through the operators and the \<^verbatim>\<open>Math\<close> functions, and a
  comparison with NaN is false.  A number at run time is a \<open>real option\<close>, \<open>None\<close> for NaN
  and for \<^verbatim>\<open>undefined\<close> where a number is read.  The infinities are not represented: the
  divisors of this function are literals, \<^verbatim>\<open>Math.PI\<close> and the number of days.
\<close>

type_synonym jsNumber = "real option"

definition strict2 :: "(real \<Rightarrow> real \<Rightarrow> real) \<Rightarrow> jsNumber \<Rightarrow> jsNumber \<Rightarrow> jsNumber" where
  "strict2 f x y = (case x of None \<Rightarrow> None | Some a \<Rightarrow> (case y of None \<Rightarrow> None | Some b \<Rightarrow> Some (f a b)))"

definition numAdd :: "jsNumber \<Rightarrow> jsNumber \<Rightarrow> jsNumber" where
  "numAdd x y = strict2 (\<lambda>a b. a + b) x y"

definition numSub :: "jsNumber \<Rightarrow> jsNumber \<Rightarrow> jsNumber" where
  "numSub x y = strict2 (\<lambda>a b. a - b) x y"

definition numMul :: "jsNumber \<Rightarrow> jsNumber \<Rightarrow> jsNumber" where
  "numMul x y = strict2 (\<lambda>a b. a * b) x y"

text \<open>Division and remainder by zero give no finite number.\<close>

definition numDiv :: "jsNumber \<Rightarrow> jsNumber \<Rightarrow> jsNumber" where
  "numDiv x y = (if y = Some 0 then None else strict2 (\<lambda>a b. a / b) x y)"

definition numRem :: "jsNumber \<Rightarrow> jsNumber \<Rightarrow> jsNumber" where
  "numRem x y = (if y = Some 0 then None else strict2 jsRem x y)"

definition Math_min :: "jsNumber \<Rightarrow> jsNumber \<Rightarrow> jsNumber" where
  "Math_min x y = strict2 min x y"

definition Math_max :: "jsNumber \<Rightarrow> jsNumber \<Rightarrow> jsNumber" where
  "Math_max x y = strict2 max x y"

definition Math_sin :: "jsNumber \<Rightarrow> jsNumber" where
  "Math_sin x = map_option sin x"

definition Math_cos :: "jsNumber \<Rightarrow> jsNumber" where
  "Math_cos x = map_option cos x"

definition Math_asin :: "jsNumber \<Rightarrow> jsNumber" where
  "Math_asin x = (case x of None \<Rightarrow> None
                  | Some a \<Rightarrow> if - 1 \<le> a \<and> a \<le> 1 then Some (arcsin a) else None)"

definition Math_atan2 :: "jsNumber \<Rightarrow> jsNumber \<Rightarrow> jsNumber" where
  "Math_atan2 y x = strict2 atan2 y x"

definition numGreater :: "jsNumber \<Rightarrow> jsNumber \<Rightarrow> bool" where
  "numGreater x y = (case x of None \<Rightarrow> False | Some a \<Rightarrow> (case y of None \<Rightarrow> False | Some b \<Rightarrow> b < a))"

definition deg2rad_rt :: "jsNumber \<Rightarrow> jsNumber" where
  "deg2rad_rt d = numDiv (numMul d (Some pi)) (Some 180)"

definition rad2deg_rt :: "jsNumber \<Rightarrow> jsNumber" where
  "rad2deg_rt r = numDiv (numMul r (Some 180)) (Some pi)"

definition normalizeDeg_rt :: "jsNumber \<Rightarrow> jsNumber" where
  "normalizeDeg_rt d = numRem (numAdd (numRem d (Some 360)) (Some 360)) (Some 360)"

text \<open>The objects as they are at run time: every numeric property may be missing.  The
  year stays a whole number.\<close>

record TimeMode_rt =
  kind_rt :: string
  hh_rt :: jsNumber
  mm_rt :: jsNumber

record AnalemmaInputs_rt =
  latitudeDeg_rt :: jsNumber
  longitudeDeg_rt :: jsNumber
  timeMode_rt :: TimeMode_rt
  tzOffsetHours_rt :: jsNumber
  year_rt :: "int option"

record AnalemmaPoint_rt =
  dateISO_rt :: string
  azimuthDeg_rt :: jsNumber
  altitudeDeg_rt :: jsNumber
  visible_rt :: bool
  E_rt :: jsNumber
  N_rt :: jsNumber
  U_rt :: jsNumber

definition trueSolarTimeMin_rt :: "jsNumber \<Rightarrow> jsNumber \<Rightarrow> jsNumber \<Rightarrow> jsNumber \<Rightarrow> jsNumber" where
  "trueSolarTimeMin_rt localClockMinutes eotMin lon tz =
     (let LSTM = numMul (Some 15) tz;
          timeOffsetMin = numAdd eotMin (numMul (Some 4) (numSub lon LSTM));
          trueSolarTimeMin0 = numAdd localClockMinutes timeOffsetMin
      in numRem (numAdd (numRem trueSolarTimeMin0 (Some 1440)) (Some 1440)) (Some 1440))"

definition H_deg_rt :: "jsNumber \<Rightarrow> jsNumber" where
  "H_deg_rt tst = numSub (numDiv tst (Some 4)) (Some 180)"

definition analemmaPoint_rt ::
  "AnalemmaInputs_rt \<Rightarrow> int \<Rightarrow> nat \<Rightarrow> jsNumber \<Rightarrow> jsNumber \<Rightarrow> nat \<Rightarrow> AnalemmaPoint_rt" where
  "analemmaPoint_rt inputs yr nDays phi localClockMinutes n =
     (let gamma = (2 * pi / real nDays) * (real n - 1 + 0.5);
          decl = Some (0.006918
                 - 0.399912 * cos gamma
                 + 0.070257 * sin gamma
                 - 0.006758 * cos (2 * gamma)
                 + 0.000907 * sin (2 * gamma)
                 - 0.002697 * cos (3 * gamma)
                 + 0.00148 * sin (3 * gamma));
          eotMin = Some (229.18 * (0.000075
                             + 0.001868 * cos gamma
                             - 0.032077 * sin gamma
                             - 0.014615 * cos (2 * gamma)
                             - 0.040849 * sin (2 * gamma)));
          tz = tzOffsetHours_rt inputs;
          tst = trueSolarTimeMin_rt localClockMinutes eotMin (longitudeDeg_rt inputs) tz;
          H = deg2rad_rt (H_deg_rt tst);
          e = numMul (Math_cos decl) (Math_sin H);
          n' = numSub (numMul (Math_cos phi) (Math_sin decl))
                      (numMul (numMul (Math_sin phi) (Math_cos decl)) (Math_cos H));
          u = numAdd (numMul (Math_sin phi) (Math_sin decl))
                     (numMul (numMul (Math_cos phi) (Math_cos decl)) (Math_cos H));
          alt = rad2deg_rt (Math_asin (Math_max (Some (- 1)) (Math_min (Some 1) u)));
          az = normalizeDeg_rt (rad2deg_rt (Math_atan2 e n'));
          iso = dateFromDayOfYear yr (int n);
          vis = numGreater alt (Some 0)
      in \<lparr> dateISO_rt = iso, azimuthDeg_rt = az, altitudeDeg_rt = alt, visible_rt = vis,
           E_rt = e, N_rt = n', U_rt = u \<rparr>)"

function analemmaLoop_rt ::
  "AnalemmaInputs_rt \<Rightarrow> int \<Rightarrow> nat \<Rightarrow> jsNumber \<Rightarrow> jsNumber \<Rightarrow> nat \<Rightarrow> AnalemmaPoint_rt list
     \<Rightarrow> AnalemmaPoint_rt list" where
  "analemmaLoop_rt inputs yr nDays phi localClockMinutes n points =
     (if n \<le> nDays
      then analemmaLoop_rt inputs yr nDays phi localClockMinutes (n + 1)
             (points @ [analemmaPoint_rt inputs yr nDays phi localClockMinutes n])
      else points)"
  by pat_completeness auto
termination
  by (relation "measure (\<lambda>(inputs, yr, nDays, phi, localClockMinutes, n, points). nDays + 1 - n)") auto

declare analemmaLoop_rt.simps [simp del]

definition computeAnalemmaPoints_rt :: "int \<Rightarrow> AnalemmaInputs_rt \<Rightarrow> AnalemmaPoint_rt list" where
  "computeAnalemmaPoints_rt currentYear inputs =
     (let yr = (case year_rt inputs of Some y \<Rightarrow> y | None \<Rightarrow> currentYear);
          nDays = daysInYear yr;
          phi = deg2rad_rt (latitudeDeg_rt inputs);
          hh' = Math_min (Some 23) (Math_max (Some 0) (hh_rt (timeMode_rt inputs)));
          mm' = Math_min (Some 59) (Math_max (Some 0) (mm_rt (timeMode_rt inputs)));
          localClockMinutes = numAdd (numMul hh' (Some 60)) mm'
      in analemmaLoop_rt inputs yr nDays phi localClockMinutes 1 [])"

text \<open>A typed input and a typed point, as run-time values.\<close>

definition runtimeInputs :: "string \<Rightarrow> AnalemmaInputs \<Rightarrow> AnalemmaInputs_rt" where
  "runtimeInputs k inputs =
     \<lparr> latitudeDeg_rt = Some (latitudeDeg inputs), longitudeDeg_rt = Some (longitudeDeg inputs),
       timeMode_rt = \<lparr> kind_rt = k, hh_rt = Some (hh (timeMode inputs)),
                       mm_rt = Some (mm (timeMode inputs)) \<rparr>,
       tzOffsetHours_rt = Some (tzOffsetHours inputs), year_rt = year inputs \<rparr>"

definition runtimePoint :: "AnalemmaPoint \<Rightarrow> AnalemmaPoint_rt" where
  "runtimePoint p =
     \<lparr> dateISO_rt = AnalemmaPoint.dateISO p, azimuthDeg_rt = Some (azimuthDeg p),
       altitudeDeg_rt = Some (altitudeDeg p), visible_rt = visible p,
       E_rt = Some (E p), N_rt = Some (N p), U_rt = Some (U p) \<rparr>"

text \<open>The first call of \<^verbatim>\<open>test-analemma.js\<close>, and the point whose numbers are all NaN.\<close>

definition testSolarNoon :: AnalemmaInputs_rt where
  "testSolarNoon =
     \<lparr> latitudeDeg_rt = Some 0, longitudeDeg_rt = Some 0,
       timeMode_rt = \<lparr> kind_rt = ''solarNoon'', hh_rt = None, mm_rt = None \<rparr>,
       tzOffsetHours_rt = None, year_rt = Some 2024 \<rparr>"

definition nanPoint :: "string \<Rightarrow> AnalemmaPoint_rt" where
  "nanPoint d = \<lparr> dateISO_rt = d, azimuthDeg_rt = None, altitudeDeg_rt = None, visible_rt = False,
     E_rt = None, N_rt = None, U_rt = None \<rparr>"

section \<open>\<^verbatim>\<open>enuScaling.ts\<close>: aspect-locked plot domains\<close>

record EnuParams =
  eMin :: real
  eMax :: real
  uMin :: real
  uMax :: real
  plotWidthPx :: real
  plotHeightPx :: real
  padFraction :: real
  minPadE :: real
  minPadU :: real
  minSpan :: real

type_synonym Domain = "real \<times> real"

record EnuDomains =
  eDomain :: Domain
  uDomain :: Domain

text \<open>The constants of the function body, one definition per \<^verbatim>\<open>const\<close>/\<^verbatim>\<open>let\<close>,
  in the order of the source.\<close>

definition safeWidth :: "EnuParams \<Rightarrow> real" where
  "safeWidth params = max 1 (plotWidthPx params)"

definition safeHeight :: "EnuParams \<Rightarrow> real" where
  "safeHeight params = max 1 (plotHeightPx params)"

definition eRange :: "EnuParams \<Rightarrow> real" where
  "eRange params = max (minSpan params) (eMax params - eMin params)"

definition uRange :: "EnuParams \<Rightarrow> real" where
  "uRange params = max (minSpan params) (uMax params - uMin params)"

definition ePad :: "EnuParams \<Rightarrow> real" where
  "ePad params = max (minPadE params) (eRange params * padFraction params)"

definition uPad :: "EnuParams \<Rightarrow> real" where
  "uPad params = max (minPadU params) (uRange params * padFraction params)"

text \<open>The padded domains, before the aspect lock (the initial values of
  \<^verbatim>\<open>eDomainMin\<close>, \<^verbatim>\<open>eDomainMax\<close>, \<^verbatim>\<open>uDomainMin\<close>, \<^verbatim>\<open>uDomainMax\<close>).\<close>

definition ePadded :: "EnuParams \<Rightarrow> Domain" where
  "ePadded params = (eMin params - ePad params, eMax params + ePad params)"

definition uPadded :: "EnuParams \<Rightarrow> Domain" where
  "uPadded params = (uMin params - uPad params, uMax params + uPad params)"

definition eMid :: "EnuParams \<Rightarrow> real" where
  "eMid params = (fst (ePadded params) + snd (ePadded params)) / 2"

definition uMid :: "EnuParams \<Rightarrow> real" where
  "uMid params = (fst (uPadded params) + snd (uPadded params)) / 2"

definition eSpan :: "EnuParams \<Rightarrow> real" where
  "eSpan params = max (minSpan params) (snd (ePadded params) - fst (ePadded params))"

definition uSpan :: "EnuParams \<Rightarrow> real" where
  "uSpan params = max (minSpan params) (snd (uPadded params) - fst (uPadded params))"

definition uSpanForE :: "EnuParams \<Rightarrow> real" where
  "uSpanForE params = eSpan params * (safeHeight params / safeWidth params)"

definition eSpanForU :: "EnuParams \<Rightarrow> real" where
  "eSpanForU params = uSpan params * (safeWidth params / safeHeight params)"

definition computeEnuDomainsAspectLocked :: "EnuParams \<Rightarrow> EnuDomains" where
  "computeEnuDomainsAspectLocked params =
     (if uSpan params < uSpanForE params then
        \<lparr> eDomain = ePadded params,
          uDomain = (uMid params - uSpanForE params / 2, uMid params + uSpanForE params / 2) \<rparr>
      else if eSpan params < eSpanForU params then
        \<lparr> eDomain = (eMid params - eSpanForU params / 2, eMid params + eSpanForU params / 2),
          uDomain = uPadded params \<rparr>
      else
        \<lparr> eDomain = ePadded params, uDomain = uPadded params \<rparr>)"

text \<open>Width of a domain, and the units one pixel spans on each axis of a result.\<close>

definition width :: "Domain \<Rightarrow> real" where
  "width d = snd d - fst d"

definition eUnitsPerPx :: "EnuParams \<Rightarrow> real" where
  "eUnitsPerPx params = width (eDomain (computeEnuDomainsAspectLocked params)) / safeWidth params"

definition uUnitsPerPx :: "EnuParams \<Rightarrow> real" where
  "uUnitsPerPx params = width (uDomain (computeEnuDomainsAspectLocked params)) / safeHeight params"

text \<open>Midpoint of a domain.\<close>

definition midpoint :: "Domain \<Rightarrow> real" where
  "midpoint d = (fst d + snd d) / 2"

text \<open>Three inputs used below: a single data point with the paddings the callers pass
  and a minimum span of 1; a single data point with no padding and a minimum span of
  1/2; and a 2 by 1 range on a square plot with the constants the callers pass.\<close>

definition scalerSinglePoint :: EnuParams where
  "scalerSinglePoint = \<lparr> eMin = 0, eMax = 0, uMin = 0, uMax = 0, plotWidthPx = 200, plotHeightPx = 100,
     padFraction = 1/10, minPadE = 1/10, minPadU = 1/20, minSpan = 1 \<rparr>"

definition scalerNoPadding :: EnuParams where
  "scalerNoPadding = \<lparr> eMin = 0, eMax = 0, uMin = -2, uMax = -2, plotWidthPx = 200, plotHeightPx = 100,
     padFraction = 0, minPadE = 0, minPadU = 0, minSpan = 1/2 \<rparr>"

definition scalerSquare :: EnuParams where
  "scalerSquare = \<lparr> eMin = -1, eMax = 1, uMin = 0, uMax = 1, plotWidthPx = 100, plotHeightPx = 100,
     padFraction = 1/10, minPadE = 1/10, minPadU = 1/20, minSpan = 1/1000000 \<rparr>"

section \<open>The components of the specification\<close>

text \<open>
  The definitions of this section follow the specification's words (its sections 4.2 to
  4.4), not the sources: the orbital angle, the declination and equation-of-time series
  with the two-part split, the hour-angle resolver and the horizontal transform.  The
  generators above are compared with them below.
\<close>

definition spec_orbitalAngle :: "nat \<Rightarrow> nat \<Rightarrow> real" where
  "spec_orbitalAngle nTotal n = (2 * pi / real nTotal) * (real n - 1 + 0.5)"

definition spec_declination :: "real \<Rightarrow> real" where
  "spec_declination g = 0.006918 - 0.399912 * cos g + 0.070257 * sin g - 0.006758 * cos (2 * g)
     + 0.000907 * sin (2 * g) - 0.002697 * cos (3 * g) + 0.00148 * sin (3 * g)"

definition spec_eot :: "real \<Rightarrow> real" where
  "spec_eot g = 229.18 * (0.000075 + 0.001868 * cos g - 0.032077 * sin g - 0.014615 * cos (2 * g)
     - 0.040849 * sin (2 * g))"

definition spec_tilt :: "real \<Rightarrow> real" where
  "spec_tilt g = 229.18 * (- 0.032077 * sin g - 0.040849 * sin (2 * g))"

definition spec_eccentricity :: "real \<Rightarrow> real" where
  "spec_eccentricity g = 229.18 * (0.000075 + 0.001868 * cos g - 0.014615 * cos (2 * g))"

text \<open>Reduction modulo \<open>m\<close> into \<open>[0, m)\<close>.\<close>

definition realMod :: "real \<Rightarrow> real \<Rightarrow> real" where
  "realMod x m = x - m * of_int \<lfloor>x / m\<rfloor>"

definition spec_trueSolarTime :: "real \<Rightarrow> real \<Rightarrow> real \<Rightarrow> real \<Rightarrow> real" where
  "spec_trueSolarTime localClockMinutes eot lon tz =
     realMod (localClockMinutes + (eot + 4 * (lon - 15 * tz))) 1440"

definition spec_hourAngleDeg :: "real \<Rightarrow> real" where
  "spec_hourAngleDeg tst = tst / 4 - 180"

definition spec_horizontal :: "real \<Rightarrow> real \<Rightarrow> real \<Rightarrow> AnalemmaInsetPoint" where
  "spec_horizontal phi delta h =
     (let e = cos delta * sin h;
          n = cos phi * sin delta - sin phi * cos delta * cos h;
          u = sin phi * sin delta + cos phi * cos delta * cos h;
          alt = arcsin (max (- 1) (min 1 u)) * 180 / pi
      in \<lparr> azimuthDeg = realMod (atan2 e n * 180 / pi) 360, altitudeDeg = alt,
           visible = (0 < alt), E = e, N = n, U = u \<rparr>)"

text \<open>The pipeline of one day: hour angle from the clock minutes and the equation of
  time, then the horizontal transform.\<close>

definition spec_point :: "real \<Rightarrow> real \<Rightarrow> real \<Rightarrow> real \<Rightarrow> real \<Rightarrow> real \<Rightarrow> AnalemmaInsetPoint" where
  "spec_point phi delta localClockMinutes eot lon tz =
     spec_horizontal phi delta (deg2rad (spec_hourAngleDeg (spec_trueSolarTime localClockMinutes eot lon tz)))"

text \<open>Vocabulary for the statements below: the clock minutes after clamping, the year a
  computation runs for, a point with its date, and the invariants of a point.\<close>

definition clampedClockMinutes :: "TimeMode \<Rightarrow> real" where
  "clampedClockMinutes t = min 23 (max 0 (hh t)) * 60 + min 59 (max 0 (mm t))"

definition yearOf :: "int \<Rightarrow> AnalemmaInputs \<Rightarrow> int" where
  "yearOf currentYear inputs = (case year inputs of Some y \<Rightarrow> y | None \<Rightarrow> currentYear)"

definition withDate :: "AnalemmaInsetPoint \<Rightarrow> string \<Rightarrow> AnalemmaPoint" where
  "withDate p d = AnalemmaInsetPoint.extend p (AnalemmaPoint.fields d)"

definition wellFormedPoint :: "'a AnalemmaInsetPoint_scheme \<Rightarrow> bool" where
  "wellFormedPoint p \<longleftrightarrow>
     \<bar>(E p)\<^sup>2 + (N p)\<^sup>2 + (U p)\<^sup>2 - 1\<bar> \<le> 1 / 10 ^ 9 \<and>
     - 90 \<le> altitudeDeg p \<and> altitudeDeg p \<le> 90 \<and>
     0 \<le> azimuthDeg p \<and> azimuthDeg p < 360 \<and>
     (visible p \<longleftrightarrow> 0 < altitudeDeg p)"

text \<open>An observer on the equator at the Greenwich meridian, clock time 12:00 UTC, year
  2024.\<close>

definition equatorNoon2024 :: AnalemmaInputs where
  "equatorNoon2024 = \<lparr> latitudeDeg = 0, longitudeDeg = 0, timeMode = fixedLocalTime 12 0,
     tzOffsetHours = 0, year = Some 2024 \<rparr>"

text \<open>An observer in London (51.5 N, 0.13 W), clock time 10:00 UTC, year 2024.\<close>

definition london1000 :: AnalemmaInputs where
  "london1000 = \<lparr> latitudeDeg = 51.5, longitudeDeg = - 0.13, timeMode = fixedLocalTime 10 0,
     tzOffsetHours = 0, year = Some 2024 \<rparr>"

text \<open>The text of a date, as \<^verbatim>\<open>dateFromDayOfYear\<close> assembles it.\<close>

definition dateString :: "int option \<Rightarrow> string" where
  "dateString t = jsString (getUTCFullYear t) @ ''-''
     @ padStart2 (jsString (map_option (\<lambda>m. m + 1) (getUTCMonth t))) @ ''-''
     @ padStart2 (jsString (getUTCDate t))"

text \<open>The clamping of \<^verbatim>\<open>computeAnalemmaPoints\<close>, as a function on time modes.\<close>

definition clampTimeMode :: "TimeMode \<Rightarrow> TimeMode" where
  "clampTimeMode t = fixedLocalTime (min 23 (max 0 (hh t))) (min 59 (max 0 (mm t)))"

text \<open>The equatorial observer again, at clock times 24:00 and 23:00, and in the year 50.\<close>

definition equator2400 :: AnalemmaInputs where
  "equator2400 = \<lparr> latitudeDeg = 0, longitudeDeg = 0, timeMode = fixedLocalTime 24 0,
     tzOffsetHours = 0, year = Some 2024 \<rparr>"

definition equator2300 :: AnalemmaInputs where
  "equator2300 = \<lparr> latitudeDeg = 0, longitudeDeg = 0, timeMode = fixedLocalTime 23 0,
     tzOffsetHours = 0, year = Some 2024 \<rparr>"

definition year50 :: AnalemmaInputs where
  "year50 = \<lparr> latitudeDeg = 0, longitudeDeg = 0, timeMode = fixedLocalTime 12 0,
     tzOffsetHours = 0, year = Some 50 \<rparr>"

subsection \<open>Civil dates, as the specification counts them\<close>

text \<open>The leap-year rule and the stepping from one calendar day to the next, in the
  specification's words (section 4.1); \<open>isoDate\<close> writes a date as YYYY-MM-DD.  The last
  definition names the month table of \<^verbatim>\<open>MonthFromTime\<close>.\<close>

definition spec_isLeapYear :: "int \<Rightarrow> bool" where
  "spec_isLeapYear y \<longleftrightarrow> (y mod 4 = 0 \<and> y mod 100 \<noteq> 0) \<or> y mod 400 = 0"

definition monthLength :: "int \<Rightarrow> int \<Rightarrow> int" where
  "monthLength y m =
     (if m = 2 then (if spec_isLeapYear y then 29 else 28)
      else if m = 4 \<or> m = 6 \<or> m = 9 \<or> m = 11 then 30 else 31)"

fun nextDay :: "int \<times> int \<times> int \<Rightarrow> int \<times> int \<times> int" where
  "nextDay (y, m, d) =
     (if d < monthLength y m then (y, m, d + 1)
      else if m < 12 then (y, m + 1, 1)
      else (y + 1, 1, 1))"

definition addDays :: "nat \<Rightarrow> int \<times> int \<times> int \<Rightarrow> int \<times> int \<times> int" where
  "addDays k date = (nextDay ^^ k) date"

definition isoDate :: "int \<times> int \<times> int \<Rightarrow> string" where
  "isoDate date =
     (case date of (y, m, d) \<Rightarrow>
        replicate (4 - length (showNat (nat y))) CHR ''0'' @ showNat (nat y) @ ''-''
        @ padStart2 (showNat (nat m)) @ ''-'' @ padStart2 (showNat (nat d)))"

definition monthOfDay :: "int \<Rightarrow> int \<Rightarrow> int" where
  "monthOfDay leap w =
     (if w < 31 then 0 else if w < 59 + leap then 1 else if w < 90 + leap then 2
      else if w < 120 + leap then 3 else if w < 151 + leap then 4 else if w < 181 + leap then 5
      else if w < 212 + leap then 6 else if w < 243 + leap then 7 else if w < 273 + leap then 8
      else if w < 304 + leap then 9 else if w < 334 + leap then 10 else 11)"

section \<open>Properties of the aspect-locked scaler\<close>

lemma safeWidth_pos: "0 < safeWidth params"
  by (simp add: safeWidth_def max_def)

lemma safeHeight_pos: "0 < safeHeight params"
  by (simp add: safeHeight_def max_def)

text \<open>The two tests of the source are exclusive: the second axis is too short for the
  first exactly when the first is too long for the second.\<close>

lemma uSpan_short_iff: "uSpan params < uSpanForE params \<longleftrightarrow> eSpanForU params < eSpan params"
proof -
  have w: "0 < safeWidth params" and h: "0 < safeHeight params"
    by (rule safeWidth_pos, rule safeHeight_pos)
  have "uSpan params < eSpan params * (safeHeight params / safeWidth params)
        \<longleftrightarrow> uSpan params * safeWidth params < eSpan params * safeHeight params"
    using w by (simp add: field_simps)
  also have "\<dots> \<longleftrightarrow> uSpan params * (safeWidth params / safeHeight params) < eSpan params"
    using h by (simp add: field_simps)
  finally show ?thesis by (simp add: uSpanForE_def eSpanForU_def)
qed

lemmas scaler_defs = safeWidth_def safeHeight_def eRange_def uRange_def ePad_def uPad_def
  ePadded_def uPadded_def eMid_def uMid_def eSpan_def uSpan_def uSpanForE_def eSpanForU_def
  computeEnuDomainsAspectLocked_def width_def eUnitsPerPx_def uUnitsPerPx_def midpoint_def

text \<open>
  Claim C7: the two axes of the returned domains do not always span equal units per
  pixel.  For a single data point at the origin, the callers' paddings and a minimum
  span of 1 on a 200 by 100 plot, both padded domains are \<open>(-0.1, 0.1)\<close>, narrower than
  the minimum span; \<^verbatim>\<open>eSpan\<close> and \<^verbatim>\<open>uSpan\<close> are floored at 1, the E domain is widened to
  \<open>(-1, 1)\<close> for the floored \<^verbatim>\<open>uSpan\<close>, and the U domain is returned at its padded
  width 0.2: 0.01 units per pixel on E against 0.002 on U.  With no padding and a
  minimum span of 1/2 the U domain is returned with width 0.
\<close>

theorem aspect_lock_unequal_units:
  "ePadded scalerSinglePoint = (-1/10, 1/10) \<and> uPadded scalerSinglePoint = (-1/10, 1/10) \<and>
   eSpan scalerSinglePoint = 1 \<and> uSpan scalerSinglePoint = 1 \<and>
   computeEnuDomainsAspectLocked scalerSinglePoint = \<lparr> eDomain = (-1, 1), uDomain = (-1/10, 1/10) \<rparr> \<and>
   eUnitsPerPx scalerSinglePoint = 1/100 \<and> uUnitsPerPx scalerSinglePoint = 1/500 \<and>
   eUnitsPerPx scalerSinglePoint \<noteq> uUnitsPerPx scalerSinglePoint \<and>
   computeEnuDomainsAspectLocked scalerNoPadding = \<lparr> eDomain = (-1/2, 1/2), uDomain = (-2, -2) \<rparr> \<and>
   eUnitsPerPx scalerNoPadding = 1/200 \<and> uUnitsPerPx scalerNoPadding = 0"
  by (simp add: scaler_defs scalerSinglePoint_def scalerNoPadding_def)

lemma eSpan_eq: "minSpan p \<le> width (ePadded p) \<Longrightarrow> eSpan p = width (ePadded p)"
  by (simp add: eSpan_def width_def max_def)

lemma uSpan_eq: "minSpan p \<le> width (uPadded p) \<Longrightarrow> uSpan p = width (uPadded p)"
  by (simp add: uSpan_def width_def max_def)

text \<open>
  Where the scaler does lock the aspect: when the padded width of each axis is at least
  \<open>minSpan\<close>, the returned domains give equal units per pixel, (E max - E min) / width =
  (U max - U min) / height with width and height floored at 1; the axis whose padded
  width per pixel is the smaller one is widened around its own midpoint and the other
  axis's padded domain is returned unchanged; when the two already agree both padded
  domains are returned unchanged.
\<close>

lemma aspect_lock_equal_units:
  assumes e: "minSpan p \<le> width (ePadded p)" and u: "minSpan p \<le> width (uPadded p)"
  shows "eUnitsPerPx p = uUnitsPerPx p \<and>
    (if width (uPadded p) / safeHeight p < width (ePadded p) / safeWidth p then
       eDomain (computeEnuDomainsAspectLocked p) = ePadded p \<and>
       midpoint (uDomain (computeEnuDomainsAspectLocked p)) = midpoint (uPadded p) \<and>
       width (uPadded p) < width (uDomain (computeEnuDomainsAspectLocked p))
     else if width (ePadded p) / safeWidth p < width (uPadded p) / safeHeight p then
       uDomain (computeEnuDomainsAspectLocked p) = uPadded p \<and>
       midpoint (eDomain (computeEnuDomainsAspectLocked p)) = midpoint (ePadded p) \<and>
       width (ePadded p) < width (eDomain (computeEnuDomainsAspectLocked p))
     else
       eDomain (computeEnuDomainsAspectLocked p) = ePadded p \<and>
       uDomain (computeEnuDomainsAspectLocked p) = uPadded p)"
proof -
  have w: "0 < safeWidth p" and h: "0 < safeHeight p"
    by (rule safeWidth_pos, rule safeHeight_pos)
  have es: "eSpan p = width (ePadded p)" and us: "uSpan p = width (uPadded p)"
    using e u by (simp_all add: eSpan_eq uSpan_eq)
  have c1: "uSpan p < uSpanForE p \<longleftrightarrow> width (uPadded p) / safeHeight p < width (ePadded p) / safeWidth p"
    using w h by (simp add: uSpanForE_def es us field_simps)
  have c2: "eSpan p < eSpanForU p \<longleftrightarrow> width (ePadded p) / safeWidth p < width (uPadded p) / safeHeight p"
    using w h by (simp add: eSpanForU_def es us field_simps)
  consider (ushort) "uSpan p < uSpanForE p"
    | (eshort) "\<not> uSpan p < uSpanForE p" "eSpan p < eSpanForU p"
    | (even) "\<not> uSpan p < uSpanForE p" "\<not> eSpan p < eSpanForU p"
    by blast
  then show ?thesis
  proof cases
    case ushort
    have r: "computeEnuDomainsAspectLocked p =
      \<lparr> eDomain = ePadded p, uDomain = (uMid p - uSpanForE p / 2, uMid p + uSpanForE p / 2) \<rparr>"
      using ushort by (simp add: computeEnuDomainsAspectLocked_def)
    have "eUnitsPerPx p = uUnitsPerPx p"
      using w h by (simp add: eUnitsPerPx_def uUnitsPerPx_def r width_def uSpanForE_def es field_simps)
    moreover have "midpoint (uDomain (computeEnuDomainsAspectLocked p)) = midpoint (uPadded p)"
      by (simp add: r midpoint_def uMid_def)
    moreover have "width (uPadded p) < width (uDomain (computeEnuDomainsAspectLocked p))"
      using ushort unfolding us by (simp add: r width_def)
    ultimately show ?thesis using ushort c1 by (simp add: r)
  next
    case eshort
    have r: "computeEnuDomainsAspectLocked p =
      \<lparr> eDomain = (eMid p - eSpanForU p / 2, eMid p + eSpanForU p / 2), uDomain = uPadded p \<rparr>"
      using eshort by (simp add: computeEnuDomainsAspectLocked_def)
    have "eUnitsPerPx p = uUnitsPerPx p"
      using w h by (simp add: eUnitsPerPx_def uUnitsPerPx_def r width_def eSpanForU_def us field_simps)
    moreover have "midpoint (eDomain (computeEnuDomainsAspectLocked p)) = midpoint (ePadded p)"
      by (simp add: r midpoint_def eMid_def)
    moreover have "width (ePadded p) < width (eDomain (computeEnuDomainsAspectLocked p))"
      using eshort(2) unfolding es by (simp add: r width_def)
    ultimately show ?thesis using eshort c1 c2 by (simp add: r)
  next
    case even
    have r: "computeEnuDomainsAspectLocked p = \<lparr> eDomain = ePadded p, uDomain = uPadded p \<rparr>"
      using even by (simp add: computeEnuDomainsAspectLocked_def)
    have eq: "width (ePadded p) / safeWidth p = width (uPadded p) / safeHeight p"
      using even c1 c2 by linarith
    have "eUnitsPerPx p = uUnitsPerPx p"
      using eq by (simp add: eUnitsPerPx_def uUnitsPerPx_def r)
    then show ?thesis using even c1 c2 by (simp add: r)
  qed
qed

lemma aspect_lock_equal_units_example:
  "minSpan scalerSquare \<le> width (ePadded scalerSquare) \<and>
   minSpan scalerSquare \<le> width (uPadded scalerSquare) \<and>
   eUnitsPerPx scalerSquare = uUnitsPerPx scalerSquare \<and>
   eDomain (computeEnuDomainsAspectLocked scalerSquare) = (-6/5, 6/5) \<and>
   uDomain (computeEnuDomainsAspectLocked scalerSquare) = (-7/10, 17/10)"
proof -
  have e: "minSpan scalerSquare \<le> width (ePadded scalerSquare)"
    by (simp add: scaler_defs scalerSquare_def)
  have u: "minSpan scalerSquare \<le> width (uPadded scalerSquare)"
    by (simp add: scaler_defs scalerSquare_def)
  have d: "eDomain (computeEnuDomainsAspectLocked scalerSquare) = (-6/5, 6/5) \<and>
   uDomain (computeEnuDomainsAspectLocked scalerSquare) = (-7/10, 17/10)"
    by (simp add: scaler_defs scalerSquare_def)
  from aspect_lock_equal_units [OF e u] have "eUnitsPerPx scalerSquare = uUnitsPerPx scalerSquare"
    by blast
  with e u d show ?thesis by blast
qed

section \<open>The loops and the specification's pipeline\<close>

lemma analemmaLoop_map:
  "analemmaLoop inputs yr nDays phi l n points =
     points @ map (analemmaPoint inputs yr nDays phi l) [n..<Suc nDays]"
proof (induction inputs yr nDays phi l n points rule: analemmaLoop.induct)
  case (1 inputs yr nDays phi l n points)
  show ?case
  proof (cases "n \<le> nDays")
    case True
    then have "[n..<Suc nDays] = n # [Suc n..<Suc nDays]" by (simp add: upt_conv_Cons)
    with True 1 show ?thesis by (simp add: analemmaLoop.simps [of _ _ _ _ _ n])
  next
    case False
    then show ?thesis by (simp add: analemmaLoop.simps [of _ _ _ _ _ n])
  qed
qed

lemma eotLoop_map: "eotLoop yr nDays n points = points @ map (eotPoint yr nDays) [n..<Suc nDays]"
proof (induction yr nDays n points rule: eotLoop.induct)
  case (1 yr nDays n points)
  show ?case
  proof (cases "n \<le> nDays")
    case True
    then have "[n..<Suc nDays] = n # [Suc n..<Suc nDays]" by (simp add: upt_conv_Cons)
    with True 1 show ?thesis by (simp add: eotLoop.simps [of _ _ n])
  next
    case False
    then show ?thesis by (simp add: eotLoop.simps [of _ _ n])
  qed
qed

lemma insetLoop_map:
  "insetLoop inputs io ie nDays phi l n points =
     points @ map (insetPoint inputs io ie nDays phi l) [n..<Suc nDays]"
proof (induction inputs io ie nDays phi l n points rule: insetLoop.induct)
  case (1 inputs io ie nDays phi l n points)
  show ?case
  proof (cases "n \<le> nDays")
    case True
    then have "[n..<Suc nDays] = n # [Suc n..<Suc nDays]" by (simp add: upt_conv_Cons)
    with True 1 show ?thesis by (simp add: insetLoop.simps [of _ _ _ _ _ _ n])
  next
    case False
    then show ?thesis by (simp add: insetLoop.simps [of _ _ _ _ _ _ n])
  qed
qed

lemma computeAnalemmaPoints_map:
  "computeAnalemmaPoints cy inputs =
     map (analemmaPoint inputs (yearOf cy inputs) (daysInYear (yearOf cy inputs))
            (deg2rad (latitudeDeg inputs)) (clampedClockMinutes (timeMode inputs)))
         [1..<Suc (daysInYear (yearOf cy inputs))]"
  by (simp add: computeAnalemmaPoints_def analemmaLoop_map yearOf_def clampedClockMinutes_def Let_def)

lemma computeEquationOfTime_map:
  "computeEquationOfTime yr = map (eotPoint yr (daysInYear yr)) [1..<Suc (daysInYear yr)]"
  by (simp add: computeEquationOfTime_def eotLoop_map Let_def)

lemma computeAnalemmaInset_map:
  "computeAnalemmaInset cy inputs io ie =
     map (insetPoint inputs io ie (daysInYear (yearOf cy inputs)) (deg2rad (latitudeDeg inputs))
            (hh (timeMode inputs) * 60 + mm (timeMode inputs)))
         [1..<Suc (daysInYear (yearOf cy inputs))]"
  by (simp add: computeAnalemmaInset_def insetLoop_map yearOf_def Let_def)

lemma truncReal_bounds: "\<bar>x - of_int (truncReal x)\<bar> < 1"
  unfolding truncReal_def by (auto; linarith)

lemma jsRem_nonneg: "0 \<le> y \<Longrightarrow> 0 < m \<Longrightarrow> jsRem y m = realMod y m"
  by (simp add: jsRem_def realMod_def truncReal_def)

lemma jsRem_normalise:
  assumes m: "0 < m"
  shows "jsRem (jsRem x m + m) m = realMod x m"
proof -
  define t where "t = truncReal (x / m)"
  define y where "y = jsRem x m + m"
  have b: "\<bar>x / m - of_int t\<bar> < 1" unfolding t_def by (rule truncReal_bounds)
  have r: "y = x - m * of_int t + m" by (simp add: y_def jsRem_def t_def)
  have "y = m * (x / m - of_int t + 1)" using m by (simp add: r field_simps)
  moreover have "0 \<le> x / m - of_int t + 1" using b by linarith
  ultimately have nn: "0 \<le> y" using m by simp
  have q: "y / m = x / m + of_int (1 - t)" using m by (simp add: r field_simps)
  have fl: "\<lfloor>y / m\<rfloor> = \<lfloor>x / m\<rfloor> + (1 - t)" unfolding q by simp
  have "jsRem y m = y - m * of_int \<lfloor>y / m\<rfloor>"
    using jsRem_nonneg [OF nn m] by (simp add: realMod_def)
  also have "\<dots> = y - m * of_int (\<lfloor>x / m\<rfloor> + (1 - t))"
    by (simp only: fl)
  also have "\<dots> = x - m * of_int \<lfloor>x / m\<rfloor>" by (simp add: r algebra_simps)
  finally show ?thesis by (simp add: realMod_def y_def)
qed

lemma realMod_range:
  assumes m: "0 < m"
  shows "0 \<le> realMod x m \<and> realMod x m < m"
proof -
  have "of_int \<lfloor>x / m\<rfloor> \<le> x / m" by (rule of_int_floor_le)
  then have lo: "of_int \<lfloor>x / m\<rfloor> * m \<le> x"
    using pos_le_divide_eq [OF m, of "of_int \<lfloor>x / m\<rfloor>" x] by blast
  have "x / m < of_int \<lfloor>x / m\<rfloor> + 1" by linarith
  then have hi: "x < (of_int \<lfloor>x / m\<rfloor> + 1) * m"
    using pos_divide_less_eq [OF m, of x "of_int \<lfloor>x / m\<rfloor> + 1"] by blast
  from lo hi show ?thesis by (simp add: realMod_def algebra_simps)
qed

lemma normalizeDeg_realMod: "normalizeDeg d = realMod d 360"
  by (simp add: normalizeDeg_def jsRem_normalise)

lemma analemmaPoint_spec:
  "analemmaPoint inputs yr nDays phi l n =
     AnalemmaInsetPoint.extend
       (spec_point phi (spec_declination (spec_orbitalAngle nDays n)) l
          (spec_eot (spec_orbitalAngle nDays n)) (longitudeDeg inputs) (tzOffsetHours inputs))
       (AnalemmaPoint.fields (dateFromDayOfYear yr (int n)))"
  by (simp add: analemmaPoint_def spec_point_def spec_horizontal_def spec_declination_def
      spec_orbitalAngle_def spec_eot_def spec_trueSolarTime_def spec_hourAngleDeg_def
      trueSolarTimeMin_def H_deg_def
      jsRem_normalise normalizeDeg_realMod rad2deg_def Let_def AnalemmaInsetPoint.defs AnalemmaPoint.defs)

lemma insetPoint_spec:
  "insetPoint inputs io ie nDays phi l n =
     spec_point phi (if io then spec_declination (spec_orbitalAngle nDays n) else 0) l
       ((if io then spec_tilt (spec_orbitalAngle nDays n) else 0)
        + (if ie then spec_eccentricity (spec_orbitalAngle nDays n) else 0))
       (longitudeDeg inputs) (tzOffsetHours inputs)"
  by (cases io; cases ie;
      simp add: insetPoint_def spec_point_def spec_horizontal_def spec_declination_def
        spec_orbitalAngle_def spec_tilt_def spec_eccentricity_def spec_trueSolarTime_def
        spec_hourAngleDeg_def trueSolarTimeMin_def H_deg_def
        jsRem_normalise normalizeDeg_realMod rad2deg_def Let_def)

lemma unit_vector_aux:
  fixes cp sp cd sd ch sh :: real
  assumes p: "cp\<^sup>2 + sp\<^sup>2 = 1" and d: "cd\<^sup>2 + sd\<^sup>2 = 1" and h: "ch\<^sup>2 + sh\<^sup>2 = 1"
  shows "(cd * sh)\<^sup>2 + (cp * sd - sp * cd * ch)\<^sup>2 + (sp * sd + cp * cd * ch)\<^sup>2 = 1"
proof -
  have "(cd * sh)\<^sup>2 + (cp * sd - sp * cd * ch)\<^sup>2 + (sp * sd + cp * cd * ch)\<^sup>2
        = (cp\<^sup>2 + sp\<^sup>2) * (sd\<^sup>2 + cd\<^sup>2 * ch\<^sup>2) + cd\<^sup>2 * sh\<^sup>2"
    by (simp add: power2_eq_square algebra_simps)
  also have "\<dots> = sd\<^sup>2 + cd\<^sup>2 * (ch\<^sup>2 + sh\<^sup>2)"
    unfolding p by (simp add: algebra_simps)
  also have "\<dots> = 1" unfolding h using d by simp
  finally show ?thesis .
qed

lemma enu_unit:
  fixes phi delta h :: real
  shows "(cos delta * sin h)\<^sup>2 + (cos phi * sin delta - sin phi * cos delta * cos h)\<^sup>2
         + (sin phi * sin delta + cos phi * cos delta * cos h)\<^sup>2 = 1"
  by (rule unit_vector_aux) simp_all

lemma altitude_range:
  fixes u :: real
  shows "- 90 \<le> arcsin (max (- 1) (min 1 u)) * 180 / pi \<and> arcsin (max (- 1) (min 1 u)) * 180 / pi \<le> 90"
proof -
  define a where "a = arcsin (max (- 1) (min 1 u))"
  have "- (pi / 2) \<le> a" unfolding a_def by (rule arcsin_lbound) simp_all
  moreover have "a \<le> pi / 2" unfolding a_def by (rule arcsin_ubound) simp_all
  ultimately have "- (pi / 2) \<le> a" "a \<le> pi / 2" by simp_all
  then have "- 90 * pi \<le> a * 180" "a * 180 \<le> 90 * pi" by linarith+
  then have "- 90 \<le> a * 180 / pi" "a * 180 / pi \<le> 90"
    using pi_gt_zero by (simp_all add: pos_le_divide_eq pos_divide_le_eq)
  then show ?thesis unfolding a_def by simp
qed

lemma spec_horizontal_wellFormed: "wellFormedPoint (spec_horizontal phi delta h)"
  using enu_unit [of delta h phi] altitude_range realMod_range [of 360]
  by (simp add: wellFormedPoint_def spec_horizontal_def Let_def)

lemma wellFormedPoint_extend: "wellFormedPoint (AnalemmaInsetPoint.extend p ext) = wellFormedPoint p"
  by (simp add: wellFormedPoint_def AnalemmaInsetPoint.defs)

text \<open>
  Claim C6: every point of \<^verbatim>\<open>computeAnalemmaPoints\<close> and of \<^verbatim>\<open>computeAnalemmaInset\<close> has
  \<open>E\<^sup>2 + N\<^sup>2 + U\<^sup>2\<close> within \<open>10\<^sup>-\<^sup>9\<close> of 1, altitude in \<open>[-90, 90]\<close>, azimuth in
  \<open>[0, 360)\<close>, and is visible exactly when its altitude is positive.
\<close>

theorem points_wellFormed:
  "(\<forall>p \<in> set (computeAnalemmaPoints cy inputs). wellFormedPoint p) \<and>
   (\<forall>p \<in> set (computeAnalemmaInset cy inputs io ie). wellFormedPoint p)"
  by (auto simp add: computeAnalemmaPoints_map computeAnalemmaInset_map analemmaPoint_spec
      insetPoint_spec spec_point_def wellFormedPoint_extend spec_horizontal_wellFormed)

lemma daysInYear_pos: "0 < daysInYear y"
  by (simp add: daysInYear_def)

lemma computeAnalemmaPoints_length: "length (computeAnalemmaPoints cy inputs) = daysInYear (yearOf cy inputs)"
  by (simp add: computeAnalemmaPoints_map)

lemma computeAnalemmaInset_length: "length (computeAnalemmaInset cy inputs io ie) = daysInYear (yearOf cy inputs)"
  by (simp add: computeAnalemmaInset_map)

theorem points_wellFormed_witness:
  "hd (computeAnalemmaPoints 2025 equatorNoon2024) \<in> set (computeAnalemmaPoints 2025 equatorNoon2024) \<and>
   wellFormedPoint (hd (computeAnalemmaPoints 2025 equatorNoon2024)) \<and>
   hd (computeAnalemmaInset 2025 equatorNoon2024 True False)
     \<in> set (computeAnalemmaInset 2025 equatorNoon2024 True False) \<and>
   wellFormedPoint (hd (computeAnalemmaInset 2025 equatorNoon2024 True False))"
proof -
  have a: "computeAnalemmaPoints 2025 equatorNoon2024 \<noteq> []"
    using computeAnalemmaPoints_length [of 2025 equatorNoon2024] daysInYear_pos [of "yearOf 2025 equatorNoon2024"] by auto
  have b: "computeAnalemmaInset 2025 equatorNoon2024 True False \<noteq> []"
    using computeAnalemmaInset_length [of 2025 equatorNoon2024 True False] daysInYear_pos [of "yearOf 2025 equatorNoon2024"] by auto
  from a b points_wellFormed [of 2025 equatorNoon2024 True False] show ?thesis
    by (simp add: hd_in_set)
qed

lemma computeAnalemmaPoints_spec:
  "computeAnalemmaPoints cy inputs =
     map (\<lambda>n. withDate
            (spec_point (deg2rad (latitudeDeg inputs))
               (spec_declination (spec_orbitalAngle (daysInYear (yearOf cy inputs)) n))
               (clampedClockMinutes (timeMode inputs))
               (spec_eot (spec_orbitalAngle (daysInYear (yearOf cy inputs)) n))
               (longitudeDeg inputs) (tzOffsetHours inputs))
            (dateFromDayOfYear (yearOf cy inputs) (int n)))
         [1..<Suc (daysInYear (yearOf cy inputs))]"
  by (simp add: computeAnalemmaPoints_map analemmaPoint_spec withDate_def)

lemma computeAnalemmaInset_spec:
  "computeAnalemmaInset cy inputs io ie =
     map (\<lambda>n. spec_point (deg2rad (latitudeDeg inputs))
            (if io then spec_declination (spec_orbitalAngle (daysInYear (yearOf cy inputs)) n) else 0)
            (hh (timeMode inputs) * 60 + mm (timeMode inputs))
            ((if io then spec_tilt (spec_orbitalAngle (daysInYear (yearOf cy inputs)) n) else 0)
             + (if ie then spec_eccentricity (spec_orbitalAngle (daysInYear (yearOf cy inputs)) n) else 0))
            (longitudeDeg inputs) (tzOffsetHours inputs))
         [1..<Suc (daysInYear (yearOf cy inputs))]"
  by (simp add: computeAnalemmaInset_map insetPoint_spec)

lemma spec_eot_split: "spec_eot g = spec_tilt g + spec_eccentricity g"
  by (simp add: spec_eot_def spec_tilt_def spec_eccentricity_def algebra_simps)

lemma eotPoint_fields:
  "eotPoint yr nDays n =
     \<lparr> dateISO = dateFromDayOfYear yr (int n), dayOfYear = n,
       eotMinutes = spec_tilt (spec_orbitalAngle nDays n) + spec_eccentricity (spec_orbitalAngle nDays n),
       obliquityComponent = spec_tilt (spec_orbitalAngle nDays n),
       eccentricityComponent = spec_eccentricity (spec_orbitalAngle nDays n) \<rparr>"
  by (simp add: eotPoint_def spec_tilt_def spec_eccentricity_def spec_orbitalAngle_def Let_def)

text \<open>
  Claim C2, amended: for every year and every day \<open>n\<close> of it, \<^verbatim>\<open>computeEquationOfTime\<close>
  returns the tilt component \<open>229.18 (-0.032077 sin \<gamma> - 0.040849 sin 2\<gamma>)\<close> and the
  eccentricity component \<open>229.18 (0.000075 + 0.001868 cos \<gamma> - 0.014615 cos 2\<gamma>)\<close>, and
  its \<^verbatim>\<open>eotMinutes\<close> is the sum of the two fields, computed as that sum under whatever
  rounding the arithmetic applies.  In exact arithmetic (the identity for the rounding)
  the sum equals the single-series value that \<^verbatim>\<open>computeAnalemmaPoints\<close> uses, and
  \<^verbatim>\<open>computeAnalemmaPoints\<close> computes each day's point from that value.
\<close>

theorem eot_decomposition:
  "computeEquationOfTime yr =
     map (\<lambda>n. let g = (2 * pi / real (daysInYear yr)) * (real n - 1 + 0.5);
                  tilt = 229.18 * (- 0.032077 * sin g - 0.040849 * sin (2 * g));
                  ecc = 229.18 * (0.000075 + 0.001868 * cos g - 0.014615 * cos (2 * g))
              in \<lparr> dateISO = dateFromDayOfYear yr (int n), dayOfYear = n, eotMinutes = tilt + ecc,
                   obliquityComponent = tilt, eccentricityComponent = ecc \<rparr>)
         [1..<Suc (daysInYear yr)] \<and>
   computeEquationOfTime yr =
     map (\<lambda>n. let g = (2 * pi / real (daysInYear yr)) * (real n - 1 + 0.5)
              in \<lparr> dateISO = dateFromDayOfYear yr (int n), dayOfYear = n,
                   eotMinutes = eotMinutesFl (\<lambda>x. x) (sin g) (sin (2 * g)) (cos g) (cos (2 * g)),
                   obliquityComponent = obliquityComponentFl (\<lambda>x. x) (sin g) (sin (2 * g)),
                   eccentricityComponent = eccentricityComponentFl (\<lambda>x. x) (cos g) (cos (2 * g)) \<rparr>)
         [1..<Suc (daysInYear yr)] \<and>
   map eotMinutes (computeEquationOfTime yr) =
     map (\<lambda>p. obliquityComponent p + eccentricityComponent p) (computeEquationOfTime yr) \<and>
   eotMinutesFl rnd s1 s2 c1 c2 =
     rnd (obliquityComponentFl rnd s1 s2 + eccentricityComponentFl rnd c1 c2) \<and>
   eotMinutesFl (\<lambda>x. x) s1 s2 c1 c2 = eotMinFl (\<lambda>x. x) s1 s2 c1 c2 \<and>
   eotMinFl (\<lambda>x. x) (sin g) (sin (2 * g)) (cos g) (cos (2 * g)) =
     229.18 * (0.000075 + 0.001868 * cos g - 0.032077 * sin g
               - 0.014615 * cos (2 * g) - 0.040849 * sin (2 * g)) \<and>
   map eotMinutes (computeEquationOfTime yr) =
     map (\<lambda>n. let g = (2 * pi / real (daysInYear yr)) * (real n - 1 + 0.5)
              in 229.18 * (0.000075 + 0.001868 * cos g - 0.032077 * sin g
                           - 0.014615 * cos (2 * g) - 0.040849 * sin (2 * g)))
         [1..<Suc (daysInYear yr)] \<and>
   computeAnalemmaPoints cy inputs =
     map (\<lambda>n. withDate
            (spec_point (deg2rad (latitudeDeg inputs))
               (spec_declination (spec_orbitalAngle (daysInYear (yearOf cy inputs)) n))
               (clampedClockMinutes (timeMode inputs))
               (eotMinutes (computeEquationOfTime (yearOf cy inputs) ! (n - 1)))
               (longitudeDeg inputs) (tzOffsetHours inputs))
            (dateFromDayOfYear (yearOf cy inputs) (int n)))
         [1..<Suc (daysInYear (yearOf cy inputs))]"
proof -
  have f1: "computeEquationOfTime yr =
     map (\<lambda>n. let g = (2 * pi / real (daysInYear yr)) * (real n - 1 + 0.5);
                  tilt = 229.18 * (- 0.032077 * sin g - 0.040849 * sin (2 * g));
                  ecc = 229.18 * (0.000075 + 0.001868 * cos g - 0.014615 * cos (2 * g))
              in \<lparr> dateISO = dateFromDayOfYear yr (int n), dayOfYear = n, eotMinutes = tilt + ecc,
                   obliquityComponent = tilt, eccentricityComponent = ecc \<rparr>)
         [1..<Suc (daysInYear yr)]"
    by (simp add: computeEquationOfTime_map eotPoint_def Let_def)
  have f2: "computeEquationOfTime yr =
     map (\<lambda>n. let g = (2 * pi / real (daysInYear yr)) * (real n - 1 + 0.5)
              in \<lparr> dateISO = dateFromDayOfYear yr (int n), dayOfYear = n,
                   eotMinutes = eotMinutesFl (\<lambda>x. x) (sin g) (sin (2 * g)) (cos g) (cos (2 * g)),
                   obliquityComponent = obliquityComponentFl (\<lambda>x. x) (sin g) (sin (2 * g)),
                   eccentricityComponent = eccentricityComponentFl (\<lambda>x. x) (cos g) (cos (2 * g)) \<rparr>)
         [1..<Suc (daysInYear yr)]"
    by (simp add: computeEquationOfTime_map eotPoint_def eotMinutesFl_def obliquityComponentFl_def
        eccentricityComponentFl_def Let_def)
  have f3: "map eotMinutes (computeEquationOfTime yr) =
     map (\<lambda>p. obliquityComponent p + eccentricityComponent p) (computeEquationOfTime yr)"
    by (simp add: computeEquationOfTime_map eotPoint_fields)
  have f4: "eotMinutesFl rnd s1 s2 c1 c2 =
     rnd (obliquityComponentFl rnd s1 s2 + eccentricityComponentFl rnd c1 c2)"
    by (simp add: eotMinutesFl_def)
  have f5: "eotMinutesFl (\<lambda>x. x) s1 s2 c1 c2 = eotMinFl (\<lambda>x. x) s1 s2 c1 c2"
    by (simp add: eotMinutesFl_def obliquityComponentFl_def eccentricityComponentFl_def eotMinFl_def
        algebra_simps)
  have f6: "eotMinFl (\<lambda>x. x) (sin g) (sin (2 * g)) (cos g) (cos (2 * g)) =
     229.18 * (0.000075 + 0.001868 * cos g - 0.032077 * sin g
               - 0.014615 * cos (2 * g) - 0.040849 * sin (2 * g))"
    by (simp add: eotMinFl_def)
  have f7: "map eotMinutes (computeEquationOfTime yr) =
     map (\<lambda>n. let g = (2 * pi / real (daysInYear yr)) * (real n - 1 + 0.5)
              in 229.18 * (0.000075 + 0.001868 * cos g - 0.032077 * sin g
                           - 0.014615 * cos (2 * g) - 0.040849 * sin (2 * g)))
         [1..<Suc (daysInYear yr)]"
    using spec_eot_split [symmetric]
    by (simp add: computeEquationOfTime_map eotPoint_fields o_def)
       (simp add: spec_eot_def spec_orbitalAngle_def Let_def)
  have "eotMinutes (computeEquationOfTime (yearOf cy inputs) ! (n - 1))
        = spec_eot (spec_orbitalAngle (daysInYear (yearOf cy inputs)) n)"
    if "n \<in> set [1..<Suc (daysInYear (yearOf cy inputs))]" for n
  proof -
    from that have n: "1 \<le> n" "n - 1 < daysInYear (yearOf cy inputs)" by auto
    then have "[1..<Suc (daysInYear (yearOf cy inputs))] ! (n - 1) = n" by (simp add: nth_upt del: upt_Suc)
    with n show ?thesis
      by (simp add: computeEquationOfTime_map eotPoint_fields spec_eot_split del: upt_Suc)
  qed
  then have f8: "computeAnalemmaPoints cy inputs =
     map (\<lambda>n. withDate
            (spec_point (deg2rad (latitudeDeg inputs))
               (spec_declination (spec_orbitalAngle (daysInYear (yearOf cy inputs)) n))
               (clampedClockMinutes (timeMode inputs))
               (eotMinutes (computeEquationOfTime (yearOf cy inputs) ! (n - 1)))
               (longitudeDeg inputs) (tzOffsetHours inputs))
            (dateFromDayOfYear (yearOf cy inputs) (int n)))
         [1..<Suc (daysInYear (yearOf cy inputs))]"
    unfolding computeAnalemmaPoints_spec by (intro map_cong refl) simp
  show ?thesis by (intro conjI f1 f2 f3 f4 f5 f6 f7 f8)
qed

section \<open>The equation of time in double arithmetic\<close>

lemma roundHalfEven_nearest:
  assumes "\<bar>x - of_int m\<bar> < 1 / 2"
  shows "roundHalfEven x = m"
proof -
  consider (lo) "of_int m \<le> x" | (hi) "x < of_int m" by linarith
  then show ?thesis
  proof cases
    case lo
    then have "\<lfloor>x\<rfloor> = m" using assms by (intro floor_unique) linarith+
    then show ?thesis using assms lo by (simp add: roundHalfEven_def Let_def)
  next
    case hi
    have "of_int (m - 1) \<le> x" "x < of_int (m - 1) + 1" using assms hi by simp_all
    then have f: "\<lfloor>x\<rfloor> = m - 1" by (rule floor_unique)
    have "1 / 2 < x - of_int (m - 1)" using assms hi by simp
    then show ?thesis unfolding roundHalfEven_def Let_def f by simp
  qed
qed

lemma roundHalfEven_tie_down:
  assumes "x - of_int m = 1 / 2" and "even m"
  shows "roundHalfEven x = m"
proof -
  have "\<lfloor>x\<rfloor> = m" using assms by (intro floor_unique) linarith+
  then show ?thesis using assms by (simp add: roundHalfEven_def Let_def)
qed

lemma roundHalfEven_tie_up:
  assumes "of_int m - x = 1 / 2" and "even m"
  shows "roundHalfEven x = m"
proof -
  have "of_int (m - 1) \<le> x" "x < of_int (m - 1) + 1" using assms by simp_all
  then have f: "\<lfloor>x\<rfloor> = m - 1" by (rule floor_unique)
  have "x - of_int (m - 1) = 1 / 2" using assms by simp
  moreover have "odd (m - 1)" using assms by simp
  ultimately show ?thesis unfolding roundHalfEven_def Let_def f by simp
qed

lemma binade_eval:
  assumes "2 ^ 52 \<le> \<bar>x\<bar> * 2 ^ k" and "\<bar>x\<bar> * 2 ^ k < 2 ^ 53"
  shows "binade x = 52 - int k"
proof -
  have x: "0 < \<bar>x\<bar>" using assms(1) by (cases "x = 0") simp_all
  have g: "log 2 ((2::real) ^ n) = real n" for n by (simp add: log_nat_power)
  have "log 2 (\<bar>x\<bar> * 2 ^ k) = log 2 \<bar>x\<bar> + real k"
    using x by (simp add: log_mult log_nat_power)
  moreover have "log 2 (2 ^ 52) \<le> log 2 (\<bar>x\<bar> * 2 ^ k)"
    using assms(1) x by (subst log_le_cancel_iff) simp_all
  moreover have "log 2 (\<bar>x\<bar> * 2 ^ k) < log 2 (2 ^ 53)"
    using assms(2) x by (subst log_less_cancel_iff) simp_all
  moreover have "log 2 (2 ^ 52) = (52::real)" "log 2 (2 ^ 53) = (53::real)"
    using g [of 52] g [of 53] by simp_all
  ultimately have "52 - real k \<le> log 2 \<bar>x\<bar>" "log 2 \<bar>x\<bar> < 53 - real k" by linarith+
  then show ?thesis unfolding binade_def by (intro floor_unique) simp_all
qed

lemma roundDouble_scaled:
  assumes "2 ^ 52 \<le> \<bar>x\<bar> * 2 ^ k" and "\<bar>x\<bar> * 2 ^ k < 2 ^ 53"
  shows "roundDouble x = of_int (roundHalfEven (x * 2 ^ k)) / 2 ^ k"
proof -
  have x: "x \<noteq> 0" using assms(1) by (cases "x = 0") simp_all
  have b: "binade x - 52 = - int k" using binade_eval [OF assms] by simp
  have p: "2 powr of_int (- int k) = 1 / (2 ^ k :: real)"
    by (simp add: powr_minus powr_realpow inverse_eq_divide)
  show ?thesis using x unfolding roundDouble_def b p by simp
qed

lemma roundDouble_nearest:
  assumes "2 ^ 52 \<le> \<bar>x\<bar> * 2 ^ k" and "\<bar>x\<bar> * 2 ^ k < 2 ^ 53"
    and "\<bar>x * 2 ^ k - of_int m\<bar> < 1 / 2"
  shows "roundDouble x = of_int m / 2 ^ k"
  using roundDouble_scaled [OF assms(1,2)] roundHalfEven_nearest [OF assms(3)] by simp

lemma roundDouble_tie:
  assumes "2 ^ 52 \<le> \<bar>x\<bar> * 2 ^ k" and "\<bar>x\<bar> * 2 ^ k < 2 ^ 53"
    and "\<bar>x * 2 ^ k - of_int m\<bar> = 1 / 2" and "even m"
  shows "roundDouble x = of_int m / 2 ^ k"
proof -
  have "roundHalfEven (x * 2 ^ k) = m"
  proof (cases "of_int m \<le> x * 2 ^ k")
    case True
    then have "x * 2 ^ k - of_int m = 1 / 2" using assms(3) by linarith
    then show ?thesis using assms(4) by (rule roundHalfEven_tie_down)
  next
    case False
    then have "of_int m - x * 2 ^ k = 1 / 2" using assms(3) by linarith
    then show ?thesis using assms(4) by (rule roundHalfEven_tie_up)
  qed
  then show ?thesis using roundDouble_scaled [OF assms(1,2)] by simp
qed

lemma round_tenth: "roundDouble 0.1 = 7205759403792794 / 2 ^ 56"
proof -
  have "roundDouble 0.1 = of_int 7205759403792794 / 2 ^ 56"
    by (rule roundDouble_nearest) simp_all
  then show ?thesis by simp
qed

lemma round_fifth: "roundDouble 0.2 = 7205759403792794 / 2 ^ 55"
proof -
  have "roundDouble 0.2 = of_int 7205759403792794 / 2 ^ 55"
    by (rule roundDouble_nearest) simp_all
  then show ?thesis by simp
qed

lemma round_tenth_plus_fifth: "roundDouble ((7205759403792794 / 2 ^ 56) + (7205759403792794 / 2 ^ 55)) = 5404319552844596 / 2 ^ 54"
proof -
  have "roundDouble ((7205759403792794 / 2 ^ 56) + (7205759403792794 / 2 ^ 55)) = of_int 5404319552844596 / 2 ^ 54"
    by (rule roundDouble_tie) simp_all
  then show ?thesis by simp
qed

lemma round_three_tenths: "roundDouble 0.3 = 5404319552844595 / 2 ^ 54"
proof -
  have "roundDouble 0.3 = of_int 5404319552844595 / 2 ^ 54"
    by (rule roundDouble_nearest) simp_all
  then show ?thesis by simp
qed

text \<open>The rounding at work on a familiar case: \<^verbatim>\<open>0.1 + 0.2\<close> is \<^verbatim>\<open>0.30000000000000004\<close>,
  one unit in the last place above \<^verbatim>\<open>0.3\<close>.  The sum falls half-way between two doubles
  and goes to the even significand.\<close>

lemma tenth_plus_fifth:
  "roundDouble (roundDouble 0.1 + roundDouble 0.2) = 5404319552844596 / 2 ^ 54"
  "roundDouble 0.3 = 5404319552844595 / 2 ^ 54"
  "roundDouble (roundDouble 0.1 + roundDouble 0.2) \<noteq> roundDouble 0.3"
proof -
  show a: "roundDouble (roundDouble 0.1 + roundDouble 0.2) = 5404319552844596 / 2 ^ 54"
    by (simp only: round_tenth round_fifth round_tenth_plus_fifth)
  show b: "roundDouble 0.3 = 5404319552844595 / 2 ^ 54"
    by (rule round_three_tenths)
  show "roundDouble (roundDouble 0.1 + roundDouble 0.2) \<noteq> roundDouble 0.3"
    unfolding a b by simp
qed

text \<open>The operations of day 183 of 2024, one rounding each.\<close>

lemma fl_step_01: "roundDouble 229.18 = 8063554395318518 / 2 ^ 45"
proof -
  have "roundDouble 229.18 = of_int 8063554395318518 / 2 ^ 45"
    by (rule roundDouble_nearest) simp_all
  then show ?thesis by simp
qed

lemma fl_step_02: "roundDouble 0.032077 = 4622782887909229 / 2 ^ 57"
proof -
  have "roundDouble 0.032077 = of_int 4622782887909229 / 2 ^ 57"
    by (rule roundDouble_nearest) simp_all
  then show ?thesis by simp
qed

lemma fl_step_03: "roundDouble ((- (4622782887909229 / 2 ^ 57)) * (4948039961962143 / 2 ^ 59)) = - (5078984891515509 / 2 ^ 64)"
proof -
  have "roundDouble ((- (4622782887909229 / 2 ^ 57)) * (4948039961962143 / 2 ^ 59)) = of_int (- 5078984891515509) / 2 ^ 64"
    by (rule roundDouble_nearest) simp_all
  then show ?thesis by simp
qed

lemma fl_step_04: "roundDouble 0.040849 = 5886961317710637 / 2 ^ 57"
proof -
  have "roundDouble 0.040849 = of_int 5886961317710637 / 2 ^ 57"
    by (rule roundDouble_nearest) simp_all
  then show ?thesis by simp
qed

lemma fl_step_05: "roundDouble ((5886961317710637 / 2 ^ 57) * (- (4947857682343662 / 2 ^ 58))) = - (6467681230913801 / 2 ^ 63)"
proof -
  have "roundDouble ((5886961317710637 / 2 ^ 57) * (- (4947857682343662 / 2 ^ 58))) = of_int (- 6467681230913801) / 2 ^ 63"
    by (rule roundDouble_nearest) simp_all
  then show ?thesis by simp
qed

lemma fl_step_06: "roundDouble ((- (5078984891515509 / 2 ^ 64)) - (- (6467681230913801 / 2 ^ 63))) = 7856377570312093 / 2 ^ 64"
proof -
  have "roundDouble ((- (5078984891515509 / 2 ^ 64)) - (- (6467681230913801 / 2 ^ 63))) = of_int 7856377570312093 / 2 ^ 64"
    by (rule roundDouble_nearest) simp_all
  then show ?thesis by simp
qed

lemma fl_step_07: "roundDouble ((8063554395318518 / 2 ^ 45) * (7856377570312093 / 2 ^ 64)) = 7033299263922365 / 2 ^ 56"
proof -
  have "roundDouble ((8063554395318518 / 2 ^ 45) * (7856377570312093 / 2 ^ 64)) = of_int 7033299263922365 / 2 ^ 56"
    by (rule roundDouble_nearest) simp_all
  then show ?thesis by simp
qed

lemma fl_step_08: "roundDouble 0.000075 = 5534023222112865 / 2 ^ 66"
proof -
  have "roundDouble 0.000075 = of_int 5534023222112865 / 2 ^ 66"
    by (rule roundDouble_nearest) simp_all
  then show ?thesis by simp
qed

lemma fl_step_09: "roundDouble 0.001868 = 8614629482422361 / 2 ^ 62"
proof -
  have "roundDouble 0.001868 = of_int 8614629482422361 / 2 ^ 62"
    by (rule roundDouble_nearest) simp_all
  then show ?thesis by simp
qed

lemma fl_step_10: "roundDouble ((8614629482422361 / 2 ^ 62) * (- (9006867440758819 / 2 ^ 53))) = - (8614312130220787 / 2 ^ 62)"
proof -
  have "roundDouble ((8614629482422361 / 2 ^ 62) * (- (9006867440758819 / 2 ^ 53))) = of_int (- 8614312130220787) / 2 ^ 62"
    by (rule roundDouble_nearest) simp_all
  then show ?thesis by simp
qed

lemma fl_step_11: "roundDouble ((5534023222112865 / 2 ^ 66) + (- (8614312130220787 / 2 ^ 62))) = - (8268435678838733 / 2 ^ 62)"
proof -
  have "roundDouble ((5534023222112865 / 2 ^ 66) + (- (8614312130220787 / 2 ^ 62))) = of_int (- 8268435678838733) / 2 ^ 62"
    by (rule roundDouble_nearest) simp_all
  then show ?thesis by simp
qed

lemma fl_step_12: "roundDouble 0.014615 = 8424973894914534 / 2 ^ 59"
proof -
  have "roundDouble 0.014615 = of_int 8424973894914534 / 2 ^ 59"
    by (rule roundDouble_nearest) simp_all
  then show ?thesis by simp
qed

lemma fl_step_13: "roundDouble ((8424973894914534 / 2 ^ 59) * (9005872023259526 / 2 ^ 53)) = 8423732455676030 / 2 ^ 59"
proof -
  have "roundDouble ((8424973894914534 / 2 ^ 59) * (9005872023259526 / 2 ^ 53)) = of_int 8423732455676030 / 2 ^ 59"
    by (rule roundDouble_nearest) simp_all
  then show ?thesis by simp
qed

lemma fl_step_14: "roundDouble ((- (8268435678838733 / 2 ^ 62)) - (8423732455676030 / 2 ^ 59)) = - (4728643457765436 / 2 ^ 58)"
proof -
  have "roundDouble ((- (8268435678838733 / 2 ^ 62)) - (8423732455676030 / 2 ^ 59)) = of_int (- 4728643457765436) / 2 ^ 58"
    by (rule roundDouble_nearest) simp_all
  then show ?thesis by simp
qed

lemma fl_step_15: "roundDouble ((8063554395318518 / 2 ^ 45) * (- (4728643457765436 / 2 ^ 58))) = - (8466488341020958 / 2 ^ 51)"
proof -
  have "roundDouble ((8063554395318518 / 2 ^ 45) * (- (4728643457765436 / 2 ^ 58))) = of_int (- 8466488341020958) / 2 ^ 51"
    by (rule roundDouble_nearest) simp_all
  then show ?thesis by simp
qed

lemma fl_step_16: "roundDouble ((7033299263922365 / 2 ^ 56) + (- (8466488341020958 / 2 ^ 51))) = - (8246697739023384 / 2 ^ 51)"
proof -
  have "roundDouble ((7033299263922365 / 2 ^ 56) + (- (8466488341020958 / 2 ^ 51))) = of_int (- 8246697739023384) / 2 ^ 51"
    by (rule roundDouble_nearest) simp_all
  then show ?thesis by simp
qed

lemma fl_step_17: "roundDouble ((4622782887909229 / 2 ^ 57) * (4948039961962143 / 2 ^ 59)) = 5078984891515509 / 2 ^ 64"
proof -
  have "roundDouble ((4622782887909229 / 2 ^ 57) * (4948039961962143 / 2 ^ 59)) = of_int 5078984891515509 / 2 ^ 64"
    by (rule roundDouble_nearest) simp_all
  then show ?thesis by simp
qed

lemma fl_step_18: "roundDouble ((- (8268435678838733 / 2 ^ 62)) - (5078984891515509 / 2 ^ 64)) = - (4769090950858805 / 2 ^ 61)"
proof -
  have "roundDouble ((- (8268435678838733 / 2 ^ 62)) - (5078984891515509 / 2 ^ 64)) = of_int (- 4769090950858805) / 2 ^ 61"
    by (rule roundDouble_nearest) simp_all
  then show ?thesis by simp
qed

lemma fl_step_19: "roundDouble ((- (4769090950858805 / 2 ^ 61)) - (8423732455676030 / 2 ^ 59)) = - (4808002596695366 / 2 ^ 58)"
proof -
  have "roundDouble ((- (4769090950858805 / 2 ^ 61)) - (8423732455676030 / 2 ^ 59)) = of_int (- 4808002596695366) / 2 ^ 58"
    by (rule roundDouble_nearest) simp_all
  then show ?thesis by simp
qed

lemma fl_step_20: "roundDouble ((- (4808002596695366 / 2 ^ 58)) - (- (6467681230913801 / 2 ^ 63))) = - (4605887558229310 / 2 ^ 58)"
proof -
  have "roundDouble ((- (4808002596695366 / 2 ^ 58)) - (- (6467681230913801 / 2 ^ 63))) = of_int (- 4605887558229310) / 2 ^ 58"
    by (rule roundDouble_nearest) simp_all
  then show ?thesis by simp
qed

lemma fl_step_21: "roundDouble ((8063554395318518 / 2 ^ 45) * (- (4605887558229310 / 2 ^ 58))) = - (8246697739023385 / 2 ^ 51)"
proof -
  have "roundDouble ((8063554395318518 / 2 ^ 45) * (- (4605887558229310 / 2 ^ 58))) = of_int (- 8246697739023385) / 2 ^ 51"
    by (rule roundDouble_nearest) simp_all
  then show ?thesis by simp
qed

lemmas fl_steps = fl_step_01 fl_step_02 fl_step_03 fl_step_04 fl_step_05 fl_step_06 fl_step_07 fl_step_08 fl_step_09 fl_step_10 fl_step_11 fl_step_12 fl_step_13 fl_step_14 fl_step_15 fl_step_16 fl_step_17 fl_step_18 fl_step_19 fl_step_20 fl_step_21

lemmas fl_defs = obliquityComponentFl_def eccentricityComponentFl_def eotMinutesFl_def eotMinFl_def
  day183_sin_def day183_sin2_def day183_cos_def day183_cos2_def

lemma day183_sin_double: "roundDouble (4948039961962143 / 2 ^ 59) = 4948039961962143 / 2 ^ 59"
proof -
  have "roundDouble (4948039961962143 / 2 ^ 59) = of_int 4948039961962143 / 2 ^ 59"
    by (rule roundDouble_nearest) simp_all
  then show ?thesis by simp
qed

lemma day183_sin2_double: "roundDouble (- (4947857682343662 / 2 ^ 58)) = - (4947857682343662 / 2 ^ 58)"
proof -
  have "roundDouble (- (4947857682343662 / 2 ^ 58)) = of_int (- 4947857682343662) / 2 ^ 58"
    by (rule roundDouble_nearest) simp_all
  then show ?thesis by simp
qed

lemma day183_cos_double: "roundDouble (- (9006867440758819 / 2 ^ 53)) = - (9006867440758819 / 2 ^ 53)"
proof -
  have "roundDouble (- (9006867440758819 / 2 ^ 53)) = of_int (- 9006867440758819) / 2 ^ 53"
    by (rule roundDouble_nearest) simp_all
  then show ?thesis by simp
qed

lemma day183_cos2_double: "roundDouble (9005872023259526 / 2 ^ 53) = 9005872023259526 / 2 ^ 53"
proof -
  have "roundDouble (9005872023259526 / 2 ^ 53) = of_int 9005872023259526 / 2 ^ 53"
    by (rule roundDouble_nearest) simp_all
  then show ?thesis by simp
qed

lemma day183_inputs:
  "roundDouble day183_sin = day183_sin" "roundDouble day183_sin2 = day183_sin2"
  "roundDouble day183_cos = day183_cos" "roundDouble day183_cos2 = day183_cos2"
  unfolding day183_sin_def day183_sin2_def day183_cos_def day183_cos2_def
  by (rule day183_sin_double day183_sin2_double day183_cos_double day183_cos2_double)+

lemma day183_obliquity:
  "obliquityComponentFl roundDouble day183_sin day183_sin2 = 7033299263922365 / 2 ^ 56"
  by (simp only: fl_defs fl_steps)

lemma day183_eccentricity:
  "eccentricityComponentFl roundDouble day183_cos day183_cos2 = - (8466488341020958 / 2 ^ 51)"
  by (simp only: fl_defs fl_steps)

lemma day183_eotMinutes:
  "eotMinutesFl roundDouble day183_sin day183_sin2 day183_cos day183_cos2 = - (8246697739023384 / 2 ^ 51)"
  by (simp only: fl_defs fl_steps)

lemma day183_eotMin:
  "eotMinFl roundDouble day183_sin day183_sin2 day183_cos day183_cos2 = - (8246697739023385 / 2 ^ 51)"
  by (simp only: fl_defs fl_steps)

text \<open>
  Claim C2, as stated, fails in the arithmetic the program runs: on day 183 of 2024,
  with the four sines and cosines above (each a double), the sum of the two components,
  \<^verbatim>\<open>eotMinutes\<close> = \<^verbatim>\<open>-3.6622694827951925\<close>, and the single-series \<^verbatim>\<open>eotMin\<close> =
  \<^verbatim>\<open>-3.662269482795193\<close> of \<^verbatim>\<open>computeAnalemmaPoints\<close> are different doubles, one unit in
  the last place apart.
\<close>

theorem eot_sum_differs_in_doubles:
  "roundDouble day183_sin = day183_sin \<and> roundDouble day183_sin2 = day183_sin2 \<and>
   roundDouble day183_cos = day183_cos \<and> roundDouble day183_cos2 = day183_cos2 \<and>
   obliquityComponentFl roundDouble day183_sin day183_sin2 = 7033299263922365 / 2 ^ 56 \<and>
   eccentricityComponentFl roundDouble day183_cos day183_cos2 = - (8466488341020958 / 2 ^ 51) \<and>
   eotMinutesFl roundDouble day183_sin day183_sin2 day183_cos day183_cos2 = - (8246697739023384 / 2 ^ 51) \<and>
   eotMinFl roundDouble day183_sin day183_sin2 day183_cos day183_cos2 = - (8246697739023385 / 2 ^ 51) \<and>
   eotMinutesFl roundDouble day183_sin day183_sin2 day183_cos day183_cos2 -
     eotMinFl roundDouble day183_sin day183_sin2 day183_cos day183_cos2 = 1 / 2 ^ 51 \<and>
   eotMinutesFl roundDouble day183_sin day183_sin2 day183_cos day183_cos2 \<noteq>
     eotMinFl roundDouble day183_sin day183_sin2 day183_cos day183_cos2"
proof -
  note a = day183_obliquity day183_eccentricity day183_eotMinutes day183_eotMin
  have d: "eotMinutesFl roundDouble day183_sin day183_sin2 day183_cos day183_cos2 -
     eotMinFl roundDouble day183_sin day183_sin2 day183_cos day183_cos2 = 1 / 2 ^ 51"
    unfolding a by simp
  then have "eotMinutesFl roundDouble day183_sin day183_sin2 day183_cos day183_cos2 \<noteq>
     eotMinFl roundDouble day183_sin day183_sin2 day183_cos day183_cos2"
    by auto
  with a d day183_inputs show ?thesis by (intro conjI)
qed

section \<open>The hour angle\<close>

lemma spec_trueSolarTime_range:
  "0 \<le> spec_trueSolarTime l e lon tz \<and> spec_trueSolarTime l e lon tz < 1440"
  unfolding spec_trueSolarTime_def by (rule realMod_range) simp

lemma trueSolarTimeMin_spec: "trueSolarTimeMin l e lon tz = spec_trueSolarTime l e lon tz"
  by (simp add: trueSolarTimeMin_def spec_trueSolarTime_def jsRem_normalise Let_def)

lemma H_deg_spec: "H_deg tst = spec_hourAngleDeg tst"
  by (simp add: H_deg_def spec_hourAngleDeg_def)

lemma trueSolarTimeMin_floor:
  "trueSolarTimeMin l e lon tz =
     (l + e + 4 * (lon - 15 * tz)) - 1440 * of_int \<lfloor>(l + e + 4 * (lon - 15 * tz)) / 1440\<rfloor>"
  by (simp add: trueSolarTimeMin_spec spec_trueSolarTime_def realMod_def add.assoc)

lemma trueSolarTimeMin_range:
  "0 \<le> trueSolarTimeMin l e lon tz \<and> trueSolarTimeMin l e lon tz < 1440"
  unfolding trueSolarTimeMin_spec by (rule spec_trueSolarTime_range)

lemma analemmaPoint_hour_angle:
  "analemmaPoint inputs yr nDays phi l n =
     withDate
       (spec_horizontal phi (spec_declination (spec_orbitalAngle nDays n))
          (deg2rad (H_deg (trueSolarTimeMin l (spec_eot (spec_orbitalAngle nDays n))
             (longitudeDeg inputs) (tzOffsetHours inputs)))))
       (dateFromDayOfYear yr (int n))"
  by (simp add: analemmaPoint_spec spec_point_def withDate_def trueSolarTimeMin_spec H_deg_spec)

lemma insetPoint_hour_angle:
  "insetPoint inputs io ie nDays phi l n =
     spec_horizontal phi (if io then spec_declination (spec_orbitalAngle nDays n) else 0)
       (deg2rad (H_deg (trueSolarTimeMin l
          ((if io then spec_tilt (spec_orbitalAngle nDays n) else 0)
           + (if ie then spec_eccentricity (spec_orbitalAngle nDays n) else 0))
          (longitudeDeg inputs) (tzOffsetHours inputs))))"
  by (simp add: insetPoint_spec spec_point_def trueSolarTimeMin_spec H_deg_spec)

text \<open>
  Claim C4: the hour-angle block of the two generators.  \<^verbatim>\<open>trueSolarTimeMin\<close>, after the
  line \<^verbatim>\<open>((trueSolarTimeMin % 1440) + 1440) % 1440\<close>, is the clock minutes plus the
  equation of time plus \<open>4 (longitude - 15 tz)\<close> less the whole multiple of 1440 below
  it, and lies in \<open>[0, 1440)\<close>: 1450 minutes become 10 and -10 minutes become 1430.
  \<^verbatim>\<open>H_deg\<close> is \<open>tst / 4 - 180\<close>: 0 at \<open>tst = 720\<close>, and in \<open>[-180, 180)\<close> at every
  value of \<^verbatim>\<open>trueSolarTimeMin\<close>.  Each pass of either loop computes its point from
  exactly this hour angle.
\<close>

theorem hour_angle_resolution:
  "trueSolarTimeMin l e lon tz =
     (l + e + 4 * (lon - 15 * tz)) - 1440 * of_int \<lfloor>(l + e + 4 * (lon - 15 * tz)) / 1440\<rfloor> \<and>
   0 \<le> trueSolarTimeMin l e lon tz \<and> trueSolarTimeMin l e lon tz < 1440 \<and>
   trueSolarTimeMin 1430 0 5 0 = 10 \<and>
   trueSolarTimeMin 0 (- 10) 0 0 = 1430 \<and>
   H_deg tst = tst / 4 - 180 \<and>
   H_deg 720 = 0 \<and>
   - 180 \<le> H_deg (trueSolarTimeMin l e lon tz) \<and>
   H_deg (trueSolarTimeMin l e lon tz) < 180 \<and>
   analemmaPoint inputs yr nDays phi l n =
     withDate
       (spec_horizontal phi (spec_declination (spec_orbitalAngle nDays n))
          (deg2rad (H_deg (trueSolarTimeMin l (spec_eot (spec_orbitalAngle nDays n))
             (longitudeDeg inputs) (tzOffsetHours inputs)))))
       (dateFromDayOfYear yr (int n)) \<and>
   insetPoint inputs io ie nDays phi l n =
     spec_horizontal phi (if io then spec_declination (spec_orbitalAngle nDays n) else 0)
       (deg2rad (H_deg (trueSolarTimeMin l
          ((if io then spec_tilt (spec_orbitalAngle nDays n) else 0)
           + (if ie then spec_eccentricity (spec_orbitalAngle nDays n) else 0))
          (longitudeDeg inputs) (tzOffsetHours inputs))))"
proof -
  have r: "0 \<le> trueSolarTimeMin l e lon tz \<and> trueSolarTimeMin l e lon tz < 1440"
    by (rule trueSolarTimeMin_range)
  have h: "- 180 \<le> H_deg (trueSolarTimeMin l e lon tz) \<and> H_deg (trueSolarTimeMin l e lon tz) < 180"
    using r by (simp add: H_deg_def)
  have v1: "trueSolarTimeMin 1430 0 5 0 = 10"
    by (simp add: trueSolarTimeMin_floor)
  have v2: "trueSolarTimeMin 0 (- 10) 0 0 = 1430"
    by (simp add: trueSolarTimeMin_floor)
  have c: "H_deg tst = tst / 4 - 180" "H_deg 720 = 0"
    by (simp_all add: H_deg_def)
  from r h v1 v2 c trueSolarTimeMin_floor [of l e lon tz]
    analemmaPoint_hour_angle [of inputs yr nDays phi l n]
    insetPoint_hour_angle [of inputs io ie nDays phi l n]
  show ?thesis by blast
qed

section \<open>The calendar\<close>

lemma DayFromYear_add: "0 \<le> k \<Longrightarrow> DayFromYear y + 365 * k \<le> DayFromYear (y + k)"
proof (induction k rule: int_ge_induct)
  case base
  then show ?case by simp
next
  case (step i)
  have "DayFromYear (y + (i + 1)) = DayFromYear (y + i) + DaysInYear (y + i)"
    using DayFromYear_Suc [of "y + i"] by (simp add: add.assoc)
  with step DaysInYear_ge [of "y + i"] show ?case by simp
qed

lemma DayFromYear_strict_mono: "y < z \<Longrightarrow> DayFromYear y < DayFromYear z"
  using DayFromYear_add [of "z - y" y] by simp

lemma DayFromYear_mono: "y \<le> z \<Longrightarrow> DayFromYear y \<le> DayFromYear z"
  using DayFromYear_strict_mono [of y z] by (cases "y = z") auto

lemma yearDown_le: "DayFromYear (yearDown d y) \<le> d"
proof (induction d y rule: yearDown.induct)
  case (1 d y)
  then show ?case by (cases "d < DayFromYear y") (simp_all add: yearDown.simps [of d y])
qed

lemma yearUp_bounds:
  "DayFromYear y \<le> d \<Longrightarrow> DayFromYear (yearUp d y) \<le> d \<and> d < DayFromYear (yearUp d y + 1)"
proof (induction d y rule: yearUp.induct)
  case (1 d y)
  then show ?case by (cases "DayFromYear (y + 1) \<le> d") (simp_all add: yearUp.simps [of d y])
qed

lemma YearFromTime_bounds:
  "DayFromYear (YearFromTime d) \<le> d \<and> d < DayFromYear (YearFromTime d + 1)"
  unfolding YearFromTime_def by (rule yearUp_bounds) (rule yearDown_le)

lemma YearFromTime_unique:
  assumes lo: "DayFromYear y \<le> d" and hi: "d < DayFromYear (y + 1)"
  shows "YearFromTime d = y"
proof (rule ccontr)
  assume ne: "YearFromTime d \<noteq> y"
  note b = YearFromTime_bounds [of d]
  show False
  proof (cases "YearFromTime d < y")
    case True
    then have "DayFromYear (YearFromTime d + 1) \<le> DayFromYear y" by (intro DayFromYear_mono) simp
    with b lo show False by simp
  next
    case False
    with ne have "y + 1 \<le> YearFromTime d" by simp
    then have "DayFromYear (y + 1) \<le> DayFromYear (YearFromTime d)" by (rule DayFromYear_mono)
    with b hi show False by simp
  qed
qed

lemma YearFromTime_in_year:
  assumes "0 \<le> k" and "k < DaysInYear y"
  shows "YearFromTime (DayFromYear y + k) = y"
  using assms by (intro YearFromTime_unique) (simp_all add: DayFromYear_Suc)

lemma DayWithinYear_in_year:
  "0 \<le> k \<Longrightarrow> k < DaysInYear y \<Longrightarrow> DayWithinYear (DayFromYear y + k) = k"
  by (simp add: DayWithinYear_def YearFromTime_in_year)

lemma InLeapYear_in_year:
  "0 \<le> k \<Longrightarrow> k < DaysInYear y \<Longrightarrow> InLeapYear (DayFromYear y + k) = (if DaysInYear y = 366 then 1 else 0)"
  by (simp add: InLeapYear_def YearFromTime_in_year)

lemma DaysInYear_pos: "0 < DaysInYear y"
  using DaysInYear_ge [of y] by simp

lemma MonthFromTime_year_start: "MonthFromTime (DayFromYear y) = 0"
  using DayWithinYear_in_year [of 0 y] DaysInYear_pos [of y]
  by (simp add: MonthFromTime_def Let_def)

lemma YearFromTime_year_start: "YearFromTime (DayFromYear y) = y"
  using YearFromTime_in_year [of 0 y] DaysInYear_pos [of y] by simp

text \<open>The date of the year's first day, moved to day \<open>dt\<close> of its month.\<close>

lemma setUTCDate_year_start:
  "setUTCDate (Some (DayFromYear y)) dt = TimeClip (DayFromYear y + dt - 1)"
  by (simp add: setUTCDate_def MonthFromTime_year_start YearFromTime_year_start MakeDay_def
      monthStart_def)

lemma dateFromDayOfYear_valid:
  assumes "\<bar>DayFromYear (if 0 \<le> y \<and> y \<le> 99 then 1900 + y else y)\<bar> \<le> 100000000"
  shows "dateFromDayOfYear y day =
         dateString (TimeClip (DayFromYear (if 0 \<le> y \<and> y \<le> 99 then 1900 + y else y) + day - 1))"
proof -
  define yr where "yr = (if 0 \<le> y \<and> y \<le> 99 then 1900 + y else y)"
  have "DateUTC y = TimeClip (DayFromYear yr)"
    by (simp add: DateUTC_def MakeDay_def monthStart_def yr_def Let_def)
  also have "\<dots> = Some (DayFromYear yr)"
    using assms by (simp add: TimeClip_def yr_def)
  finally have "DateUTC y = Some (DayFromYear yr)" .
  then have "dateFromDayOfYear y day = dateString (TimeClip (DayFromYear yr + day - 1))"
    by (simp add: dateFromDayOfYear_def setUTCDate_year_start dateString_def Let_def)
  then show ?thesis by (simp only: yr_def)
qed

lemma DayFromYear_range:
  assumes "100 \<le> y" and "y \<le> 275760"
  shows "\<bar>DayFromYear y\<bar> \<le> 100000000"
proof -
  have "DayFromYear 100 \<le> DayFromYear y" "DayFromYear y \<le> DayFromYear 275760"
    using assms by (simp_all add: DayFromYear_mono)
  moreover have "DayFromYear 100 = - 683003" "DayFromYear 275760 = 99999744"
    by (simp_all add: DayFromYear_def)
  ultimately show ?thesis by simp
qed

lemma jsRemInt_zero_iff: "0 < k \<Longrightarrow> jsRemInt y k = 0 \<longleftrightarrow> y mod k = 0"
proof -
  assume k: "0 < k"
  have "\<bar>y\<bar> mod k = 0 \<longleftrightarrow> y mod k = 0"
    by (simp add: mod_eq_0_iff_dvd)
  then show ?thesis using k by (auto simp: jsRemInt_def sgn_if)
qed

lemma isLeapYear_iff: "isLeapYear y \<longleftrightarrow> DaysInYear y = 366"
proof -
  have m1: "y mod 100 = 0 \<Longrightarrow> y mod 4 = 0" by presburger
  have m2: "y mod 400 = 0 \<Longrightarrow> y mod 100 = 0" by presburger
  show ?thesis using m1 m2 by (auto simp: isLeapYear_def DaysInYear_def jsRemInt_zero_iff)
qed

lemma daysInYear_eq: "int (daysInYear y) = DaysInYear y"
  using isLeapYear_iff [of y] by (auto simp: daysInYear_def DaysInYear_def split: if_splits)

text \<open>
  Claim C10, amended: \<^verbatim>\<open>dateFromDayOfYear\<close> does not fail on a day outside
  \<open>[1, daysInYear(year)]\<close>; it returns the date reached by counting on into the
  neighbouring year.  For the years 100 to 275759, day \<open>daysInYear(year) + k\<close> of a year is
  returned as day \<open>k\<close> of the next year, for every whole number \<open>k\<close>.
\<close>

theorem day_rollover:
  assumes "100 \<le> y" and "y < 275760"
  shows "dateFromDayOfYear y (int (daysInYear y) + k) = dateFromDayOfYear (y + 1) k"
proof -
  have a: "dateFromDayOfYear y (int (daysInYear y) + k)
        = dateString (TimeClip (DayFromYear y + (int (daysInYear y) + k) - 1))"
    using assms DayFromYear_range [of y] by (simp add: dateFromDayOfYear_valid)
  have b: "dateFromDayOfYear (y + 1) k = dateString (TimeClip (DayFromYear (y + 1) + k - 1))"
    using assms DayFromYear_range [of "y + 1"] by (simp add: dateFromDayOfYear_valid)
  have "DayFromYear y + (int (daysInYear y) + k) - 1 = DayFromYear (y + 1) + k - 1"
    by (simp add: DayFromYear_Suc daysInYear_eq)
  then show ?thesis unfolding a b by (simp only:)
qed

theorem day_rollover_witness:
  "(100::int) \<le> 2024 \<and> (2024::int) < 275760 \<and>
   dateFromDayOfYear 2024 (int (daysInYear 2024) + 1) = dateFromDayOfYear 2025 1 \<and>
   dateFromDayOfYear 2025 1 = ''2025-01-01''"
proof -
  have "dateFromDayOfYear 2025 1 = ''2025-01-01''" by code_simp
  with day_rollover [of 2024 1] show ?thesis by simp
qed

text \<open>
  Claim C10, as stated, fails: day 367 of 2024 (366 days) and day 0 of 2024 are answered
  with calendar dates of the neighbouring years.
\<close>

theorem out_of_range_day_counterexample:
  "daysInYear 2024 = 366 \<and> dateFromDayOfYear 2024 367 = ''2025-01-01'' \<and>
   dateFromDayOfYear 2024 0 = ''2023-12-31''"
  by code_simp

lemma MonthFromTime_monthOfDay: "MonthFromTime d = monthOfDay (InLeapYear d) (DayWithinYear d)"
  by (simp add: MonthFromTime_def monthOfDay_def Let_def)

lemma nextDay_table:
  assumes "l = (if spec_isLeapYear y then 1 else 0)" and "0 \<le> w" and "w + 1 < 365 + l"
  shows "nextDay (y, monthOfDay l w + 1, w - monthStart l (monthOfDay l w) + 1)
         = (y, monthOfDay l (w + 1) + 1, (w + 1) - monthStart l (monthOfDay l (w + 1)) + 1)"
proof (cases "spec_isLeapYear y")
  case True
  with assms show ?thesis
    by (simp add: monthOfDay_def monthStart_def monthLength_def)
next
  case False
  with assms show ?thesis
    by (simp add: monthOfDay_def monthStart_def monthLength_def)
qed

lemma addDays_in_year:
  assumes l: "l = (if spec_isLeapYear y then 1 else 0)" and k: "int k < 365 + l"
  shows "addDays k (y, 1, 1)
         = (y, monthOfDay l (int k) + 1, int k - monthStart l (monthOfDay l (int k)) + 1)"
  using k
proof (induction k)
  case 0
  show ?case by (simp add: addDays_def monthOfDay_def monthStart_def)
next
  case (Suc k)
  then have "addDays k (y, 1, 1)
         = (y, monthOfDay l (int k) + 1, int k - monthStart l (monthOfDay l (int k)) + 1)"
    by simp
  then have "addDays (Suc k) (y, 1, 1)
         = nextDay (y, monthOfDay l (int k) + 1, int k - monthStart l (monthOfDay l (int k)) + 1)"
    by (simp add: addDays_def)
  also have "\<dots> = (y, monthOfDay l (int k + 1) + 1,
                     (int k + 1) - monthStart l (monthOfDay l (int k + 1)) + 1)"
    using Suc.prems by (intro nextDay_table [OF l]) simp_all
  finally show ?case by (simp add: add.commute)
qed

lemma monthOfDay_bounds:
  assumes "0 \<le> w"
  shows "0 \<le> monthOfDay l w" and "monthStart l (monthOfDay l w) \<le> w \<or> l < 0"
  using assms by (simp_all add: monthOfDay_def monthStart_def)

lemma showNat_nonempty: "showNat n \<noteq> []"
  by (simp add: showNat.simps [of n])

lemma length_showNat_ge4:
  assumes "1000 \<le> n"
  shows "4 \<le> length (showNat n)"
proof -
  have a: "\<not> n < 10" "\<not> n div 10 < 10" "\<not> n div 10 div 10 < 10" using assms by simp_all
  have "Suc 0 \<le> length (showNat (n div 10 div 10 div 10))"
    using showNat_nonempty [of "n div 10 div 10 div 10"]
    by (cases "showNat (n div 10 div 10 div 10)") simp_all
  then show ?thesis
    using a by (simp add: showNat.simps [of n] showNat.simps [of "n div 10"]
        showNat.simps [of "n div 10 div 10"])
qed

lemma spec_isLeapYear_iff: "spec_isLeapYear y \<longleftrightarrow> DaysInYear y = 366"
proof -
  have m1: "y mod 100 = 0 \<Longrightarrow> y mod 4 = 0" by presburger
  have m2: "y mod 400 = 0 \<Longrightarrow> y mod 100 = 0" by presburger
  show ?thesis using m1 m2 by (auto simp: spec_isLeapYear_def DaysInYear_def)
qed

lemma isLeapYear_spec: "isLeapYear y = spec_isLeapYear y"
  by (simp add: isLeapYear_iff spec_isLeapYear_iff)

text \<open>For a four-digit year and a day of that year, \<^verbatim>\<open>dateFromDayOfYear\<close> gives the ISO
  date reached by stepping \<open>day - 1\<close> days on from January 1.\<close>

lemma dates_within_year:
  assumes y: "1000 \<le> y" "y \<le> 9999" and n: "1 \<le> n" "n \<le> daysInYear y"
  shows "dateFromDayOfYear y (int n) = isoDate (addDays (n - 1) (y, 1, 1))"
proof -
  define l :: int where "l = (if spec_isLeapYear y then 1 else 0)"
  define w where "w = int n - 1"
  define m where "m = monthOfDay l w"
  have dy: "DaysInYear y = 365 + l"
    using spec_isLeapYear_iff [of y] by (auto simp: l_def DaysInYear_def)
  have w: "0 \<le> w" "w < DaysInYear y" using n daysInYear_eq [of y] by (simp_all add: w_def)
  have l01: "0 \<le> l" by (simp add: l_def)
  have r: "\<bar>DayFromYear y\<bar> \<le> 100000000" using y by (intro DayFromYear_range) simp_all
  have "DayFromYear y \<le> DayFromYear y + w" "DayFromYear y + w < DayFromYear (y + 1)"
    using w by (simp_all add: DayFromYear_Suc)
  moreover have "\<bar>DayFromYear (y + 1)\<bar> \<le> 100000000" using y by (intro DayFromYear_range) simp_all
  ultimately have c: "TimeClip (DayFromYear y + w) = Some (DayFromYear y + w)"
    using r by (simp add: TimeClip_def)
  have il: "InLeapYear (DayFromYear y + w) = l"
    using w dy by (simp add: InLeapYear_in_year l_def)
  have mf: "MonthFromTime (DayFromYear y + w) = m"
    using w by (simp add: MonthFromTime_monthOfDay il DayWithinYear_in_year m_def)
  have df: "DateFromTime (DayFromYear y + w) = w - monthStart l m + 1"
    using w by (simp add: DateFromTime_def il mf DayWithinYear_in_year)
  have yf: "YearFromTime (DayFromYear y + w) = y" using w by (simp add: YearFromTime_in_year)
  have m0: "0 \<le> m" unfolding m_def by (rule monthOfDay_bounds(1) [OF w(1)])
  have d0: "monthStart l m \<le> w" using monthOfDay_bounds(2) [OF w(1), of l] l01 by (simp add: m_def)
  have "dateFromDayOfYear y (int n) = dateString (TimeClip (DayFromYear y + int n - 1))"
    using y r by (simp add: dateFromDayOfYear_valid)
  also have "DayFromYear y + int n - 1 = DayFromYear y + w" by (simp add: w_def)
  also have "dateString (TimeClip (DayFromYear y + w))
      = showNat (nat y) @ ''-'' @ padStart2 (showNat (nat (m + 1))) @ ''-''
        @ padStart2 (showNat (nat (w - monthStart l m + 1)))"
    using y m0 d0
    by (simp add: c dateString_def getUTCFullYear_def getUTCMonth_def getUTCDate_def yf mf df
        jsString_def)
  finally have lhs: "dateFromDayOfYear y (int n)
      = showNat (nat y) @ ''-'' @ padStart2 (showNat (nat (m + 1))) @ ''-''
        @ padStart2 (showNat (nat (w - monthStart l m + 1)))" .
  have "int (n - 1) = w" using n by (simp add: w_def)
  moreover have "int (n - 1) < 365 + l" using w dy n by (simp add: w_def)
  ultimately have a: "addDays (n - 1) (y, 1, 1) = (y, m + 1, w - monthStart l m + 1)"
    using addDays_in_year [of l y "n - 1"] by (simp add: l_def m_def)
  have "4 \<le> length (showNat (nat y))" using y by (intro length_showNat_ge4) simp
  then have "isoDate (y, m + 1, w - monthStart l m + 1)
      = showNat (nat y) @ ''-'' @ padStart2 (showNat (nat (m + 1))) @ ''-''
        @ padStart2 (showNat (nat (w - monthStart l m + 1)))"
    by (simp add: isoDate_def)
  with lhs a show ?thesis by simp
qed

text \<open>The series of a four-digit year: one point per day, numbered from 1 without gaps,
  each dated with the ISO date of its day.\<close>

lemma eot_series_calendar:
  "length (computeEquationOfTime yr) = daysInYear yr"
  "daysInYear yr = (if spec_isLeapYear yr then 366 else 365)"
  "map dayOfYear (computeEquationOfTime yr) = [1..<Suc (daysInYear yr)]"
  "1000 \<le> yr \<Longrightarrow> yr \<le> 9999 \<Longrightarrow>
     map EotPoint.dateISO (computeEquationOfTime yr)
     = map (\<lambda>n. isoDate (addDays (n - 1) (yr, 1, 1))) [1..<Suc (daysInYear yr)]"
proof -
  show "length (computeEquationOfTime yr) = daysInYear yr"
    by (simp add: computeEquationOfTime_map)
  show "daysInYear yr = (if spec_isLeapYear yr then 366 else 365)"
    by (simp add: daysInYear_def isLeapYear_spec)
  show "map dayOfYear (computeEquationOfTime yr) = [1..<Suc (daysInYear yr)]"
    by (simp add: computeEquationOfTime_map eotPoint_fields o_def del: upt_Suc)
  assume y: "1000 \<le> yr" "yr \<le> 9999"
  have "EotPoint.dateISO (eotPoint yr (daysInYear yr) n) = isoDate (addDays (n - 1) (yr, 1, 1))"
    if "n \<in> set [1..<Suc (daysInYear yr)]" for n
    using that y by (simp add: eotPoint_fields dates_within_year del: upt_Suc)
  then show "map EotPoint.dateISO (computeEquationOfTime yr)
     = map (\<lambda>n. isoDate (addDays (n - 1) (yr, 1, 1))) [1..<Suc (daysInYear yr)]"
    unfolding computeEquationOfTime_map map_map o_def by (intro map_cong refl) simp
qed

lemma analemma_series_calendar:
  "length (computeAnalemmaPoints cy inputs) = daysInYear (yearOf cy inputs)"
  "1000 \<le> yearOf cy inputs \<Longrightarrow> yearOf cy inputs \<le> 9999 \<Longrightarrow>
     map AnalemmaPoint.dateISO (computeAnalemmaPoints cy inputs)
     = map (\<lambda>n. isoDate (addDays (n - 1) (yearOf cy inputs, 1, 1)))
         [1..<Suc (daysInYear (yearOf cy inputs))]"
proof -
  show "length (computeAnalemmaPoints cy inputs) = daysInYear (yearOf cy inputs)"
    by (rule computeAnalemmaPoints_length)
  assume y: "1000 \<le> yearOf cy inputs" "yearOf cy inputs \<le> 9999"
  have "AnalemmaPoint.dateISO
          (analemmaPoint inputs (yearOf cy inputs) (daysInYear (yearOf cy inputs))
             (deg2rad (latitudeDeg inputs)) (clampedClockMinutes (timeMode inputs)) n)
        = isoDate (addDays (n - 1) (yearOf cy inputs, 1, 1))"
    if "n \<in> set [1..<Suc (daysInYear (yearOf cy inputs))]" for n
    using that y
    by (simp add: analemmaPoint_spec dates_within_year AnalemmaInsetPoint.defs AnalemmaPoint.defs
        del: upt_Suc)
  then show "map AnalemmaPoint.dateISO (computeAnalemmaPoints cy inputs)
     = map (\<lambda>n. isoDate (addDays (n - 1) (yearOf cy inputs, 1, 1)))
         [1..<Suc (daysInYear (yearOf cy inputs))]"
    unfolding computeAnalemmaPoints_map map_map o_def by (intro map_cong refl) simp
qed

section \<open>Clock times, time modes and years outside the usual range\<close>

lemma clampedClockMinutes_idem: "clampedClockMinutes (clampTimeMode t) = clampedClockMinutes t"
  by (simp add: clampedClockMinutes_def clampTimeMode_def)

lemma yearOf_timeMode: "yearOf cy (inputs\<lparr>timeMode := t\<rparr>) = yearOf cy inputs"
  by (simp add: yearOf_def)

text \<open>The main generator clamps: its output is its output for the clamped hour and minute.\<close>

lemma computeAnalemmaPoints_clamped:
  "computeAnalemmaPoints cy (inputs\<lparr>timeMode := clampTimeMode (timeMode inputs)\<rparr>)
   = computeAnalemmaPoints cy inputs"
  by (simp add: computeAnalemmaPoints_spec clampedClockMinutes_idem yearOf_timeMode)

lemma hd_map_days: "0 < k \<Longrightarrow> hd (map f [Suc 0..<Suc k]) = f (Suc 0)"
  by (simp add: hd_map upt_rec [of "Suc 0"] del: upt_Suc)

lemma hd_computeAnalemmaInset:
  "hd (computeAnalemmaInset cy inputs io ie) =
     insetPoint inputs io ie (daysInYear (yearOf cy inputs)) (deg2rad (latitudeDeg inputs))
       (hh (timeMode inputs) * 60 + mm (timeMode inputs)) 1"
  by (simp add: computeAnalemmaInset_map hd_map_days daysInYear_pos del: upt_Suc)

lemma realMod_1440_1440: "realMod 1440 1440 = 0"
  by (simp add: realMod_def)

lemma realMod_1380_1440: "realMod 1380 1440 = 1380"
  by (simp add: realMod_def)

text \<open>
  Claim C8 on the code: at the clock time 24:00 the main generator answers as for the
  clamped 23:00, and \<^verbatim>\<open>computeAnalemmaInset\<close> does not: it uses 1440 clock minutes, so
  its first point has \<open>E = 0\<close> where the clamped time gives \<open>E = sin (11\<pi>/12) > 0\<close>.
\<close>

theorem inset_does_not_clamp:
  "clampTimeMode (timeMode equator2400) = timeMode equator2300 \<and>
   computeAnalemmaPoints 2024 equator2400 = computeAnalemmaPoints 2024 equator2300 \<and>
   E (hd (computeAnalemmaInset 2024 equator2400 False False)) = 0 \<and>
   0 < E (hd (computeAnalemmaInset 2024 equator2300 False False)) \<and>
   computeAnalemmaInset 2024 equator2400 False False \<noteq> computeAnalemmaInset 2024 equator2300 False False"
proof -
  have c: "clampTimeMode (timeMode equator2400) = timeMode equator2300"
    by (simp add: clampTimeMode_def equator2400_def equator2300_def)
  have "equator2400\<lparr>timeMode := clampTimeMode (timeMode equator2400)\<rparr> = equator2300"
    by (simp add: clampTimeMode_def equator2400_def equator2300_def)
  then have m: "computeAnalemmaPoints 2024 equator2400 = computeAnalemmaPoints 2024 equator2300"
    using computeAnalemmaPoints_clamped [of 2024 equator2400] by simp
  have e24: "E (hd (computeAnalemmaInset 2024 equator2400 False False)) = 0"
    by (simp add: hd_computeAnalemmaInset insetPoint_spec spec_point_def spec_horizontal_def
        spec_trueSolarTime_def spec_hourAngleDeg_def realMod_1440_1440 deg2rad_def
        equator2400_def Let_def)
  have "E (hd (computeAnalemmaInset 2024 equator2300 False False)) = sin (11 * pi / 12)"
    by (simp add: hd_computeAnalemmaInset insetPoint_spec spec_point_def spec_horizontal_def
        spec_trueSolarTime_def spec_hourAngleDeg_def realMod_1380_1440 deg2rad_def
        equator2300_def Let_def)
  moreover have "0 < sin (11 * pi / 12)"
    by (rule sin_gt_zero) (use pi_gt_zero in simp_all)
  ultimately have e23: "0 < E (hd (computeAnalemmaInset 2024 equator2300 False False))" by simp
  from e24 e23 have "computeAnalemmaInset 2024 equator2400 False False
      \<noteq> computeAnalemmaInset 2024 equator2300 False False" by auto
  with c m e24 e23 show ?thesis by blast
qed

lemma realMod_shift:
  "realMod (720 + x) 1440 / 4 - 180 = realMod (x / 4 + 180) 360 - 180"
proof -
  have "(x / 4 + 180) / 360 = (720 + x) / 1440" by (simp add: field_simps)
  then show ?thesis by (simp add: realMod_def field_simps)
qed

text \<open>
  A series computed for the clock time 12:00 uses 720 clock minutes; each day's hour
  angle in degrees is the time correction \<open>(eot + 4 (lon - 15 tz)) / 4\<close> wrapped into
  \<open>[-180, 180)\<close>, near 0 close to the zone meridian, and the series has
  \<open>daysInYear(year)\<close> points.
\<close>

lemma clock_noon_series:
  "(\<forall>t :: TimeMode. t = fixedLocalTime (hh t) (mm t)) \<and>
   clampedClockMinutes (fixedLocalTime 12 0) = 720 \<and>
   computeAnalemmaPoints cy (inputs\<lparr>timeMode := fixedLocalTime 12 0\<rparr>) =
     map (\<lambda>n. withDate
            (spec_horizontal (deg2rad (latitudeDeg inputs))
               (spec_declination (spec_orbitalAngle (daysInYear (yearOf cy inputs)) n))
               (deg2rad (spec_hourAngleDeg (spec_trueSolarTime 720
                  (spec_eot (spec_orbitalAngle (daysInYear (yearOf cy inputs)) n))
                  (longitudeDeg inputs) (tzOffsetHours inputs)))))
            (dateFromDayOfYear (yearOf cy inputs) (int n)))
         [1..<Suc (daysInYear (yearOf cy inputs))] \<and>
   spec_hourAngleDeg (spec_trueSolarTime 720 e lon tz) =
     realMod ((e + 4 * (lon - 15 * tz)) / 4 + 180) 360 - 180 \<and>
   length (computeAnalemmaPoints cy (inputs\<lparr>timeMode := fixedLocalTime 12 0\<rparr>))
     = daysInYear (yearOf cy inputs)"
proof -
  have a: "\<forall>t :: TimeMode. t = fixedLocalTime (hh t) (mm t)" by simp
  have b: "clampedClockMinutes (fixedLocalTime 12 0) = 720" by (simp add: clampedClockMinutes_def)
  have c: "computeAnalemmaPoints cy (inputs\<lparr>timeMode := fixedLocalTime 12 0\<rparr>) =
     map (\<lambda>n. withDate
            (spec_horizontal (deg2rad (latitudeDeg inputs))
               (spec_declination (spec_orbitalAngle (daysInYear (yearOf cy inputs)) n))
               (deg2rad (spec_hourAngleDeg (spec_trueSolarTime 720
                  (spec_eot (spec_orbitalAngle (daysInYear (yearOf cy inputs)) n))
                  (longitudeDeg inputs) (tzOffsetHours inputs)))))
            (dateFromDayOfYear (yearOf cy inputs) (int n)))
         [1..<Suc (daysInYear (yearOf cy inputs))]"
    by (simp add: computeAnalemmaPoints_spec spec_point_def b yearOf_timeMode)
  have d: "spec_hourAngleDeg (spec_trueSolarTime 720 e lon tz) =
     realMod ((e + 4 * (lon - 15 * tz)) / 4 + 180) 360 - 180"
    unfolding spec_hourAngleDeg_def spec_trueSolarTime_def by (rule realMod_shift)
  have l: "length (computeAnalemmaPoints cy (inputs\<lparr>timeMode := fixedLocalTime 12 0\<rparr>))
     = daysInYear (yearOf cy inputs)"
    by (simp add: computeAnalemmaPoints_length yearOf_timeMode)
  from a b c d l show ?thesis by (intro conjI)
qed

lemma hd_computeEquationOfTime:
  "hd (computeEquationOfTime yr) = eotPoint yr (daysInYear yr) 1"
  by (simp add: computeEquationOfTime_map hd_map_days daysInYear_pos del: upt_Suc)

lemma hd_computeAnalemmaPoints:
  "hd (computeAnalemmaPoints cy inputs) =
     analemmaPoint inputs (yearOf cy inputs) (daysInYear (yearOf cy inputs))
       (deg2rad (latitudeDeg inputs)) (clampedClockMinutes (timeMode inputs)) 1"
  by (simp add: computeAnalemmaPoints_map hd_map_days daysInYear_pos del: upt_Suc)

lemma dateFromDayOfYear_50_1: "dateFromDayOfYear 50 1 = ''1950-01-01''"
  by code_simp

lemma isoDate_50_1: "isoDate (addDays 0 (50, 1, 1)) = ''0050-01-01''"
  by code_simp

lemma year_zero_last_day: "daysInYear 0 = 366 \<and> dateFromDayOfYear 0 366 = ''1901-01-01''"
  by code_simp

lemma three_digit_year: "dateFromDayOfYear 999 1 = ''999-01-01''"
  by code_simp

text \<open>
  Claim C5 on the code: for the year 50 the first point of either generator is dated
  1950-01-01, where the date reached from January 1 of the year 50 is 0050-01-01:
  \<^verbatim>\<open>Date.UTC\<close> reads a year from 0 to 99 as 1900 + year.  For the year 0 the series
  has 366 points and its last date is 1901-01-01.  The year is written without padding,
  so the date of a year below 1000 has fewer than four year digits.
\<close>

theorem two_digit_year_dates:
  "EotPoint.dateISO (hd (computeEquationOfTime 50)) = ''1950-01-01'' \<and>
   AnalemmaPoint.dateISO (hd (computeAnalemmaPoints 2024 year50)) = ''1950-01-01'' \<and>
   isoDate (addDays 0 (50, 1, 1)) = ''0050-01-01'' \<and>
   daysInYear 0 = 366 \<and> dateFromDayOfYear 0 366 = ''1901-01-01'' \<and>
   dateFromDayOfYear 999 1 = ''999-01-01''"
proof -
  have "EotPoint.dateISO (hd (computeEquationOfTime 50)) = ''1950-01-01''"
    by (simp add: hd_computeEquationOfTime eotPoint_def Let_def dateFromDayOfYear_50_1)
  moreover have "AnalemmaPoint.dateISO (hd (computeAnalemmaPoints 2024 year50)) = ''1950-01-01''"
    by (simp add: hd_computeAnalemmaPoints analemmaPoint_def Let_def yearOf_def year50_def
        dateFromDayOfYear_50_1)
  ultimately show ?thesis
    using isoDate_50_1 year_zero_last_day three_digit_year by (intro conjI) simp_all
qed

section \<open>The horizontal transform and the equatorial observer at noon\<close>

lemma sin_lower: 
  fixes x :: real
  assumes "0 \<le> x"
  shows "x - x ^ 3 / 6 \<le> sin x"
proof -
  have "(\<Sum>m<3. sin_coeff m * x ^ m) = x"
    by (simp add: sin_coeff_def eval_nat_numeral lessThan_Suc)
  moreover have "inverse (fact 3) * \<bar>x\<bar> ^ 3 = x ^ 3 / 6"
    using assms by (simp add: eval_nat_numeral)
  ultimately have "\<bar>sin x - x\<bar> \<le> x ^ 3 / 6"
    using Maclaurin_sin_bound [of x 3] by simp
  then show ?thesis by linarith
qed

lemma cos_lower:
  fixes x :: real
  shows "1 - x\<^sup>2 / 2 \<le> cos x"
proof -
  have "\<bar>sin (x / 2)\<bar> \<le> \<bar>x / 2\<bar>" by (rule abs_sin_x_le_abs_x)
  then have "(sin (x / 2))\<^sup>2 \<le> (x / 2)\<^sup>2" by (rule abs_le_square_iff [THEN iffD1])
  moreover have "cos x = 1 - 2 * (sin (x / 2))\<^sup>2" using cos_double_sin [of "x / 2"] by simp
  ultimately show ?thesis by (simp add: power2_eq_square field_simps)
qed

lemma arctan_le_self:
  fixes x :: real
  assumes "0 \<le> x"
  shows "arctan x \<le> x"
proof -
  have "(\<lambda>t. t - arctan t) 0 \<le> (\<lambda>t. t - arctan t) x"
  proof (rule DERIV_nonneg_imp_nondecreasing [OF assms])
    fix t :: real
    have "((\<lambda>t. t - arctan t) has_real_derivative (1 - inverse (1 + t\<^sup>2))) (at t)"
      by (auto intro!: derivative_eq_intros)
    moreover have "inverse (1 + t\<^sup>2) \<le> 1"
      by (rule inverse_le_1_iff [THEN iffD2]) (simp add: add_nonneg_pos)
    ultimately show "\<exists>y. ((\<lambda>t. t - arctan t) has_real_derivative y) (at t) \<and> 0 \<le> y"
      by (intro exI [of _ "1 - inverse (1 + t\<^sup>2)"]) simp
  qed
  then show ?thesis by simp
qed

text \<open>Sines and cosines of an angle of at most 0.0328 radians.\<close>

lemma small_angle:
  fixes x :: real
  assumes "0 \<le> x" and "x \<le> 328 / 10000"
  shows "0 \<le> sin x" and "sin x \<le> 328 / 10000" and "9994 / 10000 \<le> cos x" and "cos x \<le> 1"
proof -
  have "x \<le> pi" using assms pi_ge_two by linarith
  with assms show "0 \<le> sin x" by (simp add: sin_ge_zero)
  show "sin x \<le> 328 / 10000" using sin_x_le_x [OF assms(1)] assms(2) by linarith
  have "x\<^sup>2 \<le> (328 / 10000)\<^sup>2" using assms by (intro power_mono) simp_all
  then show "9994 / 10000 \<le> cos x" using cos_lower [of x] by (simp add: power2_eq_square)
  show "cos x \<le> 1" by simp
qed

lemma day_angle_small:
  "0 \<le> pi / 366" "pi / 366 \<le> 328 / 10000"
  "0 \<le> 2 * (pi / 366)" "2 * (pi / 366) \<le> 328 / 10000"
  "0 \<le> 3 * (pi / 366)" "3 * (pi / 366) \<le> 328 / 10000"
  using pi_gt_zero pi_less_4 by simp_all

lemma series_bounds_start:
  "- 4025 / 10000 \<le> spec_declination (pi / 366)" "spec_declination (pi / 366) \<le> - 39 / 100"
  "- 346 / 100 \<le> spec_eot (pi / 366)" "spec_eot (pi / 366) \<le> - 29 / 10"
proof -
  define s1 s2 s3 c1 c2 c3 where "s1 = sin (pi / 366)" and "s2 = sin (2 * (pi / 366))"
    and "s3 = sin (3 * (pi / 366))" and "c1 = cos (pi / 366)" and "c2 = cos (2 * (pi / 366))"
    and "c3 = cos (3 * (pi / 366))"
  note b1 = small_angle [OF day_angle_small(1,2), folded s1_def c1_def]
  note b2 = small_angle [OF day_angle_small(3,4), folded s2_def c2_def]
  note b3 = small_angle [OF day_angle_small(5,6), folded s3_def c3_def]
  have d: "spec_declination (pi / 366) = 0.006918 - 0.399912 * c1 + 0.070257 * s1 - 0.006758 * c2
     + 0.000907 * s2 - 0.002697 * c3 + 0.00148 * s3"
    by (simp add: spec_declination_def s1_def s2_def s3_def c1_def c2_def c3_def)
  have e: "spec_eot (pi / 366) = 229.18 * (0.000075 + 0.001868 * c1 - 0.032077 * s1 - 0.014615 * c2
     - 0.040849 * s2)"
    by (simp add: spec_eot_def s1_def s2_def c1_def c2_def)
  show "- 4025 / 10000 \<le> spec_declination (pi / 366)" unfolding d using b1 b2 b3 by (simp; linarith)
  show "spec_declination (pi / 366) \<le> - 39 / 100" unfolding d using b1 b2 b3 by (simp; linarith)
  show "- 346 / 100 \<le> spec_eot (pi / 366)" unfolding e using b1 b2 by (simp; linarith)
  show "spec_eot (pi / 366) \<le> - 29 / 10" unfolding e using b1 b2 by (simp; linarith)
qed

lemma series_bounds_midyear:
  "39 / 100 \<le> spec_declination (pi - pi / 366)" "spec_declination (pi - pi / 366) \<le> 41 / 100"
  "- 401 / 100 \<le> spec_eot (pi - pi / 366)" "spec_eot (pi - pi / 366) \<le> - 34 / 10"
proof -
  define s1 s2 s3 c1 c2 c3 where "s1 = sin (pi / 366)" and "s2 = sin (2 * (pi / 366))"
    and "s3 = sin (3 * (pi / 366))" and "c1 = cos (pi / 366)" and "c2 = cos (2 * (pi / 366))"
    and "c3 = cos (3 * (pi / 366))"
  note b1 = small_angle [OF day_angle_small(1,2), folded s1_def c1_def]
  note b2 = small_angle [OF day_angle_small(3,4), folded s2_def c2_def]
  note b3 = small_angle [OF day_angle_small(5,6), folded s3_def c3_def]
  have t1: "sin (pi - pi / 366) = s1" "cos (pi - pi / 366) = - c1"
    by (simp_all only: sin_pi_minus cos_pi_minus s1_def c1_def)
  have "2 * (pi - pi / 366) = 2 * pi - 2 * (pi / 366)" by simp
  then have t2: "sin (2 * (pi - pi / 366)) = - s2" "cos (2 * (pi - pi / 366)) = c2"
    by (simp_all only: sin_2pi_minus cos_2pi_minus s2_def c2_def)
  have "3 * (pi - pi / 366) = (pi - 3 * (pi / 366)) + 2 * pi" by simp
  then have t3: "sin (3 * (pi - pi / 366)) = s3" "cos (3 * (pi - pi / 366)) = - c3"
    by (simp_all only: sin_periodic cos_periodic sin_pi_minus cos_pi_minus s3_def c3_def)
  have d: "spec_declination (pi - pi / 366) = 0.006918 + 0.399912 * c1 + 0.070257 * s1 - 0.006758 * c2
     - 0.000907 * s2 + 0.002697 * c3 + 0.00148 * s3"
    unfolding spec_declination_def t1 t2 t3 by simp
  have e: "spec_eot (pi - pi / 366) = 229.18 * (0.000075 - 0.001868 * c1 - 0.032077 * s1 - 0.014615 * c2
     + 0.040849 * s2)"
    unfolding spec_eot_def t1 t2 by simp
  show "39 / 100 \<le> spec_declination (pi - pi / 366)" unfolding d using b1 b2 b3 by (simp; linarith)
  show "spec_declination (pi - pi / 366) \<le> 41 / 100" unfolding d using b1 b2 b3 by (simp; linarith)
  show "- 401 / 100 \<le> spec_eot (pi - pi / 366)" unfolding e using b1 b2 by (simp; linarith)
  show "spec_eot (pi - pi / 366) \<le> - 34 / 10" unfolding e using b1 b2 by (simp; linarith)
qed

lemma sin_39: "38 / 100 \<le> sin (39 / 100 :: real)"
  using sin_lower [of "39 / 100"] by (simp add: power3_eq_cube)

lemma sin_decl_lower:
  fixes x :: real
  assumes "39 / 100 \<le> x" and "x \<le> 1"
  shows "38 / 100 \<le> sin x"
proof -
  have "sin (39 / 100) \<le> sin x"
    using assms pi_ge_two by (intro sin_monotone_2pi_le) simp_all
  with sin_39 show ?thesis by linarith
qed

lemma realMod_id: "0 \<le> x \<Longrightarrow> x < m \<Longrightarrow> realMod x m = x"
proof -
  assume a: "0 \<le> x" "x < m"
  then have "0 < m" by simp
  with a have "\<lfloor>x / m\<rfloor> = 0" by (intro floor_unique) simp_all
  then show ?thesis by (simp add: realMod_def)
qed

lemma realMod_wrap: "- m \<le> x \<Longrightarrow> x < 0 \<Longrightarrow> realMod x m = x + m"
proof -
  assume a: "- m \<le> x" "x < 0"
  then have m: "0 < m" by simp
  have "- 1 \<le> x / m" using a m by (simp add: pos_le_divide_eq)
  moreover have "x / m < 0" using a m by (simp add: divide_neg_pos)
  ultimately have "\<lfloor>x / m\<rfloor> = - 1" by (intro floor_unique) simp_all
  then show ?thesis by (simp add: realMod_def)
qed

text \<open>The azimuth of a direction west of south, and west of north.\<close>

lemma azimuth_south_west:
  assumes e: "e < 0" and n: "n < 0"
  shows "realMod (rad2deg (atan2 e n)) 360 = 180 + rad2deg (arctan (e / n))"
proof -
  have r: "0 < e / n" using e n by (simp add: divide_neg_neg)
  then have "0 < arctan (e / n)" by simp
  moreover have "arctan (e / n) < pi / 2" by (rule arctan_ubound)
  ultimately have t: "0 < arctan (e / n)" "arctan (e / n) < pi / 2" by simp_all
  have a: "atan2 e n = arctan (e / n) - pi" using e n by (simp add: atan2_def)
  have d: "rad2deg (atan2 e n) = rad2deg (arctan (e / n)) - 180"
    by (simp add: a rad2deg_def field_simps)
  have "0 < rad2deg (arctan (e / n))" "rad2deg (arctan (e / n)) < 90"
    using t pi_gt_zero by (simp_all add: rad2deg_def field_simps)
  then have "- 360 \<le> rad2deg (atan2 e n)" "rad2deg (atan2 e n) < 0"
    unfolding d by linarith+
  then have "realMod (rad2deg (atan2 e n)) 360 = rad2deg (atan2 e n) + 360"
    by (rule realMod_wrap)
  then show ?thesis unfolding d by simp
qed

lemma azimuth_north_west:
  assumes e: "e < 0" and n: "0 < n"
  shows "realMod (rad2deg (atan2 e n)) 360 = 360 - rad2deg (arctan (- e / n))"
proof -
  have r: "0 < - e / n" using e n by (intro divide_pos_pos) simp_all
  then have "0 < arctan (- e / n)" by (simp only: zero_less_arctan_iff)
  moreover have "arctan (- e / n) < pi / 2" by (rule arctan_ubound)
  ultimately have t: "0 < arctan (- e / n)" "arctan (- e / n) < pi / 2" by simp_all
  have a: "atan2 e n = - arctan (- e / n)" using e n by (simp add: atan2_def arctan_minus)
  have d: "rad2deg (atan2 e n) = - rad2deg (arctan (- e / n))"
    by (simp add: a rad2deg_def)
  have "0 < rad2deg (arctan (- e / n))" "rad2deg (arctan (- e / n)) < 90"
    using t pi_gt_zero by (simp_all add: rad2deg_def field_simps)
  then have "- 360 \<le> rad2deg (atan2 e n)" "rad2deg (atan2 e n) < 0"
    unfolding d by linarith+
  then have "realMod (rad2deg (atan2 e n)) 360 = rad2deg (atan2 e n) + 360"
    by (rule realMod_wrap)
  then show ?thesis unfolding d by simp
qed

text \<open>A ratio \<open>r\<close> of at most 3 degrees in radians has an arctangent of less than 3 degrees.\<close>

lemma arctan_deg_bound:
  assumes "0 < r" and "r < 3 * pi / 180"
  shows "0 < rad2deg (arctan r)" and "rad2deg (arctan r) < 3"
proof -
  have "0 < arctan r" using assms by simp
  then show "0 < rad2deg (arctan r)" using pi_gt_zero by (simp add: rad2deg_def)
  have "arctan r \<le> r" using assms by (intro arctan_le_self) simp
  with assms have "arctan r < 3 * pi / 180" by linarith
  then show "rad2deg (arctan r) < 3" using pi_gt_zero by (simp add: rad2deg_def field_simps)
qed

text \<open>Near the meridian, a little before its crossing: hour angle between -1.13 degrees
  and 0, declination at least 0.39 radians either side of the equator.\<close>

lemma noon_ratio:
  fixes cd sh sd :: real
  assumes cd: "0 < cd" "cd \<le> 1" and sh: "0 < sh" "sh \<le> (113 / 100) * (pi / 180)"
    and sd: "38 / 100 \<le> sd"
  shows "0 < cd * sh / sd" and "cd * sh / sd < 3 * pi / 180"
proof -
  have sdp: "0 < sd" using sd by linarith
  show "0 < cd * sh / sd" using cd sh sdp by simp
  have "cd * sh \<le> 1 * ((113 / 100) * (pi / 180))"
    using cd sh by (intro mult_mono) simp_all
  then have "cd * sh / sd \<le> ((113 / 100) * (pi / 180)) / (38 / 100)"
    using sd cd sh by (intro frac_le) simp_all
  also have "\<dots> < 3 * pi / 180" using pi_gt_zero by (simp add: field_simps)
  finally show "cd * sh / sd < 3 * pi / 180" .
qed

lemma hour_angle_facts:
  fixes h :: real
  assumes "- ((113 / 100) * (pi / 180)) \<le> h" and "h < 0"
  shows "sin h < 0" and "0 < - sin h" and "- sin h \<le> (113 / 100) * (pi / 180)"
proof -
  have "0 < - h" "- h < pi" using assms pi_gt_zero by simp_all
  then have "0 < sin (- h)" by (rule sin_gt_zero)
  then show "sin h < 0" "0 < - sin h" by simp_all
  have "sin (- h) \<le> - h" using assms by (intro sin_x_le_x) simp
  with assms show "- sin h \<le> (113 / 100) * (pi / 180)" by simp
qed

lemma noon_azimuth_south:
  assumes d: "- 1 / 2 \<le> delta" "delta \<le> - 39 / 100"
    and h: "- ((113 / 100) * (pi / 180)) \<le> h" "h < 0"
  shows "180 < azimuthDeg (spec_horizontal 0 delta h)"
    and "azimuthDeg (spec_horizontal 0 delta h) < 183"
proof -
  have "- (pi / 2) < delta" "delta < pi / 2" using d pi_ge_two by linarith+
  then have "0 < cos delta" by (rule cos_gt_zero_pi)
  then have cd: "0 < cos delta" "cos delta \<le> 1" by simp_all
  have "38 / 100 \<le> sin (- delta)" using d by (intro sin_decl_lower) simp_all
  then have sd: "38 / 100 \<le> - sin delta" by simp
  note sh = hour_angle_facts [OF h]
  have e: "cos delta * sin h < 0" using cd sh by (simp add: mult_pos_neg)
  have n: "sin delta < 0" using sd by linarith
  have q: "cos delta * sin h / sin delta = cos delta * (- sin h) / (- sin delta)" by simp
  note r = noon_ratio [OF cd sh(2,3) sd, folded q]
  have az: "azimuthDeg (spec_horizontal 0 delta h)
      = 180 + rad2deg (arctan (cos delta * sin h / sin delta))"
    using azimuth_south_west [OF e n] by (simp add: spec_horizontal_def rad2deg_def Let_def)
  show "180 < azimuthDeg (spec_horizontal 0 delta h)"
    unfolding az using arctan_deg_bound(1) [OF r] by simp
  show "azimuthDeg (spec_horizontal 0 delta h) < 183"
    unfolding az using arctan_deg_bound(2) [OF r] by simp
qed

lemma noon_azimuth_north:
  assumes d: "39 / 100 \<le> delta" "delta \<le> 1 / 2"
    and h: "- ((113 / 100) * (pi / 180)) \<le> h" "h < 0"
  shows "357 < azimuthDeg (spec_horizontal 0 delta h)"
    and "azimuthDeg (spec_horizontal 0 delta h) < 360"
proof -
  have "- (pi / 2) < delta" "delta < pi / 2" using d pi_ge_two by linarith+
  then have "0 < cos delta" by (rule cos_gt_zero_pi)
  then have cd: "0 < cos delta" "cos delta \<le> 1" by simp_all
  have sd: "38 / 100 \<le> sin delta" using d by (intro sin_decl_lower) simp_all
  note sh = hour_angle_facts [OF h]
  have e: "cos delta * sin h < 0" using cd sh by (simp add: mult_pos_neg)
  have n: "0 < sin delta" using sd by linarith
  have q: "- (cos delta * sin h) / sin delta = cos delta * (- sin h) / sin delta" by simp
  note r = noon_ratio [OF cd sh(2,3) sd, folded q]
  have az: "azimuthDeg (spec_horizontal 0 delta h)
      = 360 - rad2deg (arctan (- (cos delta * sin h) / sin delta))"
    using azimuth_north_west [OF e n] by (simp add: spec_horizontal_def rad2deg_def Let_def)
  show "357 < azimuthDeg (spec_horizontal 0 delta h)"
    unfolding az using arctan_deg_bound(2) [OF r] by simp
  show "azimuthDeg (spec_horizontal 0 delta h) < 360"
    unfolding az using arctan_deg_bound(1) [OF r] by simp
qed

lemma daysInYear_2024: "daysInYear 2024 = 366"
  by (simp add: daysInYear_def isLeapYear_def jsRemInt_def)

lemma yearOf_equatorNoon2024: "yearOf cy equatorNoon2024 = 2024"
  by (simp add: yearOf_def equatorNoon2024_def)

lemma nth_computeAnalemmaPoints:
  assumes "k < daysInYear (yearOf cy inputs)"
  shows "computeAnalemmaPoints cy inputs ! k =
     withDate
       (spec_point (deg2rad (latitudeDeg inputs))
          (spec_declination (spec_orbitalAngle (daysInYear (yearOf cy inputs)) (Suc k)))
          (clampedClockMinutes (timeMode inputs))
          (spec_eot (spec_orbitalAngle (daysInYear (yearOf cy inputs)) (Suc k)))
          (longitudeDeg inputs) (tzOffsetHours inputs))
       (dateFromDayOfYear (yearOf cy inputs) (int (Suc k)))"
proof -
  have "[1..<Suc (daysInYear (yearOf cy inputs))] ! k = Suc k"
    using assms by (simp add: nth_upt del: upt_Suc)
  with assms show ?thesis
    unfolding computeAnalemmaPoints_spec by (simp del: upt_Suc)
qed

lemma orbitalAngle_start: "spec_orbitalAngle 366 (Suc 0) = pi / 366"
  by (simp add: spec_orbitalAngle_def)

lemma orbitalAngle_midyear: "spec_orbitalAngle 366 183 = pi - pi / 366"
  by (simp add: spec_orbitalAngle_def field_simps)

text \<open>The pipeline at 12:00 on the zone meridian: the hour angle is a quarter of the
  equation of time, in degrees.\<close>

lemma spec_point_clock_noon:
  assumes "- 720 \<le> e" and "e < 720"
  shows "spec_point phi delta 720 e 0 0 = spec_horizontal phi delta (deg2rad (e / 4))"
proof -
  have m: "realMod (720 + e) 1440 = 720 + e" using assms by (intro realMod_id) simp_all
  have q: "(720 + e) / 4 - 180 = e / 4" by (simp add: add_divide_distrib)
  have "spec_hourAngleDeg (spec_trueSolarTime 720 e 0 0) = e / 4"
    unfolding spec_hourAngleDeg_def spec_trueSolarTime_def using m q by simp
  then show ?thesis by (simp only: spec_point_def)
qed

lemma deg2rad_small_negative:
  assumes "- (113 / 100) \<le> x" and "x < 0"
  shows "- ((113 / 100) * (pi / 180)) \<le> deg2rad x" and "deg2rad x < 0"
proof -
  have c: "0 < pi / 180" using pi_gt_zero by simp
  have "(- (113 / 100)) * (pi / 180) \<le> x * (pi / 180)"
    using assms(1) c by (intro mult_right_mono) simp_all
  then show "- ((113 / 100) * (pi / 180)) \<le> deg2rad x" by (simp add: deg2rad_def)
  have "x * (pi / 180) < 0" using assms(2) c by (rule mult_neg_pos)
  then show "deg2rad x < 0" by (simp add: deg2rad_def)
qed

lemma equatorNoon2024_point:
  assumes "k < 366"
  shows "computeAnalemmaPoints cy equatorNoon2024 ! k =
     withDate
       (spec_point 0 (spec_declination (spec_orbitalAngle 366 (Suc k))) 720
          (spec_eot (spec_orbitalAngle 366 (Suc k))) 0 0)
       (dateFromDayOfYear 2024 (int (Suc k)))"
proof -
  have "k < daysInYear (yearOf cy equatorNoon2024)"
    using assms by (simp add: yearOf_equatorNoon2024 daysInYear_2024)
  from nth_computeAnalemmaPoints [OF this] show ?thesis
    by (simp add: yearOf_equatorNoon2024 daysInYear_2024)
       (simp add: equatorNoon2024_def clampedClockMinutes_def deg2rad_def)
qed

lemma withDate_fields:
  "azimuthDeg (withDate p d) = azimuthDeg p" "AnalemmaPoint.dateISO (withDate p d) = d"
  by (simp_all add: withDate_def AnalemmaInsetPoint.defs AnalemmaPoint.defs)

lemma date_2024_start: "dateFromDayOfYear 2024 1 = ''2024-01-01''"
  by code_simp

lemma date_2024_midyear: "dateFromDayOfYear 2024 183 = ''2024-07-01''"
  by code_simp

lemma equator_noon_start:
  "AnalemmaPoint.dateISO (computeAnalemmaPoints cy equatorNoon2024 ! 0) = ''2024-01-01''"
  "spec_declination (spec_orbitalAngle 366 1) < 0"
  "180 < azimuthDeg (computeAnalemmaPoints cy equatorNoon2024 ! 0)"
  "azimuthDeg (computeAnalemmaPoints cy equatorNoon2024 ! 0) < 183"
proof -
  note b = series_bounds_start
  have e: "- 720 \<le> spec_eot (pi / 366)" "spec_eot (pi / 366) < 720"
    using b(3,4) by linarith+
  have i: "int (Suc 0) = 1" by simp
  have "computeAnalemmaPoints cy equatorNoon2024 ! 0 =
     withDate
       (spec_point 0 (spec_declination (spec_orbitalAngle 366 (Suc 0))) 720
          (spec_eot (spec_orbitalAngle 366 (Suc 0))) 0 0)
       (dateFromDayOfYear 2024 (int (Suc 0)))"
    by (rule equatorNoon2024_point) simp
  then have p: "computeAnalemmaPoints cy equatorNoon2024 ! 0 =
     withDate (spec_horizontal 0 (spec_declination (pi / 366)) (deg2rad (spec_eot (pi / 366) / 4)))
       ''2024-01-01''"
    by (simp only: orbitalAngle_start i date_2024_start spec_point_clock_noon [OF e])
  have d: "- 1 / 2 \<le> spec_declination (pi / 366)" "spec_declination (pi / 366) \<le> - 39 / 100"
    using b(1,2) by simp_all
  have "- (113 / 100) \<le> spec_eot (pi / 366) / 4" "spec_eot (pi / 366) / 4 < 0"
    using b(3,4) by simp_all
  note h = deg2rad_small_negative [OF this]
  show "AnalemmaPoint.dateISO (computeAnalemmaPoints cy equatorNoon2024 ! 0) = ''2024-01-01''"
    by (simp only: p withDate_fields)
  show "spec_declination (spec_orbitalAngle 366 1) < 0"
    unfolding One_nat_def orbitalAngle_start using d(2) by linarith
  show "180 < azimuthDeg (computeAnalemmaPoints cy equatorNoon2024 ! 0)"
    unfolding p withDate_fields by (rule noon_azimuth_south(1) [OF d h])
  show "azimuthDeg (computeAnalemmaPoints cy equatorNoon2024 ! 0) < 183"
    unfolding p withDate_fields by (rule noon_azimuth_south(2) [OF d h])
qed

lemma equator_noon_midyear:
  "AnalemmaPoint.dateISO (computeAnalemmaPoints cy equatorNoon2024 ! 182) = ''2024-07-01''"
  "0 < spec_declination (spec_orbitalAngle 366 183)"
  "357 < azimuthDeg (computeAnalemmaPoints cy equatorNoon2024 ! 182)"
  "azimuthDeg (computeAnalemmaPoints cy equatorNoon2024 ! 182) < 360"
proof -
  note b = series_bounds_midyear
  have e: "- 720 \<le> spec_eot (pi - pi / 366)" "spec_eot (pi - pi / 366) < 720"
    using b(3,4) by linarith+
  have i: "Suc 182 = 183" "int 183 = 183" by simp_all
  have "computeAnalemmaPoints cy equatorNoon2024 ! 182 =
     withDate
       (spec_point 0 (spec_declination (spec_orbitalAngle 366 (Suc 182))) 720
          (spec_eot (spec_orbitalAngle 366 (Suc 182))) 0 0)
       (dateFromDayOfYear 2024 (int (Suc 182)))"
    by (rule equatorNoon2024_point) simp
  then have p: "computeAnalemmaPoints cy equatorNoon2024 ! 182 =
     withDate (spec_horizontal 0 (spec_declination (pi - pi / 366))
                 (deg2rad (spec_eot (pi - pi / 366) / 4)))
       ''2024-07-01''"
    by (simp only: i orbitalAngle_midyear date_2024_midyear spec_point_clock_noon [OF e])
  have d: "39 / 100 \<le> spec_declination (pi - pi / 366)" "spec_declination (pi - pi / 366) \<le> 1 / 2"
    using b(1,2) by linarith+
  have "- (113 / 100) \<le> spec_eot (pi - pi / 366) / 4" "spec_eot (pi - pi / 366) / 4 < 0"
    using b(3,4) by linarith+
  note h = deg2rad_small_negative [OF this]
  show "AnalemmaPoint.dateISO (computeAnalemmaPoints cy equatorNoon2024 ! 182) = ''2024-07-01''"
    by (simp only: p withDate_fields)
  show "0 < spec_declination (spec_orbitalAngle 366 183)"
    unfolding orbitalAngle_midyear using d(1) by linarith
  show "357 < azimuthDeg (computeAnalemmaPoints cy equatorNoon2024 ! 182)"
    unfolding p withDate_fields by (rule noon_azimuth_north(1) [OF d h])
  show "azimuthDeg (computeAnalemmaPoints cy equatorNoon2024 ! 182) < 360"
    unfolding p withDate_fields by (rule noon_azimuth_north(2) [OF d h])
qed

section \<open>The observer in London at 10:00\<close>

lemma trig_unit_bounds:
  fixes g :: real
  shows "- 1 \<le> cos g" "cos g \<le> 1" "- 1 \<le> sin g" "sin g \<le> 1"
  by simp_all

lemma spec_eot_bounds: "- 21 \<le> spec_eot g" "spec_eot g \<le> 21"
proof -
  note b1 = trig_unit_bounds [of g]
  note b2 = trig_unit_bounds [of "2 * g"]
  show "- 21 \<le> spec_eot g" unfolding spec_eot_def using b1 b2 by (simp; linarith)
  show "spec_eot g \<le> 21" unfolding spec_eot_def using b1 b2 by (simp; linarith)
qed

lemma spec_declination_bounds: "- (1 / 2) \<le> spec_declination g" "spec_declination g \<le> 1 / 2"
proof -
  note b1 = trig_unit_bounds [of g]
  note b2 = trig_unit_bounds [of "2 * g"]
  note b3 = trig_unit_bounds [of "3 * g"]
  show "- (1 / 2) \<le> spec_declination g" unfolding spec_declination_def using b1 b2 b3 by (simp; linarith)
  show "spec_declination g \<le> 1 / 2" unfolding spec_declination_def using b1 b2 b3 by (simp; linarith)
qed

lemma cos_declination_pos: "0 < cos (spec_declination g)"
proof -
  have "- (pi / 2) < spec_declination g" "spec_declination g < pi / 2"
    using spec_declination_bounds [of g] pi_ge_two by linarith+
  then show ?thesis by (rule cos_gt_zero_pi)
qed

text \<open>The hour angle of the London observer at 10:00.\<close>

lemma london_hour_angle:
  assumes "- 21 \<le> e" and "e \<le> 21"
  shows "H_deg (trueSolarTimeMin 600 e (- 0.13) 0) = (e - 13 / 25) / 4 - 30"
    and "- 36 < H_deg (trueSolarTimeMin 600 e (- 0.13) 0)"
    and "H_deg (trueSolarTimeMin 600 e (- 0.13) 0) < - 24"
proof -
  have "realMod (600 + (e + 4 * (- 0.13 - 15 * 0))) 1440 = 600 + (e + 4 * (- 0.13 - 15 * 0))"
    using assms by (intro realMod_id) (simp; linarith)+
  then have t: "trueSolarTimeMin 600 e (- 0.13) 0 = 600 + e - 0.52"
    by (simp add: trueSolarTimeMin_spec spec_trueSolarTime_def)
  show "H_deg (trueSolarTimeMin 600 e (- 0.13) 0) = (e - 13 / 25) / 4 - 30"
    unfolding t by (simp add: H_deg_def field_simps)
  show "- 36 < H_deg (trueSolarTimeMin 600 e (- 0.13) 0)"
    unfolding t using assms by (simp add: H_deg_def; linarith)
  show "H_deg (trueSolarTimeMin 600 e (- 0.13) 0) < - 24"
    unfolding t using assms by (simp add: H_deg_def; linarith)
qed

lemma morning_hour_angle:
  assumes "- 36 < x" and "x < - 24"
  shows "sin (deg2rad x) < 0" and "0 < cos (deg2rad x)"
proof -
  have c: "0 < pi / 180" using pi_gt_zero by simp
  have "x * (pi / 180) < 0" using assms c by (intro mult_neg_pos) simp_all
  then have n: "deg2rad x < 0" by (simp add: deg2rad_def)
  have "(- 36) * (pi / 180) < x * (pi / 180)" using assms c by (intro mult_strict_right_mono) simp_all
  then have l: "- (pi / 5) < deg2rad x" by (simp add: deg2rad_def)
  have "0 < - deg2rad x" "- deg2rad x < pi" using n l pi_gt_zero by linarith+
  then have "0 < sin (- deg2rad x)" by (rule sin_gt_zero)
  then show "sin (deg2rad x) < 0" by simp
  have "- (pi / 2) < deg2rad x" "deg2rad x < pi / 2" using n l pi_gt_zero by linarith+
  then show "0 < cos (deg2rad x)" by (rule cos_gt_zero_pi)
qed

text \<open>The azimuth of a direction with a negative East component.\<close>

lemma azimuth_west:
  assumes e: "e < 0"
  shows "180 < realMod (rad2deg (atan2 e n)) 360" and "realMod (rad2deg (atan2 e n)) 360 < 360"
proof -
  consider (s) "n < 0" | (z) "n = 0" | (p) "0 < n" by linarith
  then have "180 < realMod (rad2deg (atan2 e n)) 360 \<and> realMod (rad2deg (atan2 e n)) 360 < 360"
  proof cases
    case s
    have r: "0 < e / n" using e s by (simp add: divide_neg_neg)
    then have "0 < arctan (e / n)" by simp
    moreover have "arctan (e / n) < pi / 2" by (rule arctan_ubound)
    ultimately have "0 < rad2deg (arctan (e / n))" "rad2deg (arctan (e / n)) < 90"
      using pi_gt_zero by (simp_all add: rad2deg_def field_simps)
    then show ?thesis unfolding azimuth_south_west [OF e s] by simp
  next
    case z
    have "rad2deg (atan2 e n) = - 90" using e z by (simp add: atan2_def rad2deg_def)
    then have "realMod (rad2deg (atan2 e n)) 360 = 270"
      using realMod_wrap [of 360 "- 90"] by simp
    then show ?thesis by simp
  next
    case p
    have r: "0 < - e / n" using e p by (intro divide_pos_pos) simp_all
    then have "0 < arctan (- e / n)" by (simp only: zero_less_arctan_iff)
    moreover have "arctan (- e / n) < pi / 2" by (rule arctan_ubound)
    ultimately have "0 < rad2deg (arctan (- e / n))" "rad2deg (arctan (- e / n)) < 90"
      using pi_gt_zero by (simp_all add: rad2deg_def field_simps)
    then show ?thesis unfolding azimuth_north_west [OF e p] by simp
  qed
  then show "180 < realMod (rad2deg (atan2 e n)) 360" and "realMod (rad2deg (atan2 e n)) 360 < 360"
    by simp_all
qed

lemma azimuth_south_west_range:
  assumes e: "e < 0" and n: "n < 0"
  shows "180 < realMod (rad2deg (atan2 e n)) 360" and "realMod (rad2deg (atan2 e n)) 360 < 270"
proof -
  have r: "0 < e / n" using e n by (simp add: divide_neg_neg)
  then have "0 < arctan (e / n)" by simp
  moreover have "arctan (e / n) < pi / 2" by (rule arctan_ubound)
  ultimately have "0 < rad2deg (arctan (e / n))" "rad2deg (arctan (e / n)) < 90"
    using pi_gt_zero by (simp_all add: rad2deg_def field_simps)
  then show "180 < realMod (rad2deg (atan2 e n)) 360" and "realMod (rad2deg (atan2 e n)) 360 < 270"
    unfolding azimuth_south_west [OF e n] by simp_all
qed

text \<open>Every pass of the loop for the London observer at 10:00.\<close>

lemma london_point:
  "analemmaPoint london1000 yr nDays phi 600 n =
     withDate
       (spec_horizontal phi (spec_declination (spec_orbitalAngle nDays n))
          (deg2rad ((spec_eot (spec_orbitalAngle nDays n) - 13 / 25) / 4 - 30)))
       (dateFromDayOfYear yr (int n))"
proof -
  have "longitudeDeg london1000 = - 0.13" "tzOffsetHours london1000 = 0"
    by (simp_all add: london1000_def)
  then show ?thesis
    by (simp only: analemmaPoint_hour_angle london_hour_angle(1) [OF spec_eot_bounds])
qed

lemma london_point_west:
  "E (analemmaPoint london1000 yr nDays phi 600 n) < 0"
  "180 < azimuthDeg (analemmaPoint london1000 yr nDays phi 600 n)"
  "azimuthDeg (analemmaPoint london1000 yr nDays phi 600 n) < 360"
proof -
  define g where "g = spec_orbitalAngle nDays n"
  define x where "x = (spec_eot g - 13 / 25) / 4 - 30"
  have "- 36 < x" "x < - 24"
    unfolding x_def using spec_eot_bounds [of g] by (simp_all add: field_simps)
  note h = morning_hour_angle [OF this]
  have e: "cos (spec_declination g) * sin (deg2rad x) < 0"
    using cos_declination_pos [of g] h(1) by (rule mult_pos_neg)
  have p: "analemmaPoint london1000 yr nDays phi 600 n =
     withDate (spec_horizontal phi (spec_declination g) (deg2rad x)) (dateFromDayOfYear yr (int n))"
    unfolding g_def x_def by (rule london_point)
  show "E (analemmaPoint london1000 yr nDays phi 600 n) < 0"
    unfolding p using e by (simp add: withDate_def spec_horizontal_def Let_def AnalemmaInsetPoint.defs)
  show "180 < azimuthDeg (analemmaPoint london1000 yr nDays phi 600 n)"
    unfolding p using azimuth_west(1) [OF e]
    by (simp add: withDate_def spec_horizontal_def rad2deg_def Let_def AnalemmaInsetPoint.defs)
  show "azimuthDeg (analemmaPoint london1000 yr nDays phi 600 n) < 360"
    unfolding p using azimuth_west(2) [OF e]
    by (simp add: withDate_def spec_horizontal_def rad2deg_def Let_def AnalemmaInsetPoint.defs)
qed

lemma london_series:
  "computeAnalemmaPoints cy london1000 =
     map (analemmaPoint london1000 2024 366 (deg2rad 51.5) 600) [1..<Suc 366]"
  by (simp add: computeAnalemmaPoints_map yearOf_def london1000_def daysInYear_2024
      clampedClockMinutes_def del: upt_Suc)

lemma london_all_west:
  "list_all (\<lambda>p. E p < 0 \<and> 180 < azimuthDeg p \<and> azimuthDeg p < 360)
     (computeAnalemmaPoints cy london1000)"
  unfolding london_series list_all_iff using london_point_west by (auto simp del: upt_Suc)

lemma pi_bounds: "3 \<le> pi" "pi < 16 / 5"
proof -
  have "sin (pi / 6) \<le> pi / 6" using pi_gt_zero by (intro sin_x_le_x) simp
  then show "3 \<le> pi" by (simp add: sin_30)
  show "pi < 16 / 5"
  proof (rule ccontr)
    assume "\<not> pi < 16 / 5"
    then have a: "8 / 15 \<le> pi / 6" by simp
    have "sin (8 / 15) \<le> sin (pi / 6)"
      using a pi_gt_zero by (intro sin_monotone_2pi_le) simp_all
    moreover have "(8 / 15 :: real) - (8 / 15) ^ 3 / 6 \<le> sin (8 / 15)"
      by (rule sin_lower) simp
    ultimately show False by (simp add: sin_30 power3_eq_cube)
  qed
qed

lemma sin_upper:
  fixes x :: real
  assumes "0 \<le> x"
  shows "sin x \<le> x - x ^ 3 / 6 + x ^ 5 / 120"
proof -
  have s: "{..<5::nat} = {0, 1, 2, 3, 4}" by auto
  have "(\<Sum>m<5. sin_coeff m * x ^ m) = x - x ^ 3 / 6"
    unfolding s by (simp add: sin_coeff_def fact_numeral)
  moreover have "inverse (fact 5) * \<bar>x\<bar> ^ 5 = x ^ 5 / 120"
    using assms by (simp add: fact_numeral)
  ultimately have "\<bar>sin x - (x - x ^ 3 / 6)\<bar> \<le> x ^ 5 / 120"
    using Maclaurin_sin_bound [of x 5] by simp
  then show ?thesis by linarith
qed

text \<open>The latitude of London, in radians.\<close>

lemma london_latitude:
  "0 < sin (deg2rad 51.5)" "sin (deg2rad 51.5) \<le> 796 / 1000"
  "5768 / 10000 \<le> cos (deg2rad 51.5)"
proof -
  define p :: real where "p = deg2rad 51.5"
  have p: "(103 / 120) \<le> p" "p \<le> 23 / 25"
    unfolding p_def deg2rad_def using pi_bounds by simp_all
  have "0 < p" "p < pi" using p pi_bounds by linarith+
  then show "0 < sin (deg2rad 51.5)" unfolding p_def [symmetric] by (rule sin_gt_zero)
  have "sin p \<le> sin (23 / 25)"
    using p pi_bounds by (intro sin_monotone_2pi_le) simp_all
  moreover have "sin (23 / 25 :: real) \<le> 23 / 25 - (23 / 25) ^ 3 / 6 + (23 / 25) ^ 5 / 120"
    by (rule sin_upper) simp
  ultimately show "sin (deg2rad 51.5) \<le> 796 / 1000"
    unfolding p_def [symmetric] by (simp add: eval_nat_numeral)
  have "p\<^sup>2 \<le> (23 / 25)\<^sup>2" using p by (intro power_mono) simp_all
  then show "5768 / 10000 \<le> cos (deg2rad 51.5)"
    unfolding p_def [symmetric] using cos_lower [of p] by (simp add: power2_eq_square)
qed

lemma up_component_positive:
  fixes sp cp sd cd ch :: real
  assumes sp: "0 < sp" "sp \<le> 796 / 1000" and cp: "5768 / 10000 \<le> cp"
    and sd: "- (4025 / 10000) \<le> sd" "sd < 0" and cd: "918 / 1000 \<le> cd" and ch: "848 / 1000 \<le> ch"
  shows "0 < sp * sd + cp * cd * ch" and "cp * sd - sp * cd * ch < 0"
proof -
  have "sp * (- sd) \<le> (796 / 1000) * (4025 / 10000)"
    using sp sd by (intro mult_mono) simp_all
  then have a: "- (32039 / 100000) \<le> sp * sd" by simp
  have m: "(5768 / 10000) * (918 / 1000) \<le> cp * cd"
    using cp cd by (intro mult_mono) simp_all
  then have "0 \<le> cp * cd" by simp
  then have "((5768 / 10000) * (918 / 1000)) * (848 / 1000) \<le> (cp * cd) * ch"
    by (rule mult_mono [OF m ch]) simp
  then have b: "449 / 1000 \<le> cp * cd * ch" by simp
  from a b show "0 < sp * sd + cp * cd * ch" by linarith
  have "0 < cp" "0 < cd" "0 < ch" using cp cd ch by linarith+
  then have "cp * sd < 0" "0 < sp * cd * ch" using sp sd by (simp_all add: mult_pos_neg)
  then show "cp * sd - sp * cd * ch < 0" by linarith
qed

lemma london_first_declination:
  "- (4025 / 10000) \<le> sin (spec_declination (pi / 366))" "sin (spec_declination (pi / 366)) < 0"
  "918 / 1000 \<le> cos (spec_declination (pi / 366))"
proof -
  define d where "d = spec_declination (pi / 366)"
  have d: "- (4025 / 10000) \<le> d" "d \<le> - (39 / 100)"
    unfolding d_def using series_bounds_start(1,2) by simp_all
  have "sin (- d) \<le> - d" using d by (intro sin_x_le_x) simp
  then show "- (4025 / 10000) \<le> sin (spec_declination (pi / 366))"
    unfolding d_def [symmetric] using d by simp
  have "0 < - d" "- d < pi" using d pi_ge_two by linarith+
  then have "0 < sin (- d)" by (rule sin_gt_zero)
  then show "sin (spec_declination (pi / 366)) < 0" unfolding d_def [symmetric] by simp
  have "(- d)\<^sup>2 \<le> (4025 / 10000)\<^sup>2" using d by (intro power_mono) simp_all
  then show "918 / 1000 \<le> cos (spec_declination (pi / 366))"
    unfolding d_def [symmetric] using cos_lower [of d] by (simp add: power2_eq_square)
qed

lemma london_first_hour_angle:
  assumes "- 31 \<le> x" and "x \<le> - 30"
  shows "848 / 1000 \<le> cos (deg2rad x)"
proof -
  define h where "h = deg2rad x"
  have c: "0 \<le> pi / 180" using pi_gt_zero by simp
  have "(- 31) * (pi / 180) \<le> x * (pi / 180)" using assms c by (intro mult_right_mono) simp_all
  then have l: "- (31 * (16 / 5) / 180) \<le> h" unfolding h_def deg2rad_def using pi_bounds by simp
  have "x * (pi / 180) \<le> 0" using assms c by (intro mult_nonpos_nonneg) simp_all
  then have u: "h \<le> 0" by (simp add: h_def deg2rad_def)
  have "(- h)\<^sup>2 \<le> (31 * (16 / 5) / 180)\<^sup>2" using l u by (intro power_mono) simp_all
  then show ?thesis unfolding h_def [symmetric] using cos_lower [of h] by (simp add: power2_eq_square)
qed

lemma arcsin_clamped_pos:
  fixes u :: real
  assumes "0 < u"
  shows "0 < arcsin (max (- 1) (min 1 u)) * 180 / pi"
proof -
  have "0 < max (- 1) (min 1 u)" "max (- 1) (min 1 u) \<le> 1" using assms by simp_all
  then have "arcsin 0 < arcsin (max (- 1) (min 1 u))" by (intro arcsin_less_arcsin) simp_all
  then show ?thesis using pi_gt_zero by simp
qed

lemma london_first_point:
  "AnalemmaPoint.dateISO (computeAnalemmaPoints cy london1000 ! 0) = ''2024-01-01''"
  "E (computeAnalemmaPoints cy london1000 ! 0) < 0"
  "N (computeAnalemmaPoints cy london1000 ! 0) < 0"
  "0 < U (computeAnalemmaPoints cy london1000 ! 0)"
  "0 < altitudeDeg (computeAnalemmaPoints cy london1000 ! 0)"
  "visible (computeAnalemmaPoints cy london1000 ! 0)"
  "180 < azimuthDeg (computeAnalemmaPoints cy london1000 ! 0)"
  "azimuthDeg (computeAnalemmaPoints cy london1000 ! 0) < 270"
proof -
  define d where "d = spec_declination (pi / 366)"
  define x where "x = (spec_eot (pi / 366) - 13 / 25) / 4 - 30"
  define phi :: real where "phi = deg2rad 51.5"
  have "[1..<Suc 366] ! 0 = Suc 0" by (simp add: nth_upt del: upt_Suc)
  then have "computeAnalemmaPoints cy london1000 ! 0 =
      analemmaPoint london1000 2024 366 phi 600 (Suc 0)"
    unfolding london_series phi_def by (simp del: upt_Suc)
  then have p: "computeAnalemmaPoints cy london1000 ! 0 =
      withDate (spec_horizontal phi d (deg2rad x)) ''2024-01-01''"
    unfolding d_def x_def by (simp add: london_point orbitalAngle_start date_2024_start)
  have x: "- 31 \<le> x" "x \<le> - 30"
    unfolding x_def using series_bounds_start(3,4) by (simp_all add: field_simps)
  then have "- 36 < x" "x < - 24" by linarith+
  note h = morning_hour_angle [OF this]
  note ch = london_first_hour_angle [OF x]
  note sd = london_first_declination [folded d_def]
  note lat = london_latitude [folded phi_def]
  have cd: "0 < cos d" using sd(3) by linarith
  have e: "cos d * sin (deg2rad x) < 0" using cd h(1) by (rule mult_pos_neg)
  note un = up_component_positive [OF lat(1,2,3) sd(1,2,3) ch]
  show "AnalemmaPoint.dateISO (computeAnalemmaPoints cy london1000 ! 0) = ''2024-01-01''"
    by (simp only: p withDate_fields)
  show "E (computeAnalemmaPoints cy london1000 ! 0) < 0"
    unfolding p using e by (simp add: withDate_def spec_horizontal_def Let_def AnalemmaInsetPoint.defs)
  show "N (computeAnalemmaPoints cy london1000 ! 0) < 0"
    unfolding p using un(2) by (simp add: withDate_def spec_horizontal_def Let_def AnalemmaInsetPoint.defs)
  show "0 < U (computeAnalemmaPoints cy london1000 ! 0)"
    unfolding p using un(1) by (simp add: withDate_def spec_horizontal_def Let_def AnalemmaInsetPoint.defs)
  have alt: "0 < arcsin (max (- 1) (min 1 (sin phi * sin d + cos phi * cos d * cos (deg2rad x)))) * 180 / pi"
    using un(1) by (rule arcsin_clamped_pos)
  then show "0 < altitudeDeg (computeAnalemmaPoints cy london1000 ! 0)"
    unfolding p by (simp add: withDate_def spec_horizontal_def Let_def AnalemmaInsetPoint.defs)
  from alt show "visible (computeAnalemmaPoints cy london1000 ! 0)"
    unfolding p by (simp add: withDate_def spec_horizontal_def Let_def AnalemmaInsetPoint.defs)
  show "180 < azimuthDeg (computeAnalemmaPoints cy london1000 ! 0)"
    unfolding p using azimuth_south_west_range(1) [OF e un(2)]
    by (simp add: withDate_def spec_horizontal_def rad2deg_def Let_def AnalemmaInsetPoint.defs)
  show "azimuthDeg (computeAnalemmaPoints cy london1000 ! 0) < 270"
    unfolding p using azimuth_south_west_range(2) [OF e un(2)]
    by (simp add: withDate_def spec_horizontal_def rad2deg_def Let_def AnalemmaInsetPoint.defs)
qed

lemma london_first_hour_angle_deg:
  "- 31 \<le> H_deg (trueSolarTimeMin 600 (spec_eot (spec_orbitalAngle 366 1)) (- 0.13) 0)"
  "H_deg (trueSolarTimeMin 600 (spec_eot (spec_orbitalAngle 366 1)) (- 0.13) 0) \<le> - 30"
  unfolding One_nat_def orbitalAngle_start london_hour_angle(1) [OF spec_eot_bounds]
  using series_bounds_start(3,4) by (simp_all add: field_simps)

text \<open>
  Claim C1: the East component of the horizontal transform has the wrong sign, and the
  azimuth derived from it is mirrored about the meridian.  For the observer in London at
  10:00 UTC in 2024 the hour angle is negative on every day (between -31 and -30 degrees
  on 2024-01-01): the Sun is two hours short of the meridian, in the eastern half of the
  sky.  Every one of the 366 points has \<open>E < 0\<close> and an azimuth strictly between 180 and
  360 degrees, the western half of a compass read from north through east; the point of
  2024-01-01 is visible (\<open>U > 0\<close>, altitude positive) with \<open>N < 0\<close> and an azimuth between
  180 and 270 degrees, south-west.
\<close>

theorem morning_sun_reported_west:
  "length (computeAnalemmaPoints cy london1000) = 366 \<and>
   list_all (\<lambda>p. E p < 0 \<and> 180 < azimuthDeg p \<and> azimuthDeg p < 360)
     (computeAnalemmaPoints cy london1000) \<and>
   - 31 \<le> H_deg (trueSolarTimeMin 600 (spec_eot (spec_orbitalAngle 366 1)) (- 0.13) 0) \<and>
   H_deg (trueSolarTimeMin 600 (spec_eot (spec_orbitalAngle 366 1)) (- 0.13) 0) \<le> - 30 \<and>
   AnalemmaPoint.dateISO (computeAnalemmaPoints cy london1000 ! 0) = ''2024-01-01'' \<and>
   E (computeAnalemmaPoints cy london1000 ! 0) < 0 \<and>
   N (computeAnalemmaPoints cy london1000 ! 0) < 0 \<and>
   0 < U (computeAnalemmaPoints cy london1000 ! 0) \<and>
   0 < altitudeDeg (computeAnalemmaPoints cy london1000 ! 0) \<and>
   visible (computeAnalemmaPoints cy london1000 ! 0) \<and>
   180 < azimuthDeg (computeAnalemmaPoints cy london1000 ! 0) \<and>
   azimuthDeg (computeAnalemmaPoints cy london1000 ! 0) < 270"
proof -
  have l: "length (computeAnalemmaPoints cy london1000) = 366"
    by (simp add: london_series del: upt_Suc)
  note a = london_all_west [of cy]
  note h = london_first_hour_angle_deg
  note f = london_first_point [of cy]
  show ?thesis by (intro conjI l a h f)
qed

section \<open>The formulas of the horizontal transform\<close>

lemma compass_points:
  "realMod (rad2deg (atan2 0 1)) 360 = 0" "realMod (rad2deg (atan2 1 0)) 360 = 90"
  "realMod (rad2deg (atan2 0 (- 1))) 360 = 180" "realMod (rad2deg (atan2 (- 1) 0)) 360 = 270"
proof -
  have a: "rad2deg (atan2 0 1) = 0" "rad2deg (atan2 1 0) = 90" "rad2deg (atan2 0 (- 1)) = 180"
    "rad2deg (atan2 (- 1) 0) = - 90"
    by (simp_all add: atan2_def rad2deg_def)
  show "realMod (rad2deg (atan2 0 1)) 360 = 0" unfolding a by (simp add: realMod_def)
  show "realMod (rad2deg (atan2 1 0)) 360 = 90" unfolding a by (rule realMod_id) simp_all
  show "realMod (rad2deg (atan2 0 (- 1))) 360 = 180" unfolding a by (rule realMod_id) simp_all
  show "realMod (rad2deg (atan2 (- 1) 0)) 360 = 270"
    unfolding a using realMod_wrap [of 360 "- 90"] by simp
qed

text \<open>
  The formulas themselves are the ones the loop body evaluates: every point of
  \<^verbatim>\<open>computeAnalemmaPoints\<close> has \<open>E = cos \<delta> sin H\<close>,
  \<open>N = cos \<phi> sin \<delta> - sin \<phi> cos \<delta> cos H\<close>,
  \<open>U = sin \<phi> sin \<delta> + cos \<phi> cos \<delta> cos H\<close>, the altitude is the arcsine of \<open>U\<close>
  clamped to \<open>[-1, 1]\<close>, in degrees, and the azimuth is \<open>atan2(E, N)\<close> in degrees reduced
  into \<open>[0, 360)\<close>.  For the observer on the equator at 12:00 on the zone meridian in
  2024, the point of 2024-01-01 has a negative declination and an azimuth between 180 and
  183 degrees, and the point of 2024-07-01 a positive declination and an azimuth between
  357 and 360 degrees.
\<close>

lemma horizontal_transform:
  "computeAnalemmaPoints cy inputs =
     map (\<lambda>n. let phi = deg2rad (latitudeDeg inputs);
                  delta = spec_declination (spec_orbitalAngle (daysInYear (yearOf cy inputs)) n);
                  h = deg2rad (spec_hourAngleDeg (spec_trueSolarTime
                        (clampedClockMinutes (timeMode inputs))
                        (spec_eot (spec_orbitalAngle (daysInYear (yearOf cy inputs)) n))
                        (longitudeDeg inputs) (tzOffsetHours inputs)));
                  e = cos delta * sin h;
                  n' = cos phi * sin delta - sin phi * cos delta * cos h;
                  u = sin phi * sin delta + cos phi * cos delta * cos h;
                  alt = rad2deg (arcsin (max (- 1) (min 1 u)))
              in \<lparr> azimuthDeg = realMod (rad2deg (atan2 e n')) 360, altitudeDeg = alt,
                   visible = (0 < alt), E = e, N = n', U = u,
                   AnalemmaPoint.dateISO = dateFromDayOfYear (yearOf cy inputs) (int n) \<rparr>)
         [1..<Suc (daysInYear (yearOf cy inputs))] \<and>
   0 \<le> realMod d 360 \<and> realMod d 360 < 360 \<and>
   realMod (rad2deg (atan2 0 1)) 360 = 0 \<and> realMod (rad2deg (atan2 1 0)) 360 = 90 \<and>
   realMod (rad2deg (atan2 0 (- 1))) 360 = 180 \<and> realMod (rad2deg (atan2 (- 1) 0)) 360 = 270 \<and>
   AnalemmaPoint.dateISO (computeAnalemmaPoints cy equatorNoon2024 ! 0) = ''2024-01-01'' \<and>
   spec_declination (spec_orbitalAngle 366 1) < 0 \<and>
   180 < azimuthDeg (computeAnalemmaPoints cy equatorNoon2024 ! 0) \<and>
   azimuthDeg (computeAnalemmaPoints cy equatorNoon2024 ! 0) < 183 \<and>
   AnalemmaPoint.dateISO (computeAnalemmaPoints cy equatorNoon2024 ! 182) = ''2024-07-01'' \<and>
   0 < spec_declination (spec_orbitalAngle 366 183) \<and>
   357 < azimuthDeg (computeAnalemmaPoints cy equatorNoon2024 ! 182) \<and>
   azimuthDeg (computeAnalemmaPoints cy equatorNoon2024 ! 182) < 360"
proof -
  have a: "computeAnalemmaPoints cy inputs =
     map (\<lambda>n. let phi = deg2rad (latitudeDeg inputs);
                  delta = spec_declination (spec_orbitalAngle (daysInYear (yearOf cy inputs)) n);
                  h = deg2rad (spec_hourAngleDeg (spec_trueSolarTime
                        (clampedClockMinutes (timeMode inputs))
                        (spec_eot (spec_orbitalAngle (daysInYear (yearOf cy inputs)) n))
                        (longitudeDeg inputs) (tzOffsetHours inputs)));
                  e = cos delta * sin h;
                  n' = cos phi * sin delta - sin phi * cos delta * cos h;
                  u = sin phi * sin delta + cos phi * cos delta * cos h;
                  alt = rad2deg (arcsin (max (- 1) (min 1 u)))
              in \<lparr> azimuthDeg = realMod (rad2deg (atan2 e n')) 360, altitudeDeg = alt,
                   visible = (0 < alt), E = e, N = n', U = u,
                   AnalemmaPoint.dateISO = dateFromDayOfYear (yearOf cy inputs) (int n) \<rparr>)
         [1..<Suc (daysInYear (yearOf cy inputs))]"
    by (simp add: computeAnalemmaPoints_spec spec_point_def spec_horizontal_def withDate_def
        rad2deg_def Let_def AnalemmaInsetPoint.defs AnalemmaPoint.defs)
  note r = realMod_range [of 360 d, simplified]
  note c = compass_points
  note s = equator_noon_start
  note m = equator_noon_midyear
  show ?thesis
    by (intro conjI a conjunct1 [OF r] conjunct2 [OF r] c s m)
qed

lemma hd_inset_equator_off:
  "N (hd (computeAnalemmaInset cy equatorNoon2024 False False)) = 0"
  by (simp add: hd_computeAnalemmaInset insetPoint_spec spec_point_def spec_horizontal_def
      equatorNoon2024_def deg2rad_def Let_def)

lemma north_component_series: "N (spec_point 0 (spec_declination (pi / 366)) 720 0 0 0) < 0"
proof -
  note b = series_bounds_start
  have "- pi < spec_declination (pi / 366)" using b(1) pi_ge_two by linarith
  moreover have "spec_declination (pi / 366) < 0" using b(2) by linarith
  ultimately have "sin (spec_declination (pi / 366)) < 0"
    using sin_gt_zero [of "- spec_declination (pi / 366)"] by simp
  then show ?thesis
    by (simp add: spec_point_clock_noon spec_horizontal_def deg2rad_def Let_def)
qed

text \<open>
  Claim C3, as stated, fails for \<^verbatim>\<open>computeAnalemmaInset\<close>: with the obliquity switched off
  it uses the declination 0, so the first point of the equatorial observer has \<open>N = 0\<close>,
  where the seven-term series (negative on that day) gives \<open>N < 0\<close>.
\<close>

theorem inset_declination_counterexample:
  "N (hd (computeAnalemmaInset 2025 equatorNoon2024 False False)) = 0 \<and>
   N (spec_point 0 (spec_declination (spec_orbitalAngle 366 1)) 720 0 0 0) < 0 \<and>
   computeAnalemmaInset 2025 equatorNoon2024 False False \<noteq>
     map (\<lambda>n. spec_point 0 (spec_declination (spec_orbitalAngle 366 n)) 720 0 0 0) [1..<Suc 366]"
proof -
  have a: "N (hd (computeAnalemmaInset 2025 equatorNoon2024 False False)) = 0"
    by (rule hd_inset_equator_off)
  have b: "N (spec_point 0 (spec_declination (spec_orbitalAngle 366 1)) 720 0 0 0) < 0"
    unfolding One_nat_def orbitalAngle_start by (rule north_component_series)
  have "hd (map (\<lambda>n. spec_point 0 (spec_declination (spec_orbitalAngle 366 n)) 720 0 0 0)
              [Suc 0..<Suc 366])
        = spec_point 0 (spec_declination (spec_orbitalAngle 366 (Suc 0))) 720 0 0 0"
    by (rule hd_map_days) simp
  with a b have "hd (computeAnalemmaInset 2025 equatorNoon2024 False False) \<noteq>
     hd (map (\<lambda>n. spec_point 0 (spec_declination (spec_orbitalAngle 366 n)) 720 0 0 0)
           [1..<Suc 366])"
    unfolding One_nat_def by auto
  then have "computeAnalemmaInset 2025 equatorNoon2024 False False \<noteq>
     map (\<lambda>n. spec_point 0 (spec_declination (spec_orbitalAngle 366 n)) 720 0 0 0) [1..<Suc 366]"
    by auto
  with a b show ?thesis by (intro conjI)
qed

text \<open>
  Claim C3, amended: for every year with \<open>N\<close> days and every day \<open>n\<close> from 1 to \<open>N\<close>, both
  generators use the orbital angle \<open>\<gamma> = (2\<pi>/N) (n - 1 + 0.5)\<close>;
  \<^verbatim>\<open>computeAnalemmaPoints\<close> always, and \<^verbatim>\<open>computeAnalemmaInset\<close> when
  \<^verbatim>\<open>includeObliquity\<close> is true, use the seven-term declination series with the literal
  coefficients below; with \<^verbatim>\<open>includeObliquity\<close> false the latter uses the declination 0.
\<close>

theorem orbital_angle_and_declination:
  "computeAnalemmaPoints cy inputs =
     map (\<lambda>n. let g = (2 * pi / real (daysInYear (yearOf cy inputs))) * (real n - 1 + 0.5);
                  delta = 0.006918 - 0.399912 * cos g + 0.070257 * sin g - 0.006758 * cos (2 * g)
                          + 0.000907 * sin (2 * g) - 0.002697 * cos (3 * g) + 0.00148 * sin (3 * g)
              in withDate
                   (spec_point (deg2rad (latitudeDeg inputs)) delta
                      (clampedClockMinutes (timeMode inputs)) (spec_eot g)
                      (longitudeDeg inputs) (tzOffsetHours inputs))
                   (dateFromDayOfYear (yearOf cy inputs) (int n)))
         [1..<Suc (daysInYear (yearOf cy inputs))] \<and>
   computeAnalemmaInset cy inputs includeObliquity includeEccentricity =
     map (\<lambda>n. let g = (2 * pi / real (daysInYear (yearOf cy inputs))) * (real n - 1 + 0.5);
                  delta = (if includeObliquity
                           then 0.006918 - 0.399912 * cos g + 0.070257 * sin g
                                - 0.006758 * cos (2 * g) + 0.000907 * sin (2 * g)
                                - 0.002697 * cos (3 * g) + 0.00148 * sin (3 * g)
                           else 0)
              in spec_point (deg2rad (latitudeDeg inputs)) delta
                   (hh (timeMode inputs) * 60 + mm (timeMode inputs))
                   ((if includeObliquity then spec_tilt g else 0)
                    + (if includeEccentricity then spec_eccentricity g else 0))
                   (longitudeDeg inputs) (tzOffsetHours inputs))
         [1..<Suc (daysInYear (yearOf cy inputs))]"
  by (simp add: computeAnalemmaPoints_spec computeAnalemmaInset_spec spec_orbitalAngle_def
      spec_declination_def Let_def)

section \<open>The solar-noon call of the repository's test\<close>

lemma strict2_simps:
  "strict2 f (Some a) (Some b) = Some (f a b)" "strict2 f None y = None" "strict2 f x None = None"
  by (simp_all add: strict2_def split: option.splits)

lemmas num_defs = numAdd_def numSub_def numMul_def numDiv_def numRem_def Math_min_def Math_max_def
  Math_sin_def Math_cos_def Math_asin_def Math_atan2_def numGreater_def deg2rad_rt_def
  rad2deg_rt_def normalizeDeg_rt_def trueSolarTimeMin_rt_def H_deg_rt_def

lemma analemmaLoop_rt_map:
  "analemmaLoop_rt inputs yr nDays phi l n points =
     points @ map (analemmaPoint_rt inputs yr nDays phi l) [n..<Suc nDays]"
proof (induction inputs yr nDays phi l n points rule: analemmaLoop_rt.induct)
  case (1 inputs yr nDays phi l n points)
  show ?case
  proof (cases "n \<le> nDays")
    case True
    then have "[n..<Suc nDays] = n # [Suc n..<Suc nDays]" by (simp add: upt_conv_Cons)
    with True 1 show ?thesis by (simp add: analemmaLoop_rt.simps [of _ _ _ _ _ n])
  next
    case False
    then show ?thesis by (simp add: analemmaLoop_rt.simps [of _ _ _ _ _ n])
  qed
qed

lemma analemmaPoint_rt_nan: "analemmaPoint_rt inputs yr nDays phi None n = nanPoint (dateFromDayOfYear yr (int n))"
  by (simp add: analemmaPoint_rt_def nanPoint_def num_defs strict2_simps Let_def)

lemma testSolarNoon_series:
  "computeAnalemmaPoints_rt cy testSolarNoon =
     map (\<lambda>n. nanPoint (dateFromDayOfYear 2024 (int n))) [1..<Suc 366]"
  by (simp add: computeAnalemmaPoints_rt_def analemmaLoop_rt_map testSolarNoon_def
      Math_min_def Math_max_def numAdd_def numMul_def strict2_simps analemmaPoint_rt_nan
      daysInYear_2024 Let_def del: upt_Suc)

lemma trueSolarTimeMin_rt_Some:
  "trueSolarTimeMin_rt (Some l) (Some e) (Some lon) (Some tz) = Some (trueSolarTimeMin l e lon tz)"
  by (simp add: trueSolarTimeMin_rt_def trueSolarTimeMin_def numAdd_def numSub_def numMul_def
      numRem_def strict2_simps Let_def)

lemma H_deg_rt_Some: "H_deg_rt (Some t) = Some (H_deg t)"
  by (simp add: H_deg_rt_def H_deg_def numSub_def numDiv_def strict2_simps)

lemma deg2rad_rt_Some: "deg2rad_rt (Some d) = Some (deg2rad d)"
  by (simp add: deg2rad_rt_def deg2rad_def numDiv_def numMul_def strict2_simps)

lemma rad2deg_rt_Some: "rad2deg_rt (Some r) = Some (rad2deg r)"
  by (simp add: rad2deg_rt_def rad2deg_def numDiv_def numMul_def strict2_simps)

lemma normalizeDeg_rt_Some: "normalizeDeg_rt (Some d) = Some (normalizeDeg d)"
  by (simp add: normalizeDeg_rt_def normalizeDeg_def numRem_def numAdd_def strict2_simps)

lemma Math_asin_clamped: "Math_asin (Math_max (Some (- 1)) (Math_min (Some 1) (Some u)))
    = Some (arcsin (max (- 1) (min 1 u)))"
  by (simp add: Math_asin_def Math_max_def Math_min_def strict2_simps)

lemma analemmaPoint_rt_typed:
  "analemmaPoint_rt (runtimeInputs k inputs) yr nDays (Some phi) (Some l) n =
     runtimePoint (analemmaPoint inputs yr nDays phi l n)"
  by (simp add: analemmaPoint_rt_def analemmaPoint_def runtimeInputs_def runtimePoint_def
      trueSolarTimeMin_rt_Some H_deg_rt_Some deg2rad_rt_Some rad2deg_rt_Some normalizeDeg_rt_Some
      Math_asin_clamped Math_sin_def Math_cos_def Math_atan2_def numAdd_def numSub_def numMul_def
      numGreater_def strict2_simps Let_def)

lemma computeAnalemmaPoints_rt_typed:
  "computeAnalemmaPoints_rt cy (runtimeInputs k inputs) = map runtimePoint (computeAnalemmaPoints cy inputs)"
proof -
  have "computeAnalemmaPoints_rt cy (runtimeInputs k inputs) =
     map (analemmaPoint_rt (runtimeInputs k inputs) (yearOf cy inputs) (daysInYear (yearOf cy inputs))
            (Some (deg2rad (latitudeDeg inputs))) (Some (clampedClockMinutes (timeMode inputs))))
       [1..<Suc (daysInYear (yearOf cy inputs))]"
    by (simp add: computeAnalemmaPoints_rt_def analemmaLoop_rt_map runtimeInputs_def yearOf_def
        deg2rad_rt_Some clampedClockMinutes_def Math_min_def Math_max_def numAdd_def numMul_def
        strict2_simps Let_def del: upt_Suc)
  then show ?thesis
    by (simp add: analemmaPoint_rt_typed computeAnalemmaPoints_map del: upt_Suc)
qed

lemma nth_days: "k < m \<Longrightarrow> map f [1..<Suc m] ! k = f (Suc k)"
  by (simp add: nth_upt del: upt_Suc)

text \<open>
  Claim C9: the code has no solar-noon mode.  \<^verbatim>\<open>computeAnalemmaPoints\<close> never reads
  \<^verbatim>\<open>kind\<close>; it reads \<^verbatim>\<open>hh\<close> and \<^verbatim>\<open>mm\<close> of whatever time mode it is given.  For the call
  of \<^verbatim>\<open>test-analemma.js\<close>, latitude 0, longitude 0, time mode \<^verbatim>\<open>{ kind: 'solarNoon' }\<close>,
  year 2024, the clock minutes are NaN and the series is 366 points whose azimuth,
  altitude, \<open>E\<close>, \<open>N\<close> and \<open>U\<close> are all NaN and whose \<^verbatim>\<open>visible\<close> is false, among them the
  points of 2024-01-01 and 2024-07-01 that the test looks up; supplying
  \<^verbatim>\<open>tzOffsetHours: 0\<close> changes nothing.  When \<^verbatim>\<open>hh\<close> and \<^verbatim>\<open>mm\<close> are supplied the series is
  the one of that clock time, whatever \<^verbatim>\<open>kind\<close> says.
\<close>

theorem solar_noon_series_not_a_number:
  "computeAnalemmaPoints_rt cy testSolarNoon =
     map (\<lambda>n. \<lparr> dateISO_rt = dateFromDayOfYear 2024 (int n), azimuthDeg_rt = None,
                 altitudeDeg_rt = None, visible_rt = False, E_rt = None, N_rt = None, U_rt = None \<rparr>)
       [1..<Suc 366] \<and>
   length (computeAnalemmaPoints_rt cy testSolarNoon) = 366 \<and>
   computeAnalemmaPoints_rt cy testSolarNoon ! 0 =
     \<lparr> dateISO_rt = ''2024-01-01'', azimuthDeg_rt = None, altitudeDeg_rt = None,
       visible_rt = False, E_rt = None, N_rt = None, U_rt = None \<rparr> \<and>
   computeAnalemmaPoints_rt cy testSolarNoon ! 182 =
     \<lparr> dateISO_rt = ''2024-07-01'', azimuthDeg_rt = None, altitudeDeg_rt = None,
       visible_rt = False, E_rt = None, N_rt = None, U_rt = None \<rparr> \<and>
   computeAnalemmaPoints_rt cy (testSolarNoon\<lparr>tzOffsetHours_rt := Some 0\<rparr>) =
     computeAnalemmaPoints_rt cy testSolarNoon \<and>
   computeAnalemmaPoints_rt cy (runtimeInputs ''solarNoon'' inputs) =
     map runtimePoint (computeAnalemmaPoints cy inputs)"
proof -
  have a: "computeAnalemmaPoints_rt cy testSolarNoon =
     map (\<lambda>n. \<lparr> dateISO_rt = dateFromDayOfYear 2024 (int n), azimuthDeg_rt = None,
                 altitudeDeg_rt = None, visible_rt = False, E_rt = None, N_rt = None, U_rt = None \<rparr>)
       [1..<Suc 366]"
    using testSolarNoon_series [of cy] by (simp add: nanPoint_def del: upt_Suc)
  have l: "length (computeAnalemmaPoints_rt cy testSolarNoon) = 366"
    unfolding a by (simp del: upt_Suc)
  have i: "int (Suc 0) = 1" "int (Suc 182) = 183" by simp_all
  have p0: "computeAnalemmaPoints_rt cy testSolarNoon ! 0 =
     \<lparr> dateISO_rt = ''2024-01-01'', azimuthDeg_rt = None, altitudeDeg_rt = None,
       visible_rt = False, E_rt = None, N_rt = None, U_rt = None \<rparr>"
  proof -
    have "map (\<lambda>n. nanPoint (dateFromDayOfYear 2024 (int n))) [1..<Suc 366] ! 0
          = nanPoint (dateFromDayOfYear 2024 (int (Suc 0)))"
      by (rule nth_days) simp
    then show ?thesis
      unfolding testSolarNoon_series by (simp only: i date_2024_start nanPoint_def)
  qed
  have p182: "computeAnalemmaPoints_rt cy testSolarNoon ! 182 =
     \<lparr> dateISO_rt = ''2024-07-01'', azimuthDeg_rt = None, altitudeDeg_rt = None,
       visible_rt = False, E_rt = None, N_rt = None, U_rt = None \<rparr>"
  proof -
    have "map (\<lambda>n. nanPoint (dateFromDayOfYear 2024 (int n))) [1..<Suc 366] ! 182
          = nanPoint (dateFromDayOfYear 2024 (int (Suc 182)))"
      by (rule nth_days) simp
    then show ?thesis
      unfolding testSolarNoon_series by (simp only: i date_2024_midyear nanPoint_def)
  qed
  have z: "computeAnalemmaPoints_rt cy (testSolarNoon\<lparr>tzOffsetHours_rt := Some 0\<rparr>) =
     computeAnalemmaPoints_rt cy testSolarNoon"
    unfolding testSolarNoon_series
    by (simp add: computeAnalemmaPoints_rt_def analemmaLoop_rt_map testSolarNoon_def
        Math_min_def Math_max_def numAdd_def numMul_def strict2_simps analemmaPoint_rt_nan
        daysInYear_2024 Let_def del: upt_Suc)
  note t = computeAnalemmaPoints_rt_typed [of cy "''solarNoon''" inputs]
  show ?thesis by (intro conjI a l p0 p182 z t)
qed

end
